theory Spec2Isabelle
  imports Complex_Main "HOL-Library.Monad_Syntax" "HOL-Library.Multiset" "HOL-Library.AList"
begin

unbundle bit_operations_syntax

section \<open>Conventions of the embedding\<close>

text \<open>
  The development follows the Go sources \<^verbatim>\<open>quantum.go\<close>, \<^verbatim>\<open>params.go\<close> and the
  DAG/QASM file of q-deck.

  \<^item> A Go \<^verbatim>\<open>int\<close> is a 64-bit two's complement integer. Every integer of the model is an
    \<^typ>\<open>int\<close>; the shift \<^verbatim>\<open>1 << q\<close> and the sums of the circuit and DAG code write the
    wrap-around out (\<open>shl1\<close>, \<open>add64\<close>).
  \<^item> In the simulator, \<^verbatim>\<open>float64\<close> and \<^verbatim>\<open>complex128\<close> are modelled by \<^typ>\<open>real\<close> and
    \<^typ>\<open>complex\<close>: arithmetic is exact, there is no rounding, no overflow, no NaN. The
    parameter expressions have a type of their own for \<^verbatim>\<open>float64\<close>, with the infinities
    and NaN.
  \<^item> A run-time panic (index out of range, negative shift count, negative length) is the
    value \<open>None\<close>; every function that can panic returns an \<open>option\<close>.
  \<^item> A method with a pointer receiver that mutates the receiver takes the state and
    returns the new one.
\<close>

subsection \<open>Shifts, slices and loops\<close>

text \<open>\<^verbatim>\<open>1 << q\<close> on a Go \<^verbatim>\<open>int\<close>: panics for a negative count, wraps at 64 bits.\<close>

definition shl1 :: "int \<Rightarrow> int option" where
  "shl1 q = (if q < 0 then None else Some (signed_take_bit 63 (push_bit (nat q) 1)))"

text \<open>\<^verbatim>\<open>a + b\<close> on Go \<^verbatim>\<open>int\<close>s: the sum wraps at 64 bits.\<close>

definition add64 :: "int \<Rightarrow> int \<Rightarrow> int" where
  "add64 a b = signed_take_bit 63 (a + b)"

text \<open>\<^verbatim>\<open>xs[i]\<close> read and \<^verbatim>\<open>xs[i] = v\<close> write, both panicking out of range.\<close>

definition rd :: "'a list \<Rightarrow> int \<Rightarrow> 'a option" where
  "rd xs i = (if 0 \<le> i \<and> i < int (length xs) then Some (xs ! nat i) else None)"

definition wr :: "'a list \<Rightarrow> int \<Rightarrow> 'a \<Rightarrow> 'a list option" where
  "wr xs i v = (if 0 \<le> i \<and> i < int (length xs) then Some (xs[nat i := v]) else None)"

text \<open>\<^verbatim>\<open>make([]T, n)\<close> with a zero value \<open>z\<close>.\<close>

definition make_slice :: "'a \<Rightarrow> int \<Rightarrow> 'a list option" where
  "make_slice z n = (if n < 0 then None else Some (replicate (nat n) z))"

text \<open>
  A \<^verbatim>\<open>for\<close> loop over the values \<open>xs\<close> whose body updates the loop state and may panic.
  \<^verbatim>\<open>for i := 0; i < n; i++\<close> is \<open>for_each [0..<n]\<close>.
\<close>

fun for_each :: "'a list \<Rightarrow> ('a \<Rightarrow> 's \<Rightarrow> 's option) \<Rightarrow> 's \<Rightarrow> 's option" where
  "for_each [] body s = Some s"
| "for_each (x # xs) body s = (case body x s of None \<Rightarrow> None | Some s' \<Rightarrow> for_each xs body s')"

section \<open>The state-vector simulator (quantum.go)\<close>

record StateVector =
  Amplitudes :: "complex list"
  NumQubits :: int

definition NewStateVector :: "int \<Rightarrow> StateVector option" where
  "NewStateVector numQubits = do {
     n \<leftarrow> shl1 numQubits;
     amps \<leftarrow> make_slice (0::complex) n;
     amps \<leftarrow> wr amps 0 1;
     Some \<lparr>Amplitudes = amps, NumQubits = numQubits\<rparr>
   }"

definition applyH :: "int \<Rightarrow> StateVector \<Rightarrow> StateVector option" where
  "applyH q s = do {
     let hFactor = complex_of_real (1 / sqrt 2);
     let n = length (Amplitudes s);
     bit \<leftarrow> shl1 q;
     newAmps \<leftarrow> for_each [0..<n] (\<lambda>i newAmps.
       if int i AND bit = 0 then do {
         let j = int i OR bit;
         a \<leftarrow> rd (Amplitudes s) (int i);
         b \<leftarrow> rd (Amplitudes s) j;
         newAmps \<leftarrow> wr newAmps (int i) (hFactor * (a + b));
         wr newAmps j (hFactor * (a - b))
       } else Some newAmps) (replicate n (0::complex));
     Some (s\<lparr>Amplitudes := newAmps\<rparr>)
   }"

definition applyX :: "int \<Rightarrow> StateVector \<Rightarrow> StateVector option" where
  "applyX q s = do {
     let n = length (Amplitudes s);
     bit \<leftarrow> shl1 q;
     amps \<leftarrow> for_each [0..<n] (\<lambda>i amps.
       if int i AND bit = 0 then do {
         let j = int i OR bit;
         a \<leftarrow> rd amps (int i);
         b \<leftarrow> rd amps j;
         amps \<leftarrow> wr amps (int i) b;
         wr amps j a
       } else Some amps) (Amplitudes s);
     Some (s\<lparr>Amplitudes := amps\<rparr>)
   }"

definition applyY :: "int \<Rightarrow> StateVector \<Rightarrow> StateVector option" where
  "applyY q s = do {
     let n = length (Amplitudes s);
     bit \<leftarrow> shl1 q;
     amps \<leftarrow> for_each [0..<n] (\<lambda>i amps.
       if int i AND bit = 0 then do {
         let j = int i OR bit;
         a \<leftarrow> rd amps (int i);
         b \<leftarrow> rd amps j;
         amps \<leftarrow> wr amps (int i) (\<i> * b);
         wr amps j (- \<i> * a)
       } else Some amps) (Amplitudes s);
     Some (s\<lparr>Amplitudes := amps\<rparr>)
   }"

definition applyZ :: "int \<Rightarrow> StateVector \<Rightarrow> StateVector option" where
  "applyZ q s = do {
     let n = length (Amplitudes s);
     bit \<leftarrow> shl1 q;
     amps \<leftarrow> for_each [0..<n] (\<lambda>i amps.
       if int i AND bit \<noteq> 0 then do {
         a \<leftarrow> rd amps (int i);
         wr amps (int i) (a * (- 1))
       } else Some amps) (Amplitudes s);
     Some (s\<lparr>Amplitudes := amps\<rparr>)
   }"

definition applyS :: "int \<Rightarrow> bool \<Rightarrow> StateVector \<Rightarrow> StateVector option" where
  "applyS q dagger s = do {
     let n = length (Amplitudes s);
     bit \<leftarrow> shl1 q;
     let factor = (if dagger then - \<i> else \<i>);
     amps \<leftarrow> for_each [0..<n] (\<lambda>i amps.
       if int i AND bit \<noteq> 0 then do {
         a \<leftarrow> rd amps (int i);
         wr amps (int i) (a * factor)
       } else Some amps) (Amplitudes s);
     Some (s\<lparr>Amplitudes := amps\<rparr>)
   }"

definition applyT :: "int \<Rightarrow> bool \<Rightarrow> StateVector \<Rightarrow> StateVector option" where
  "applyT q dagger s = do {
     let n = length (Amplitudes s);
     bit \<leftarrow> shl1 q;
     let factor = (if dagger then exp (Complex 0 (- pi / 4)) else exp (Complex 0 (pi / 4)));
     amps \<leftarrow> for_each [0..<n] (\<lambda>i amps.
       if int i AND bit \<noteq> 0 then do {
         a \<leftarrow> rd amps (int i);
         wr amps (int i) (a * factor)
       } else Some amps) (Amplitudes s);
     Some (s\<lparr>Amplitudes := amps\<rparr>)
   }"

definition applyRX :: "int \<Rightarrow> real \<Rightarrow> StateVector \<Rightarrow> StateVector option" where
  "applyRX q theta s = do {
     let n = length (Amplitudes s);
     bit \<leftarrow> shl1 q;
     let c = Complex (cos (theta / 2)) 0;
     let js = Complex 0 (- sin (theta / 2));
     newAmps \<leftarrow> for_each [0..<n] (\<lambda>i newAmps.
       if int i AND bit = 0 then do {
         let j = int i OR bit;
         a \<leftarrow> rd (Amplitudes s) (int i);
         b \<leftarrow> rd (Amplitudes s) j;
         newAmps \<leftarrow> wr newAmps (int i) (c * a + js * b);
         wr newAmps j (js * a + c * b)
       } else Some newAmps) (replicate n (0::complex));
     Some (s\<lparr>Amplitudes := newAmps\<rparr>)
   }"

definition applyRY :: "int \<Rightarrow> real \<Rightarrow> StateVector \<Rightarrow> StateVector option" where
  "applyRY q theta s = do {
     let n = length (Amplitudes s);
     bit \<leftarrow> shl1 q;
     let c = Complex (cos (theta / 2)) 0;
     let sn = Complex (sin (theta / 2)) 0;
     newAmps \<leftarrow> for_each [0..<n] (\<lambda>i newAmps.
       if int i AND bit = 0 then do {
         let j = int i OR bit;
         a \<leftarrow> rd (Amplitudes s) (int i);
         b \<leftarrow> rd (Amplitudes s) j;
         newAmps \<leftarrow> wr newAmps (int i) (c * a - sn * b);
         wr newAmps j (sn * a + c * b)
       } else Some newAmps) (replicate n (0::complex));
     Some (s\<lparr>Amplitudes := newAmps\<rparr>)
   }"

definition applyRZ :: "int \<Rightarrow> real \<Rightarrow> StateVector \<Rightarrow> StateVector option" where
  "applyRZ q theta s = do {
     let n = length (Amplitudes s);
     bit \<leftarrow> shl1 q;
     let phase = exp (Complex 0 (theta / 2));
     amps \<leftarrow> for_each [0..<n] (\<lambda>i amps.
       if int i AND bit \<noteq> 0 then do {
         a \<leftarrow> rd amps (int i);
         wr amps (int i) (a * phase)
       } else do {
         a \<leftarrow> rd amps (int i);
         wr amps (int i) (a * cnj phase)
       }) (Amplitudes s);
     Some (s\<lparr>Amplitudes := amps\<rparr>)
   }"

definition applyCX :: "int \<Rightarrow> int \<Rightarrow> StateVector \<Rightarrow> StateVector option" where
  "applyCX control target s = do {
     let n = length (Amplitudes s);
     cBit \<leftarrow> shl1 control;
     tBit \<leftarrow> shl1 target;
     amps \<leftarrow> for_each [0..<n] (\<lambda>i amps.
       if int i AND cBit \<noteq> 0 \<and> int i AND tBit = 0 then do {
         let j = int i OR tBit;
         a \<leftarrow> rd amps (int i);
         b \<leftarrow> rd amps j;
         amps \<leftarrow> wr amps (int i) b;
         wr amps j a
       } else Some amps) (Amplitudes s);
     Some (s\<lparr>Amplitudes := amps\<rparr>)
   }"

definition applyCZ :: "int \<Rightarrow> int \<Rightarrow> StateVector \<Rightarrow> StateVector option" where
  "applyCZ control target s = do {
     let n = length (Amplitudes s);
     cBit \<leftarrow> shl1 control;
     tBit \<leftarrow> shl1 target;
     amps \<leftarrow> for_each [0..<n] (\<lambda>i amps.
       if int i AND cBit \<noteq> 0 \<and> int i AND tBit \<noteq> 0 then do {
         a \<leftarrow> rd amps (int i);
         wr amps (int i) (a * (- 1))
       } else Some amps) (Amplitudes s);
     Some (s\<lparr>Amplitudes := amps\<rparr>)
   }"

definition applySWAP :: "int \<Rightarrow> int \<Rightarrow> StateVector \<Rightarrow> StateVector option" where
  "applySWAP q1 q2 s = do {
     let n = length (Amplitudes s);
     bit1 \<leftarrow> shl1 q1;
     bit2 \<leftarrow> shl1 q2;
     amps \<leftarrow> for_each [0..<n] (\<lambda>i amps.
       if int i AND bit1 \<noteq> 0 \<and> int i AND bit2 = 0 then do {
         let j = (int i AND NOT bit1) OR bit2;
         a \<leftarrow> rd amps (int i);
         b \<leftarrow> rd amps j;
         amps \<leftarrow> wr amps (int i) b;
         wr amps j a
       } else Some amps) (Amplitudes s);
     Some (s\<lparr>Amplitudes := amps\<rparr>)
   }"

definition applyReset :: "int \<Rightarrow> StateVector \<Rightarrow> StateVector option" where
  "applyReset q s = do {
     let n = length (Amplitudes s);
     bit \<leftarrow> shl1 q;
     prob0 \<leftarrow> for_each [0..<n] (\<lambda>i prob0.
       if int i AND bit = 0 then do {
         a \<leftarrow> rd (Amplitudes s) (int i);
         Some (prob0 + Re (a * cnj a))
       } else Some prob0) (0::real);
     let norm = (if prob0 > 0 then sqrt prob0 else 1);
     amps \<leftarrow> for_each [0..<n] (\<lambda>i amps.
       if int i AND bit = 0 then do {
         a \<leftarrow> rd amps (int i);
         wr amps (int i) (a / Complex norm 0)
       } else wr amps (int i) 0) (Amplitudes s);
     Some (s\<lparr>Amplitudes := amps\<rparr>)
   }"

text \<open>
  \<^verbatim>\<open>ApplyGate\<close>: the \<^verbatim>\<open>switch\<close> on the gate type, in the source's order. A type that
  no case names (and \<^verbatim>\<open>MEASURE\<close>) leaves the state as it is.
\<close>

definition ApplyGate :: "string \<Rightarrow> int \<Rightarrow> int \<Rightarrow> real list \<Rightarrow> StateVector \<Rightarrow> StateVector option" where
  "ApplyGate gateType target control params s =
    (if gateType = ''H'' then applyH target s
     else if gateType = ''X'' then applyX target s
     else if gateType = ''Y'' then applyY target s
     else if gateType = ''Z'' then applyZ target s
     else if gateType = ''S'' then applyS target False s
     else if gateType = ''SDG'' \<or> gateType = ''Sdg'' then applyS target True s
     else if gateType = ''T'' then applyT target False s
     else if gateType = ''TDG'' \<or> gateType = ''Tdg'' then applyT target True s
     else if gateType = ''RX'' then
       (let theta = (if length params > 0 then params ! 0 else 0) in applyRX target theta s)
     else if gateType = ''RY'' then
       (let theta = (if length params > 0 then params ! 0 else 0) in applyRY target theta s)
     else if gateType = ''RZ'' then
       (let theta = (if length params > 0 then params ! 0 else 0) in applyRZ target theta s)
     else if gateType = ''P'' \<or> gateType = ''U1'' then
       (let theta = (if length params > 0 then params ! 0 else 0) in applyRZ target theta s)
     else if gateType = ''CX'' then (if control \<ge> 0 then applyCX control target s else Some s)
     else if gateType = ''CZ'' then (if control \<ge> 0 then applyCZ control target s else Some s)
     else if gateType = ''SWAP'' then (if control \<ge> 0 then applySWAP control target s else Some s)
     else if gateType = ''RESET'' then applyReset target s
     else Some s)"

record QubitProbability =
  Prob0 :: real
  Prob1 :: real

definition GetQubitProbabilities :: "StateVector \<Rightarrow> QubitProbability list option" where
  "GetQubitProbabilities s = do {
     probs \<leftarrow> make_slice \<lparr>Prob0 = 0, Prob1 = 0\<rparr> (NumQubits s);
     let n = length (Amplitudes s);
     for_each [0..<n] (\<lambda>i probs. do {
       a \<leftarrow> rd (Amplitudes s) (int i);
       let prob = Re (a * cnj a);
       for_each [0..<nat (NumQubits s)] (\<lambda>q probs. do {
         b \<leftarrow> shl1 (int q);
         p \<leftarrow> rd probs (int q);
         if int i AND b \<noteq> 0 then wr probs (int q) (p\<lparr>Prob1 := Prob1 p + prob\<rparr>)
         else wr probs (int q) (p\<lparr>Prob0 := Prob0 p + prob\<rparr>)
       }) probs
     }) probs
   }"

subsection \<open>Gates and circuits\<close>

record Gate =
  Type :: string
  Target :: int
  Control :: int
  Controls :: "int list"
  MeasureSource :: int
  Step :: int
  Params :: "real list"
  IsDagger :: bool
  IsReset :: bool
  ClassicalControl :: int
  IsNoise :: bool
  NoiseType :: string

record Circuit =
  circNumQubits :: int
  Gates :: "Gate list"
  MaxSteps :: int

text \<open>
  The ordering loop of \<^verbatim>\<open>SimulateCircuit\<close>, on the copy \<^verbatim>\<open>gates\<close>:
  \<^verbatim>\<open>for i := range gates { for j := i + 1; j < len(gates); j++ {
      if gates[j].Step < gates[i].Step { gates[i], gates[j] = gates[j], gates[i] } } }\<close>
  All indices are in range, so the loop cannot panic.
\<close>

definition sort_swap :: "nat \<Rightarrow> nat \<Rightarrow> Gate list \<Rightarrow> Gate list" where
  "sort_swap i j gates =
     (if Step (gates ! j) < Step (gates ! i) then gates[i := gates ! j, j := gates ! i] else gates)"

definition sort_inner :: "nat \<Rightarrow> Gate list \<Rightarrow> Gate list" where
  "sort_inner i gates = fold (sort_swap i) [i + 1..<length gates] gates"

definition sortGates :: "Gate list \<Rightarrow> Gate list" where
  "sortGates gates = fold sort_inner [0..<length gates] gates"

text \<open>The gates the application loop skips with \<^verbatim>\<open>continue\<close>, whatever the step bound.\<close>

definition skipped :: "Gate \<Rightarrow> bool" where
  "skipped gate \<longleftrightarrow>
     Type gate = ''BARRIER'' \<or> Type gate = ''MEASURE'' \<or> Type gate = ''MCX''
     \<or> IsNoise gate \<or> ClassicalControl gate \<ge> 0"

definition simulate_gate :: "int \<Rightarrow> Gate \<Rightarrow> StateVector \<Rightarrow> StateVector option" where
  "simulate_gate upToStep gate state =
    (if upToStep \<ge> 0 \<and> Step gate > upToStep then Some state
     else if Type gate = ''BARRIER'' \<or> Type gate = ''MEASURE'' \<or> Type gate = ''MCX'' then Some state
     else if IsNoise gate then Some state
     else if ClassicalControl gate \<ge> 0 then Some state
     else if length (Controls gate) > 0 then
       for_each (Controls gate)
         (\<lambda>ctrl state. ApplyGate (Type gate) (Target gate) ctrl (Params gate) state) state
     else ApplyGate (Type gate) (Target gate) (Control gate) (Params gate) state)"

definition SimulateCircuit :: "Circuit \<Rightarrow> int \<Rightarrow> StateVector option" where
  "SimulateCircuit circuit upToStep =
    (if circNumQubits circuit = 0 then NewStateVector 1
     else do {
       state \<leftarrow> NewStateVector (circNumQubits circuit);
       let gates = sortGates (Gates circuit);
       for_each gates (simulate_gate upToStep) state
     })"

subsection \<open>Building circuits (\<^verbatim>\<open>Circuit.AddGate\<close>, \<^verbatim>\<open>Circuit.AddBarrier\<close>)\<close>

definition Circuit_AddGate :: "string \<Rightarrow> int \<Rightarrow> int \<Rightarrow> int list \<Rightarrow> Circuit \<Rightarrow> Circuit" where
  "Circuit_AddGate gateType target step control c =
    (let ctrl = (if length control > 0 then control ! 0 else - 1);
         c = c\<lparr>Gates := Gates c @ [\<lparr>Type = gateType, Target = target, Control = ctrl,
                 Controls = [], MeasureSource = - 1, Step = step, Params = [], IsDagger = False,
                 IsReset = False, ClassicalControl = - 1, IsNoise = False, NoiseType = ''''\<rparr>]\<rparr>
     in if step \<ge> MaxSteps c then c\<lparr>MaxSteps := add64 step 1\<rparr> else c)"

definition Circuit_AddBarrier :: "int \<Rightarrow> Circuit \<Rightarrow> Circuit" where
  "Circuit_AddBarrier step c =
    (let c = c\<lparr>Gates := filter (\<lambda>g. \<not> (Step g = step \<and> Type g = ''BARRIER'')) (Gates c)\<rparr>;
         c = c\<lparr>Gates := Gates c @ [\<lparr>Type = ''BARRIER'', Target = - 1, Control = - 1,
                 Controls = [], MeasureSource = - 1, Step = step, Params = [], IsDagger = False,
                 IsReset = False, ClassicalControl = - 1, IsNoise = False, NoiseType = ''''\<rparr>]\<rparr>
     in if step \<ge> MaxSteps c then c\<lparr>MaxSteps := add64 step 1\<rparr> else c)"

section \<open>Strings and regular expressions (Go's \<^verbatim>\<open>strings\<close>, \<^verbatim>\<open>strconv\<close>, \<^verbatim>\<open>regexp\<close>)\<close>

text \<open>
  A Go string is a sequence of bytes, and so is the model's \<^typ>\<open>string\<close>; text is read
  as UTF-8 where the library does so.
\<close>

definition isSpace :: "char \<Rightarrow> bool" where
  \<comment> \<open>the ASCII white space: tab, line feed, vertical tab, form feed, carriage return, space\<close>
  "isSpace c \<longleftrightarrow> c \<in> set [CHR 0x09, CHR 0x0A, CHR 0x0B, CHR 0x0C, CHR 0x0D, CHR '' '']"

definition isDigit :: "char \<Rightarrow> bool" where
  "isDigit c \<longleftrightarrow> c \<in> set ''0123456789''"

text \<open>
  The white space of \<^verbatim>\<open>unicode.IsSpace\<close> above \<open>0x7F\<close>, in UTF-8: \<open>U+0085\<close> and \<open>U+00A0\<close>
  take two bytes; \<open>U+1680\<close>, \<open>U+2000\<close> to \<open>U+200A\<close>, \<open>U+2028\<close>, \<open>U+2029\<close>, \<open>U+202F\<close>,
  \<open>U+205F\<close> and \<open>U+3000\<close> take three.
\<close>

definition spaceRunes2 :: "string list" where
  "spaceRunes2 = [[CHR 0xC2, CHR 0x85], [CHR 0xC2, CHR 0xA0]]"

definition spaceRunes3 :: "string list" where
  "spaceRunes3 =
    [[CHR 0xE1, CHR 0x9A, CHR 0x80],
     [CHR 0xE2, CHR 0x80, CHR 0x80], [CHR 0xE2, CHR 0x80, CHR 0x81], [CHR 0xE2, CHR 0x80, CHR 0x82],
     [CHR 0xE2, CHR 0x80, CHR 0x83], [CHR 0xE2, CHR 0x80, CHR 0x84], [CHR 0xE2, CHR 0x80, CHR 0x85],
     [CHR 0xE2, CHR 0x80, CHR 0x86], [CHR 0xE2, CHR 0x80, CHR 0x87], [CHR 0xE2, CHR 0x80, CHR 0x88],
     [CHR 0xE2, CHR 0x80, CHR 0x89], [CHR 0xE2, CHR 0x80, CHR 0x8A],
     [CHR 0xE2, CHR 0x80, CHR 0xA8], [CHR 0xE2, CHR 0x80, CHR 0xA9], [CHR 0xE2, CHR 0x80, CHR 0xAF],
     [CHR 0xE2, CHR 0x81, CHR 0x9F],
     [CHR 0xE3, CHR 0x80, CHR 0x80]]"

text \<open>
  \<^verbatim>\<open>strings.TrimSpace\<close> removes the white-space runes at both ends. \<open>trimLeftSpace\<close>
  removes them from the front. \<open>trimRightSpace\<close> removes them from the back and works
  on the reversed string, where the bytes of a rune come last byte first; a rune is
  decoded from the back by going to the nearest byte that starts a rune, which for the
  byte sequences above is their first byte. A byte that belongs to no well-formed rune
  is no white space.
\<close>

fun trimLeftSpace :: "string \<Rightarrow> string" where
  "trimLeftSpace [] = []"
| "trimLeftSpace (c # cs) =
     (if isSpace c then trimLeftSpace cs
      else if take 2 (c # cs) \<in> set spaceRunes2 then trimLeftSpace (drop 1 cs)
      else if take 3 (c # cs) \<in> set spaceRunes3 then trimLeftSpace (drop 2 cs)
      else c # cs)"

fun trimRightSpace :: "string \<Rightarrow> string" where
  "trimRightSpace [] = []"
| "trimRightSpace (c # cs) =
     (if isSpace c then trimRightSpace cs
      else if rev (take 2 (c # cs)) \<in> set spaceRunes2 then trimRightSpace (drop 1 cs)
      else if rev (take 3 (c # cs)) \<in> set spaceRunes3 then trimRightSpace (drop 2 cs)
      else c # cs)"

definition TrimSpace :: "string \<Rightarrow> string" where
  "TrimSpace s = rev (trimRightSpace (rev (trimLeftSpace s)))"

definition HasPrefix :: "string \<Rightarrow> string \<Rightarrow> bool" where
  \<comment> \<open>\<^verbatim>\<open>strings.HasPrefix(s, prefix)\<close>\<close>
  "HasPrefix s prefix \<longleftrightarrow> take (length prefix) s = prefix"

definition HasSuffix :: "string \<Rightarrow> string \<Rightarrow> bool" where
  "HasSuffix s suffix \<longleftrightarrow> length suffix \<le> length s \<and> drop (length s - length suffix) s = suffix"

definition TrimSuffix :: "string \<Rightarrow> string \<Rightarrow> string" where
  "TrimSuffix s suffix = (if HasSuffix s suffix then take (length s - length suffix) s else s)"

text \<open>\<^verbatim>\<open>strings.Split(s, sep)\<close> for a separator of one byte; the empty string gives \<open>[[]]\<close>.\<close>

fun Split :: "string \<Rightarrow> char \<Rightarrow> string list" where
  "Split [] sep = [[]]"
| "Split (c # cs) sep =
     (if c = sep then [] # Split cs sep
      else (case Split cs sep of [] \<Rightarrow> [[c]] | w # ws \<Rightarrow> (c # w) # ws))"

definition lower_char :: "char \<Rightarrow> char" where
  "lower_char c = (case map_of (zip ''ABCDEFGHIJKLMNOPQRSTUVWXYZ'' ''abcdefghijklmnopqrstuvwxyz'') c
                   of Some d \<Rightarrow> d | None \<Rightarrow> c)"

definition upper_char :: "char \<Rightarrow> char" where
  "upper_char c = (case map_of (zip ''abcdefghijklmnopqrstuvwxyz'' ''ABCDEFGHIJKLMNOPQRSTUVWXYZ'') c
                   of Some d \<Rightarrow> d | None \<Rightarrow> c)"

text \<open>
  \<^verbatim>\<open>strings.ToLower\<close> maps every rune to its lower case. The runes with an ASCII lower
  case are the letters \<^verbatim>\<open>A\<close> to \<^verbatim>\<open>Z\<close>, \<open>U+0130\<close> (lower case \<^verbatim>\<open>i\<close>) and \<open>U+212A\<close> (lower
  case \<^verbatim>\<open>k\<close>); the model maps these. Every other rune above \<open>0x7F\<close> has a lower case above
  \<open>0x7F\<close>, and a byte of no well-formed rune becomes \<open>U+FFFD\<close>: the model leaves such
  bytes as they are, which is all the same to the program, whose only use of the result
  is to match it against \<^verbatim>\<open>piExprRegex\<close>, a pattern of ASCII bytes.
\<close>

fun ToLower :: "string \<Rightarrow> string" where
  "ToLower [] = []"
| "ToLower (c # cs) =
     (if take 2 (c # cs) = [CHR 0xC4, CHR 0xB0] then CHR ''i'' # ToLower (drop 1 cs)
      else if take 3 (c # cs) = [CHR 0xE2, CHR 0x84, CHR 0xAA] then CHR ''k'' # ToLower (drop 2 cs)
      else lower_char c # ToLower cs)"

declare ToLower.simps [simp del]

text \<open>
  \<^verbatim>\<open>strings.ToUpper\<close>, on ASCII text: the program applies it to matches of \<^verbatim>\<open>\w+\<close> only.
\<close>

definition ToUpper :: "string \<Rightarrow> string" where
  "ToUpper s = map upper_char s"

subsection \<open>Numbers in decimal notation\<close>

definition digit_val :: "char \<Rightarrow> nat" where
  "digit_val c = of_char c - 48"

definition dec :: "string \<Rightarrow> nat" where
  \<comment> \<open>the value of a string of decimal digits\<close>
  "dec ds = foldl (\<lambda>a c. 10 * a + digit_val c) 0 ds"

text \<open>
  \<^verbatim>\<open>strconv.Atoi\<close>: the value and whether the conversion succeeded. A syntax error gives
  the value 0, a value out of the range of \<^verbatim>\<open>int\<close> gives the nearest bound; both are
  errors. The callers that write \<^verbatim>\<open>n, _ := strconv.Atoi(s)\<close> use the value alone.
\<close>

definition Atoi :: "string \<Rightarrow> int \<times> bool" where
  "Atoi s =
    (let neg = (s \<noteq> [] \<and> hd s = CHR ''-'');
         ds = (if s \<noteq> [] \<and> (hd s = CHR ''-'' \<or> hd s = CHR ''+'') then tl s else s)
     in if ds = [] \<or> \<not> list_all isDigit ds then (0, False)
        else let v = (if neg then - int (dec ds) else int (dec ds))
             in if v > 2 ^ 63 - 1 then (2 ^ 63 - 1, False)
                else if v < - (2 ^ 63) then (- (2 ^ 63), False)
                else (v, True))"

text \<open>\<^verbatim>\<open>fmt.Sprintf("%d", n)\<close>.\<close>

function show_nat :: "nat \<Rightarrow> string" where
  "show_nat n = (if n < 10 then [''0123456789'' ! n]
                 else show_nat (n div 10) @ [''0123456789'' ! (n mod 10)])"
  by pat_completeness auto
termination
  by (relation "measure id") auto

definition show_int :: "int \<Rightarrow> string" where
  "show_int n = (if n < 0 then CHR ''-'' # show_nat (nat (- n)) else show_nat (nat n))"

subsection \<open>Floating-point numbers\<close>

text \<open>
  A \<^verbatim>\<open>float64\<close> of the parameter expressions: a real number, an infinity or NaN. A
  real number stands for the \<^verbatim>\<open>float64\<close> nearest to it; the loss of precision (the cut
  of the mantissa to 53 bits) is not modelled, the overflow to an infinity and the
  underflow to zero are. The two zeros are one value.

  \<open>overflow64\<close> is the least magnitude that rounds to an infinity (half a unit in the
  last place above the largest \<^verbatim>\<open>float64\<close>, \<open>2\<^sup>1\<^sup>0\<^sup>2\<^sup>4 - 2\<^sup>9\<^sup>7\<^sup>1\<close>), \<open>underflow64\<close> the greatest
  magnitude that rounds to zero (half the least positive \<^verbatim>\<open>float64\<close>, \<open>2\<^sup>-\<^sup>1\<^sup>0\<^sup>7\<^sup>4\<close>).
\<close>

datatype float64 = Fin real | PInf | NInf | NaN

definition overflow64 :: real where
  "overflow64 = 2 ^ 1024 - 2 ^ 970"

definition underflow64 :: real where
  "underflow64 = 1 / 2 ^ 1075"

definition round64 :: "real \<Rightarrow> float64" where
  "round64 x =
     (if x \<ge> overflow64 then PInf
      else if x \<le> - overflow64 then NInf
      else if \<bar>x\<bar> \<le> underflow64 then Fin 0
      else Fin x)"

definition is_neg :: "float64 \<Rightarrow> bool" where
  "is_neg a = (case a of Fin x \<Rightarrow> x < 0 | NInf \<Rightarrow> True | _ \<Rightarrow> False)"

fun fneg :: "float64 \<Rightarrow> float64" where
  "fneg (Fin x) = Fin (- x)"
| "fneg PInf = NInf"
| "fneg NInf = PInf"
| "fneg NaN = NaN"

fun fmul :: "float64 \<Rightarrow> float64 \<Rightarrow> float64" where
  "fmul (Fin x) (Fin y) = round64 (x * y)"
| "fmul NaN b = NaN"
| "fmul a NaN = NaN"
| "fmul a b = (if a = Fin 0 \<or> b = Fin 0 then NaN
               else if is_neg a = is_neg b then PInf else NInf)"

text \<open>
  Division. A quotient by zero has the sign of the dividend here: the sign of the zero
  is not modelled. (The program divides by a number it has compared with zero.)
\<close>

fun fdiv :: "float64 \<Rightarrow> float64 \<Rightarrow> float64" where
  "fdiv (Fin x) (Fin y) =
     (if y = 0 then (if x = 0 then NaN else if x > 0 then PInf else NInf)
      else round64 (x / y))"
| "fdiv NaN b = NaN"
| "fdiv a NaN = NaN"
| "fdiv (Fin x) b = Fin 0"
| "fdiv a (Fin y) = (if is_neg a = (y < 0) then PInf else NInf)"
| "fdiv a b = NaN"

text \<open>
  \<^verbatim>\<open>strconv.ParseFloat(s, 64)\<close>; \<open>None\<close> is an error. All of \<open>s\<close> has to be one of

    \<^item> \<^verbatim>\<open>inf\<close> or \<^verbatim>\<open>infinity\<close> with an optional sign, or \<^verbatim>\<open>nan\<close> without one, in any mix
      of upper and lower case (\<open>special\<close>);
    \<^item> a decimal number: an optional sign, digits with an optional point (at least one
      digit), an optional exponent \<^verbatim>\<open>e\<close> or \<^verbatim>\<open>E\<close> with optional sign and digits;
    \<^item> a hexadecimal number: an optional sign, \<^verbatim>\<open>0x\<close> or \<^verbatim>\<open>0X\<close>, hexadecimal digits with an
      optional point (at least one digit), and an exponent \<^verbatim>\<open>p\<close> or \<^verbatim>\<open>P\<close> with optional
      sign and decimal digits, which counts powers of two.

  Underscores are skipped among the digits and, after its first digit, in the exponent;
  a text with underscores is accepted when \<open>underscoreOK\<close> holds: each underscore stands
  between two digits or between the base prefix and a digit. The exponent is read as
  the library reads it: once the number read so far has reached 10000, further digits
  are dropped. A number that rounds to an infinity is a range error.
\<close>

definition special :: "string \<Rightarrow> float64 option" where
  "special s =
    (let l = map lower_char s
     in if l \<in> set [''inf'', ''+inf'', ''infinity'', ''+infinity''] then Some PInf
        else if l \<in> set [''-inf'', ''-infinity''] then Some NInf
        else if l = ''nan'' then Some NaN
        else None)"

definition isHexLetter :: "char \<Rightarrow> bool" where
  "isHexLetter c \<longleftrightarrow> c \<in> set ''abcdefABCDEF''"

definition hex_digit_val :: "char \<Rightarrow> nat" where
  "hex_digit_val c =
     (if isDigit c then of_char c - 48
      else if c \<in> set ''abcdef'' then of_char c - 87
      else of_char c - 55)"

definition hexval :: "string \<Rightarrow> nat" where
  \<comment> \<open>the value of a string of hexadecimal digits\<close>
  "hexval ds = foldl (\<lambda>a c. 16 * a + hex_digit_val c) 0 ds"

text \<open>
  The digits of the mantissa: the digits before the point, the digits after it, and the
  text that follows the mantissa. A second point ends the mantissa.
\<close>

fun read_mant :: "bool \<Rightarrow> bool \<Rightarrow> string \<Rightarrow> string \<times> string \<times> string" where
  "read_mant hex sawdot [] = ([], [], [])"
| "read_mant hex sawdot (c # cs) =
     (if c = CHR ''_'' then read_mant hex sawdot cs
      else if c = CHR ''.'' then
        (if sawdot then ([], [], c # cs)
         else (case read_mant hex True cs of (ip, fp, r) \<Rightarrow> ([], fp, r)))
      else if isDigit c \<or> (hex \<and> isHexLetter c) then
        (case read_mant hex sawdot cs of (ip, fp, r) \<Rightarrow>
           if sawdot then ([], c # fp, r) else (c # ip, fp, r))
      else ([], [], c # cs))"

definition exp_val :: "string \<Rightarrow> nat" where
  "exp_val ds = foldl (\<lambda>e c. if c = CHR ''_'' then e
                               else if e < 10000 then e * 10 + digit_val c else e) 0 ds"

fun underscore_scan :: "bool \<Rightarrow> char \<Rightarrow> string \<Rightarrow> bool" where
  "underscore_scan hex saw [] \<longleftrightarrow> saw \<noteq> CHR ''_''"
| "underscore_scan hex saw (c # cs) \<longleftrightarrow>
     (if isDigit c \<or> (hex \<and> isHexLetter c) then underscore_scan hex CHR ''0'' cs
      else if c = CHR ''_'' then (if saw \<noteq> CHR ''0'' then False else underscore_scan hex CHR ''_'' cs)
      else if saw = CHR ''_'' then False
      else underscore_scan hex CHR ''!'' cs)"

definition underscoreOK :: "string \<Rightarrow> bool" where
  "underscoreOK s0 \<longleftrightarrow>
    (let s = (if s0 \<noteq> [] \<and> (hd s0 = CHR ''-'' \<or> hd s0 = CHR ''+'') then tl s0 else s0)
     in if length s \<ge> 2 \<and> hd s = CHR ''0'' \<and> hd (tl s) \<in> set ''bBoOxX''
        then underscore_scan (hd (tl s) \<in> set ''xX'') CHR ''0'' (drop 2 s)
        else underscore_scan False CHR ''^'' s)"

definition pow_int :: "real \<Rightarrow> int \<Rightarrow> real" where
  "pow_int b k = (if k \<ge> 0 then b ^ nat k else 1 / b ^ nat (- k))"

text \<open>
  \<open>readFloat\<close>: the number that a decimal or hexadecimal text denotes, \<open>None\<close> when
  the text is not well formed or does not end with the number.
\<close>

definition readFloat :: "string \<Rightarrow> real option" where
  "readFloat s =
    (let neg = (s \<noteq> [] \<and> hd s = CHR ''-'');
         s1 = (if s \<noteq> [] \<and> (hd s = CHR ''-'' \<or> hd s = CHR ''+'') then tl s else s);
         hex = (length s1 > 2 \<and> hd s1 = CHR ''0'' \<and> hd (tl s1) \<in> set ''xX'');
         mant = read_mant hex False (if hex then drop 2 s1 else s1);
         ds = fst mant @ fst (snd mant);
         nfrac = length (fst (snd mant));
         r = snd (snd mant);
         m = (if neg then - 1 else 1) * (if hex then real (hexval ds) else real (dec ds));
         badUnderscores = (CHR ''_'' \<in> set s \<and> \<not> underscoreOK s)
     in if ds = [] then None
        else if r \<noteq> [] \<and> hd r \<in> set (if hex then ''pP'' else ''eE'') then
          (let r1 = tl r;
               eneg = (r1 \<noteq> [] \<and> hd r1 = CHR ''-'');
               r2 = (if r1 \<noteq> [] \<and> (hd r1 = CHR ''-'' \<or> hd r1 = CHR ''+'') then tl r1 else r1);
               e = (if eneg then - int (exp_val r2) else int (exp_val r2))
           in if r2 = [] \<or> \<not> isDigit (hd r2) \<or> \<not> list_all (\<lambda>c. isDigit c \<or> c = CHR ''_'') r2
              then None
              else if badUnderscores then None
              else Some (if hex then m * pow_int 2 (e - 4 * int nfrac)
                         else m * pow_int 10 (e - int nfrac)))
        else if hex \<or> r \<noteq> [] then None
        else if badUnderscores then None
        else Some (m * pow_int 10 (- int nfrac)))"

definition ParseFloat :: "string \<Rightarrow> float64 option" where
  "ParseFloat s =
    (case special s of
       Some f \<Rightarrow> Some f
     | None \<Rightarrow>
        (case readFloat s of
           None \<Rightarrow> None
         | Some v \<Rightarrow> if \<bar>v\<bar> \<ge> overflow64 then None else Some (round64 v)))"

subsection \<open>Regular expressions\<close>

text \<open>
  The part of Go's \<^verbatim>\<open>regexp\<close> syntax that the program's patterns use: a byte, a class
  of bytes, sequence, alternative, greedy star, capture group, the empty pattern.
\<close>

datatype regex =
    RChr char
  | RCls string
  | RSeq regex regex
  | RAlt regex regex
  | RStar regex
  | RGrp nat regex
  | REps

definition ROpt :: "regex \<Rightarrow> regex" where
  \<comment> \<open>\<^verbatim>\<open>r?\<close>\<close>
  "ROpt r = RAlt r REps"

definition RPlus :: "regex \<Rightarrow> regex" where
  \<comment> \<open>\<^verbatim>\<open>r+\<close>\<close>
  "RPlus r = RSeq r (RStar r)"

definition RSeqs :: "regex list \<Rightarrow> regex" where
  "RSeqs rs = foldr RSeq rs REps"

definition RLit :: "string \<Rightarrow> regex" where
  \<comment> \<open>a literal string\<close>
  "RLit s = RSeqs (map RChr s)"

definition cls_d :: regex where
  \<comment> \<open>\<^verbatim>\<open>\d\<close>\<close>
  "cls_d = RCls ''0123456789''"

definition cls_w :: regex where
  \<comment> \<open>\<^verbatim>\<open>\w\<close>\<close>
  "cls_w = RCls ''0123456789ABCDEFGHIJKLMNOPQRSTUVWXYZ_abcdefghijklmnopqrstuvwxyz''"

definition cls_s :: regex where
  \<comment> \<open>\<^verbatim>\<open>\s\<close>: tab, line feed, form feed, carriage return, space\<close>
  "cls_s = RCls [CHR 0x09, CHR 0x0A, CHR 0x0C, CHR 0x0D, CHR '' '']"

text \<open>
  A matcher state is the input still to be read and the groups captured so far. The
  matcher lists every way a pattern can match a prefix of the input, in the order in
  which Go's leftmost-first (backtracking) semantics prefers them: the first alternative
  before the second, one more iteration of a star before stopping. \<open>star_iter\<close>
  iterates a star; an iteration has to consume input (every starred pattern of the
  program matches at least one byte, so this drops no match).
\<close>

type_synonym mstate = "string \<times> string list"

function star_iter :: "(mstate \<Rightarrow> mstate list) \<Rightarrow> mstate \<Rightarrow> mstate list" where
  "star_iter step x =
     concat (map (star_iter step) (filter (\<lambda>y. length (fst y) < length (fst x)) (step x))) @ [x]"
  by pat_completeness auto
termination
  by (relation "measure (\<lambda>(step, x). length (fst x))") auto

primrec rmatch :: "regex \<Rightarrow> mstate \<Rightarrow> mstate list" where
  "rmatch (RChr a) x = (case fst x of [] \<Rightarrow> [] | c # cs \<Rightarrow> if c = a then [(cs, snd x)] else [])"
| "rmatch (RCls as) x = (case fst x of [] \<Rightarrow> [] | c # cs \<Rightarrow> if c \<in> set as then [(cs, snd x)] else [])"
| "rmatch (RSeq r1 r2) x = concat (map (rmatch r2) (rmatch r1 x))"
| "rmatch (RAlt r1 r2) x = rmatch r1 x @ rmatch r2 x"
| "rmatch (RStar r) x = star_iter (rmatch r) x"
| "rmatch (RGrp n r) x =
     map (\<lambda>y. (fst y, (snd y)[n := take (length (fst x) - length (fst y)) (fst x)])) (rmatch r x)"
| "rmatch REps x = [x]"

text \<open>
  \<^verbatim>\<open>FindStringSubmatch\<close> for a pattern \<^verbatim>\<open>^r$\<close> with \<open>n\<close> groups: the first match that
  reads the whole input; element 0 is the whole match, a group that took no part is
  the empty string. \<open>None\<close> is Go's \<^verbatim>\<open>nil\<close>.
\<close>

definition match_full :: "regex \<Rightarrow> nat \<Rightarrow> string \<Rightarrow> string list option" where
  "match_full r n s =
     (case filter (\<lambda>y. fst y = []) (rmatch r (s, replicate (Suc n) [])) of
        [] \<Rightarrow> None
      | y # _ \<Rightarrow> Some ((snd y)[0 := s]))"

text \<open>\<^verbatim>\<open>MatchString\<close> for a pattern \<^verbatim>\<open>^r\<close>: some prefix of the input matches.\<close>

definition match_prefix :: "regex \<Rightarrow> string \<Rightarrow> bool" where
  "match_prefix r s \<longleftrightarrow> rmatch r (s, [[]]) \<noteq> []"

text \<open>
  \<^verbatim>\<open>FindStringSubmatch\<close> for a pattern without anchors: the leftmost position at which
  the pattern matches, and the preferred match there.
\<close>

fun match_find :: "regex \<Rightarrow> nat \<Rightarrow> string \<Rightarrow> string list option" where
  "match_find r n s =
     (case rmatch r (s, replicate (Suc n) []) of
        y # _ \<Rightarrow> Some ((snd y)[0 := take (length s - length (fst y)) s])
      | [] \<Rightarrow> (case s of [] \<Rightarrow> None | _ # cs \<Rightarrow> match_find r n cs))"

declare match_find.simps [simp del]


section \<open>Parameter expressions (params.go)\<close>

text \<open>
  \<^verbatim>\<open>paramPattern\<close>:
  \<^verbatim>\<open>-?(?:\d*\.?\d*\*?pi(?:/\d+\.?\d*)?|\d+\.?\d*(?:[eE][+\-]?\d+)?)\<close>
\<close>

definition paramPattern :: regex where
  "paramPattern =
     RSeq (ROpt (RChr CHR ''-''))
       (RAlt (RSeqs [RStar cls_d, ROpt (RChr CHR ''.''), RStar cls_d, ROpt (RChr CHR ''*''), RLit ''pi'',
                   ROpt (RSeqs [RChr CHR ''/'', RPlus cls_d, ROpt (RChr CHR ''.''), RStar cls_d])])
            (RSeqs [RPlus cls_d, ROpt (RChr CHR ''.''), RStar cls_d,
                   ROpt (RSeqs [RCls ''eE'', ROpt (RCls ''+-''), RPlus cls_d])]))"

text \<open>\<^verbatim>\<open>piExprRegex\<close>: \<^verbatim>\<open>^(-?)(\d*\.?\d*)\s*\*?\s*pi(?:\s*/\s*(\d+\.?\d*))?$\<close>\<close>

definition piExprRegex :: regex where
  "piExprRegex =
     RSeqs [RGrp 1 (ROpt (RChr CHR ''-'')),
           RGrp 2 (RSeqs [RStar cls_d, ROpt (RChr CHR ''.''), RStar cls_d]),
           RStar cls_s, ROpt (RChr CHR ''*''), RStar cls_s, RLit ''pi'',
           ROpt (RSeqs [RStar cls_s, RChr CHR ''/'', RStar cls_s,
                      RGrp 3 (RSeqs [RPlus cls_d, ROpt (RChr CHR ''.''), RStar cls_d])])]"

text \<open>\<^verbatim>\<open>parseParamExpr\<close>: \<open>None\<close> is the result \<^verbatim>\<open>(0, false)\<close>.\<close>

definition parseParamExpr :: "string \<Rightarrow> float64 option" where
  "parseParamExpr s0 =
    (let s = TrimSpace s0 in
     if s = [] then None
     else case ParseFloat s of
       Some val \<Rightarrow> Some val
     | None \<Rightarrow>
        (let s = ToLower s in
         case match_full piExprRegex 3 s of
           Some matches \<Rightarrow>
             (let negative = (matches ! 1 = ''-'');
                  coeffStr = matches ! 2;
                  denomStr = matches ! 3
              in case (if coeffStr \<noteq> [] then ParseFloat coeffStr else Some (Fin 1)) of
                   None \<Rightarrow> None
                 | Some coeff \<Rightarrow>
                    (let result = fmul coeff (Fin pi)
                     in case (if denomStr \<noteq> []
                              then (case ParseFloat denomStr of
                                      None \<Rightarrow> None
                                    | Some denom \<Rightarrow>
                                        if denom = Fin 0 then None else Some (fdiv result denom))
                              else Some result) of
                          None \<Rightarrow> None
                        | Some result \<Rightarrow> Some (if negative then fneg result else result)))
         | None \<Rightarrow> None))"

text \<open>The table of \<^verbatim>\<open>formatParam\<close>, in the source's order.\<close>

definition piForms :: "(real \<times> string) list" where
  "piForms =
    [(2 * pi, ''2*pi''),
     (pi, ''pi''),
     (pi / 2, ''pi/2''),
     (pi / 3, ''pi/3''),
     (pi / 4, ''pi/4''),
     (pi / 6, ''pi/6''),
     (pi / 8, ''pi/8''),
     (3 * pi / 4, ''3*pi/4''),
     (3 * pi / 2, ''3*pi/2''),
     (2 * pi / 3, ''2*pi/3'')]"

text \<open>
  \<^verbatim>\<open>math.Abs(val - x) < 1e-10\<close>, which is false when \<open>val\<close> is an infinity or NaN.
  (\<^verbatim>\<open>math.Abs(val + x) < 1e-10\<close> is \<open>near val (- x)\<close>.)
\<close>

definition near :: "float64 \<Rightarrow> real \<Rightarrow> bool" where
  "near val x = (case val of Fin v \<Rightarrow> \<bar>v - x\<bar> < 1 / 10 ^ 10 | _ \<Rightarrow> False)"

fun formatParam_scan :: "(real \<times> string) list \<Rightarrow> float64 \<Rightarrow> string option" where
  "formatParam_scan [] val = None"
| "formatParam_scan (pf # rest) val =
     (if near val (fst pf) then Some (snd pf)
      else if near val (- fst pf) then Some (''-'' @ snd pf)
      else formatParam_scan rest val)"

text \<open>
  \<^verbatim>\<open>formatParam\<close>. The fall-back \<^verbatim>\<open>fmt.Sprintf("%g", val)\<close> prints a \<^verbatim>\<open>float64\<close> in its
  shortest decimal form; it is a parameter of the model (\<open>sprintf_g\<close>).
\<close>

definition formatParam :: "(float64 \<Rightarrow> string) \<Rightarrow> float64 \<Rightarrow> string" where
  "formatParam sprintf_g val =
     (case formatParam_scan piForms val of Some display \<Rightarrow> display | None \<Rightarrow> sprintf_g val)"

text \<open>
  \<^verbatim>\<open>parseParams\<close>: \<open>None\<close> is the \<^verbatim>\<open>nil\<close> slice (returned on a failure, and also when no
  part had any text: \<^verbatim>\<open>params\<close> is still \<^verbatim>\<open>nil\<close> then), \<open>Some ps\<close> a slice with the
  elements \<open>ps\<close>. The receiver \<^verbatim>\<open>m\<close> is not used.

  The loop is written once, over the two functions it calls on a part
  (\<^verbatim>\<open>strings.TrimSpace\<close> and \<^verbatim>\<open>parseParamExpr\<close> in the program), so that what is proved
  of the loop does not depend on how these two are modelled.
\<close>

fun parseParams_loop ::
  "(string \<Rightarrow> string) \<Rightarrow> (string \<Rightarrow> 'a option) \<Rightarrow> string list \<Rightarrow> 'a list option \<Rightarrow> 'a list option" where
  "parseParams_loop trim parse [] params = params"
| "parseParams_loop trim parse (part # parts) params =
     (let part = trim part in
      if part = [] then parseParams_loop trim parse parts params
      else case parse part of
             None \<Rightarrow> None
           | Some val \<Rightarrow> parseParams_loop trim parse parts
                          (Some ((case params of None \<Rightarrow> [] | Some ps \<Rightarrow> ps) @ [val])))"

definition parseParams :: "string \<Rightarrow> float64 list option" where
  "parseParams input = parseParams_loop TrimSpace parseParamExpr (Split input CHR '','') None"

section \<open>The circuit DAG and the QASM decoder\<close>

text \<open>
  The fields of \<^verbatim>\<open>DAGNode\<close> carry the prefix \<open>n\<close> (\<open>nType\<close> is the field \<^verbatim>\<open>Type\<close>), and
  \<open>dagNumQubits\<close> is the field \<^verbatim>\<open>NumQubits\<close> of \<^verbatim>\<open>CircuitDAG\<close>: the names without prefix
  are those of \<^verbatim>\<open>Gate\<close> and \<^verbatim>\<open>StateVector\<close>.

  The Go map \<^verbatim>\<open>Nodes\<close> is an association list with distinct keys. Go leaves the order
  in which a \<^verbatim>\<open>range\<close> loop visits a map unspecified; the model visits the entries in
  the order of the list (the order in which the keys were first stored). The same holds
  for the other maps of the decoder.
\<close>

record DAGNode =
  nID :: string
  nType :: string
  nTarget :: int
  nControl :: int
  nControls :: "int list"
  nMeasureSource :: int
  nStep :: int
  nParams :: "float64 list"
  nIsDagger :: bool
  nIsReset :: bool
  nClassicalControl :: int
  nIsNoise :: bool
  nNoiseType :: string
  nDependencies :: "string list"

record CircuitDAG =
  Nodes :: "(string \<times> DAGNode) list"
  dagNumQubits :: int
  NumCbits :: int
  rootNodes :: "string list"

text \<open>A \<^verbatim>\<open>DAGNode\<close> literal leaves the fields it does not name at their zero values.\<close>

definition zero_node :: DAGNode where
  "zero_node = \<lparr>nID = [], nType = [], nTarget = 0, nControl = 0, nControls = [],
     nMeasureSource = 0, nStep = 0, nParams = [], nIsDagger = False, nIsReset = False,
     nClassicalControl = 0, nIsNoise = False, nNoiseType = [], nDependencies = []\<rparr>"

definition NewCircuitDAG :: CircuitDAG where
  "NewCircuitDAG = \<lparr>Nodes = [], dagNumQubits = 0, NumCbits = 0, rootNodes = []\<rparr>"

definition generateNodeID :: "string \<Rightarrow> int \<Rightarrow> int \<Rightarrow> string" where
  \<comment> \<open>\<^verbatim>\<open>fmt.Sprintf("%s_q%d_s%d", gateType, target, step)\<close>\<close>
  "generateNodeID gateType target step = gateType @ ''_q'' @ show_int target @ ''_s'' @ show_int step"

definition updateRootNodes :: "CircuitDAG \<Rightarrow> CircuitDAG" where
  "updateRootNodes dag =
     dag\<lparr>rootNodes := map fst (filter (\<lambda>e. length (nDependencies (snd e)) = 0) (Nodes dag))\<rparr>"

definition AddNode :: "CircuitDAG \<Rightarrow> DAGNode \<Rightarrow> CircuitDAG" where
  "AddNode dag0 node0 =
    (let node = (if nID node0 = [] then node0\<lparr>nID := generateNodeID (nType node0) (nTarget node0) (nStep node0)\<rparr>
                 else node0);
         dag = dag0\<lparr>Nodes := AList.update (nID node) node (Nodes dag0)\<rparr>;
         dag = updateRootNodes dag;
         maxQubit = nTarget node;
         maxQubit = (if nControl node > maxQubit then nControl node else maxQubit);
         maxQubit = fold (\<lambda>ctrl m. if ctrl > m then ctrl else m) (nControls node) maxQubit;
         maxQubit = (if nMeasureSource node > maxQubit then nMeasureSource node else maxQubit);
         dag = (if add64 maxQubit 1 > dagNumQubits dag then dag\<lparr>dagNumQubits := add64 maxQubit 1\<rparr> else dag);
         dag = (if nClassicalControl node \<ge> NumCbits dag
                then dag\<lparr>NumCbits := add64 (nClassicalControl node) 1\<rparr> else dag);
         dag = (if nType node = ''MEASURE'' \<and> add64 (nTarget node) 1 > NumCbits dag
                then dag\<lparr>NumCbits := add64 (nTarget node) 1\<rparr> else dag);
         dag = (if nMeasureSource node \<ge> 0 \<and> add64 (nMeasureSource node) 1 > NumCbits dag
                then dag\<lparr>NumCbits := add64 (nMeasureSource node) 1\<rparr> else dag)
     in dag)"

definition RemoveNode :: "CircuitDAG \<Rightarrow> string \<Rightarrow> CircuitDAG" where
  "RemoveNode dag nodeID =
     updateRootNodes (dag\<lparr>Nodes :=
       map (\<lambda>e. (fst e, (snd e)\<lparr>nDependencies := filter (\<lambda>dep. dep \<noteq> nodeID) (nDependencies (snd e))\<rparr>))
           (AList.delete nodeID (Nodes dag))\<rparr>)"

definition AddBarrier :: "CircuitDAG \<Rightarrow> int \<Rightarrow> CircuitDAG" where
  "AddBarrier dag step =
    (let toRemove = map fst (filter (\<lambda>e. nStep (snd e) = step \<and> nType (snd e) = ''BARRIER'') (Nodes dag));
         dag = fold (\<lambda>id dag. RemoveNode dag id) toRemove dag;
         node = zero_node\<lparr>nType := ''BARRIER'', nTarget := - 1, nControl := - 1, nStep := step,
                           nClassicalControl := - 1, nMeasureSource := - 1, nDependencies := []\<rparr>;
         node = node\<lparr>nID := generateNodeID ''BARRIER'' (- 1) step\<rparr>
     in AddNode dag node)"

text \<open>
  \<^verbatim>\<open>GetNodeAt\<close> returns the first node that the loop over the map finds at the step and
  the qubit: \<open>None\<close> is \<^verbatim>\<open>nil\<close>.
\<close>

definition GetNodeAt :: "CircuitDAG \<Rightarrow> int \<Rightarrow> int \<Rightarrow> DAGNode option" where
  "GetNodeAt dag step qubit =
     find (\<lambda>node. nStep node = step \<and>
                   ((nTarget node = qubit \<or> nControl node = qubit \<or> nMeasureSource node = qubit)
                    \<or> qubit \<in> set (nControls node)))
          (map snd (Nodes dag))"

fun CanPlaceGateAt :: "CircuitDAG \<Rightarrow> int \<Rightarrow> int list \<Rightarrow> bool" where
  "CanPlaceGateAt dag step [] = True"
| "CanPlaceGateAt dag step (qubit # qubits) =
     (case GetNodeAt dag step qubit of
        None \<Rightarrow> CanPlaceGateAt dag step qubits
      | Some node \<Rightarrow>
          if nType node = ''BARRIER'' then False
          else if nControl node \<ge> 0 \<or> length (nControls node) > 0 \<or> nMeasureSource node \<ge> 0 then False
          else CanPlaceGateAt dag step qubits)"

subsection \<open>The patterns of the decoder\<close>

definition qidx :: "nat \<Rightarrow> regex" where
  \<comment> \<open>\<^verbatim>\<open>q\[(\d+)\]\<close> with the group number \<open>n\<close>\<close>
  "qidx n = RSeqs [RLit ''q['', RGrp n (RPlus cls_d), RChr CHR '']'']"

definition semi_opt :: regex where
  \<comment> \<open>\<^verbatim>\<open>;?\<close>\<close>
  "semi_opt = ROpt (RChr CHR '';'')"

text \<open>\<^verbatim>\<open>^(\w+)\s+q\[(\d+)\];?$\<close>\<close>

definition singleGateRegex :: regex where
  "singleGateRegex = RSeqs [RGrp 1 (RPlus cls_w), RPlus cls_s, qidx 2, semi_opt]"

text \<open>\<^verbatim>\<open>^(\w+)\s*\(\s*(P(?:\s*,\s*P)*)\s*\)\s+q\[(\d+)\];?$\<close> with \<^verbatim>\<open>P\<close> the \<^verbatim>\<open>paramPattern\<close>\<close>

definition singleGateParamRegex :: regex where
  "singleGateParamRegex =
     RSeqs [RGrp 1 (RPlus cls_w), RStar cls_s, RChr CHR ''('', RStar cls_s,
            RGrp 2 (RSeq paramPattern
                      (RStar (RSeqs [RStar cls_s, RChr CHR '','', RStar cls_s, paramPattern]))),
            RStar cls_s, RChr CHR '')'', RPlus cls_s, qidx 3, semi_opt]"

text \<open>\<^verbatim>\<open>^(\w+)\s+q\[(\d+)\],\s*q\[(\d+)\];?$\<close>\<close>

definition twoQubitRegex :: regex where
  "twoQubitRegex =
     RSeqs [RGrp 1 (RPlus cls_w), RPlus cls_s, qidx 2, RChr CHR '','', RStar cls_s, qidx 3, semi_opt]"

text \<open>\<^verbatim>\<open>^(\w+)\s*\(\s*(P)\s*\)\s+q\[(\d+)\],\s*q\[(\d+)\];?$\<close>\<close>

definition twoQubitParamRegex :: regex where
  "twoQubitParamRegex =
     RSeqs [RGrp 1 (RPlus cls_w), RStar cls_s, RChr CHR ''('', RStar cls_s, RGrp 2 paramPattern,
            RStar cls_s, RChr CHR '')'', RPlus cls_s, qidx 3, RChr CHR '','', RStar cls_s, qidx 4,
            semi_opt]"

text \<open>\<^verbatim>\<open>^(\w+)\s+q\[(\d+)\],\s*q\[(\d+)\],\s*q\[(\d+)\];?$\<close>\<close>

definition threeQubitRegex :: regex where
  "threeQubitRegex =
     RSeqs [RGrp 1 (RPlus cls_w), RPlus cls_s, qidx 2, RChr CHR '','', RStar cls_s, qidx 3,
            RChr CHR '','', RStar cls_s, qidx 4, semi_opt]"

text \<open>\<^verbatim>\<open>^measure\s+q\[(\d+)\]\s*->\s*(\w+)\[(\d+)\];?$\<close>\<close>

definition measureRegex :: regex where
  "measureRegex =
     RSeqs [RLit ''measure'', RPlus cls_s, qidx 1, RStar cls_s, RLit ''->'', RStar cls_s,
            RGrp 2 (RPlus cls_w), RChr CHR ''['', RGrp 3 (RPlus cls_d), RChr CHR '']'', semi_opt]"

text \<open>\<^verbatim>\<open>^reset\s+q\[(\d+)\];?$\<close>\<close>

definition resetRegex :: regex where
  "resetRegex = RSeqs [RLit ''reset'', RPlus cls_s, qidx 1, semi_opt]"

text \<open>The common head of the two conditional patterns:
  \<^verbatim>\<open>if\s*\(\s*(\w+)(?:\[(\d+)\])?\s*==\s*(\d+)\s*\)\s+(\w+)\<close>\<close>

definition if_head :: regex where
  "if_head =
     RSeqs [RLit ''if'', RStar cls_s, RChr CHR ''('', RStar cls_s, RGrp 1 (RPlus cls_w),
            ROpt (RSeqs [RChr CHR ''['', RGrp 2 (RPlus cls_d), RChr CHR '']'']),
            RStar cls_s, RLit ''=='', RStar cls_s, RGrp 3 (RPlus cls_d), RStar cls_s,
            RChr CHR '')'', RPlus cls_s, RGrp 4 (RPlus cls_w)]"

text \<open>\<^verbatim>\<open>^if\s*\(\s*(\w+)(?:\[(\d+)\])?\s*==\s*(\d+)\s*\)\s+(\w+)\s+q\[(\d+)\];?$\<close>\<close>

definition ifRegex :: regex where
  "ifRegex = RSeqs [if_head, RPlus cls_s, qidx 5, semi_opt]"

text \<open>\<^verbatim>\<open>^if\s*\(\s*(\w+)(?:\[(\d+)\])?\s*==\s*(\d+)\s*\)\s+(\w+)\s*\(\s*(P)\s*\)\s+q\[(\d+)\];?$\<close>\<close>

definition ifParamRegex :: regex where
  "ifParamRegex =
     RSeqs [if_head, RStar cls_s, RChr CHR ''('', RStar cls_s, RGrp 5 paramPattern, RStar cls_s,
            RChr CHR '')'', RPlus cls_s, qidx 6, semi_opt]"

text \<open>\<^verbatim>\<open>qreg\s+(\w+)\[(\d+)\]\<close> and \<^verbatim>\<open>creg\s+(\w+)\[(\d+)\]\<close>, without anchors\<close>

definition qregRegex :: regex where
  "qregRegex = RSeqs [RLit ''qreg'', RPlus cls_s, RGrp 1 (RPlus cls_w), RChr CHR ''['',
                      RGrp 2 (RPlus cls_d), RChr CHR '']'']"

definition cregRegex :: regex where
  "cregRegex = RSeqs [RLit ''creg'', RPlus cls_s, RGrp 1 (RPlus cls_w), RChr CHR ''['',
                      RGrp 2 (RPlus cls_d), RChr CHR '']'']"

text \<open>\<^verbatim>\<open>^//\s*noise\s+(\w+)\s+q\[(\d+)\](?:\s+param=(P))?$\<close>\<close>

definition noiseRegex :: regex where
  "noiseRegex =
     RSeqs [RLit ''//'', RStar cls_s, RLit ''noise'', RPlus cls_s, RGrp 1 (RPlus cls_w), RPlus cls_s,
            qidx 2, ROpt (RSeqs [RPlus cls_s, RLit ''param='', RGrp 3 paramPattern])]"

text \<open>\<^verbatim>\<open>^barrier\s+\<close>\<close>

definition barrierRegex :: regex where
  "barrierRegex = RSeq (RLit ''barrier'') (RPlus cls_s)"

subsection \<open>The decoder\<close>

text \<open>The closure \<^verbatim>\<open>resolveCBit\<close> of \<^verbatim>\<open>ParseQASM\<close>, with the map it reads as an argument.\<close>

definition resolveCBit :: "(string \<times> int) list \<Rightarrow> string \<Rightarrow> string \<Rightarrow> int" where
  "resolveCBit cregMap regName bitIdx =
    (case map_of cregMap regName of
       None \<Rightarrow>
         (if HasPrefix regName ''c'' \<and> snd (Atoi (drop 1 regName)) then fst (Atoi (drop 1 regName))
          else 0)
     | Some startBit \<Rightarrow>
         (if bitIdx \<noteq> [] then add64 startBit (fst (Atoi bitIdx)) else startBit))"

text \<open>The closure \<^verbatim>\<open>getQubitsUsed\<close>.\<close>

definition getQubitsUsed :: "DAGNode \<Rightarrow> int list" where
  "getQubitsUsed node =
     [nTarget node] @ (if nControl node \<ge> 0 then [nControl node] else []) @ nControls node
       @ (if nMeasureSource node \<ge> 0 then [nMeasureSource node] else [])"

definition param_or_zero :: "string \<Rightarrow> float64" where
  \<comment> \<open>\<^verbatim>\<open>param, _ := parseParamExpr(s)\<close>\<close>
  "param_or_zero s = (case parseParamExpr s of Some p \<Rightarrow> p | None \<Rightarrow> Fin 0)"

text \<open>
  \<^verbatim>\<open>parseGateLine\<close>. \<open>rest\<close> is the lines after the current one (\<^verbatim>\<open>lines[*idx+1:]\<close>);
  the second result tells whether the function moved \<^verbatim>\<open>*idx\<close> past the next line. The
  patterns are tried in the source's order.
\<close>

definition parseGateLine ::
  "(string \<times> int) list \<Rightarrow> string \<Rightarrow> string list \<Rightarrow> DAGNode option \<times> bool" where
  "parseGateLine cregMap line rest =
    (case match_full resetRegex 1 line of
       Some matches \<Rightarrow>
         (Some (zero_node\<lparr>nType := ''RESET'', nTarget := fst (Atoi (matches ! 1)), nControl := - 1,
                           nMeasureSource := - 1, nIsReset := True, nClassicalControl := - 1,
                           nDependencies := []\<rparr>), False)
     | None \<Rightarrow>
    if match_prefix barrierRegex line then
         (Some (zero_node\<lparr>nType := ''BARRIER'', nTarget := - 1, nControl := - 1,
                           nMeasureSource := - 1, nClassicalControl := - 1, nDependencies := []\<rparr>), False)
    else
    (case match_full measureRegex 3 line of
       Some matches \<Rightarrow>
         (let source = fst (Atoi (matches ! 1));
              cbit = resolveCBit cregMap (matches ! 2) (matches ! 3);
              plain = (Some (zero_node\<lparr>nType := ''MEASURE'', nTarget := source, nControl := - 1,
                               nMeasureSource := - 1, nClassicalControl := - 1,
                               nDependencies := []\<rparr>), False)
          in case rest of
               [] \<Rightarrow> plain
             | next # _ \<Rightarrow>
                 (case match_full ifRegex 5 (TrimSpace next) of
                    None \<Rightarrow> plain
                  | Some ifMatches \<Rightarrow>
                      (let condBit = resolveCBit cregMap (ifMatches ! 1) (ifMatches ! 2);
                           target = fst (Atoi (ifMatches ! 5))
                       in if condBit = cbit
                          then (Some (zero_node\<lparr>nType := ''MCX'', nTarget := target, nControl := - 1,
                                        nMeasureSource := source, nClassicalControl := - 1,
                                        nDependencies := []\<rparr>), True)
                          else plain)))
     | None \<Rightarrow>
    (case match_full ifParamRegex 6 line of
       Some matches \<Rightarrow>
         (Some (zero_node\<lparr>nType := ToUpper (matches ! 4), nTarget := fst (Atoi (matches ! 6)),
                           nControl := - 1, nParams := [param_or_zero (matches ! 5)],
                           nClassicalControl := resolveCBit cregMap (matches ! 1) (matches ! 2),
                           nMeasureSource := - 1, nDependencies := []\<rparr>), False)
     | None \<Rightarrow>
    (case match_full ifRegex 5 line of
       Some matches \<Rightarrow>
         (Some (zero_node\<lparr>nType := ToUpper (matches ! 4), nTarget := fst (Atoi (matches ! 5)),
                           nControl := - 1,
                           nClassicalControl := resolveCBit cregMap (matches ! 1) (matches ! 2),
                           nMeasureSource := - 1, nDependencies := []\<rparr>), False)
     | None \<Rightarrow>
    (case match_full threeQubitRegex 4 line of
       Some matches \<Rightarrow>
         (Some (zero_node\<lparr>nType := ToUpper (matches ! 1), nTarget := fst (Atoi (matches ! 4)),
                           nControl := - 1,
                           nControls := [fst (Atoi (matches ! 2)), fst (Atoi (matches ! 3))],
                           nClassicalControl := - 1, nMeasureSource := - 1,
                           nDependencies := []\<rparr>), False)
     | None \<Rightarrow>
    (case match_full twoQubitParamRegex 4 line of
       Some matches \<Rightarrow>
         (Some (zero_node\<lparr>nType := ToUpper (matches ! 1), nTarget := fst (Atoi (matches ! 4)),
                           nControl := fst (Atoi (matches ! 3)),
                           nParams := [param_or_zero (matches ! 2)],
                           nClassicalControl := - 1, nMeasureSource := - 1,
                           nDependencies := []\<rparr>), False)
     | None \<Rightarrow>
    (case match_full twoQubitRegex 3 line of
       Some matches \<Rightarrow>
         (Some (zero_node\<lparr>nType := ToUpper (matches ! 1), nTarget := fst (Atoi (matches ! 3)),
                           nControl := fst (Atoi (matches ! 2)),
                           nClassicalControl := - 1, nMeasureSource := - 1,
                           nDependencies := []\<rparr>), False)
     | None \<Rightarrow>
    (case match_full singleGateParamRegex 3 line of
       Some matches \<Rightarrow>
         (let params = concat (map (\<lambda>pStr. case parseParamExpr (TrimSpace pStr) of
                                                Some p \<Rightarrow> [p] | None \<Rightarrow> [])
                                   (Split (matches ! 2) CHR '',''))
          in (Some (zero_node\<lparr>nType := ToUpper (matches ! 1), nTarget := fst (Atoi (matches ! 3)),
                               nControl := - 1, nParams := params,
                               nClassicalControl := - 1, nMeasureSource := - 1,
                               nDependencies := []\<rparr>), False))
     | None \<Rightarrow>
    (case match_full singleGateRegex 2 line of
       Some matches \<Rightarrow>
         (let gateType = ToUpper (matches ! 1);
              isDagger = False;
              dg = (HasSuffix gateType ''DG'' \<or> HasSuffix gateType ''dg'');
              isDagger = (if dg then True else isDagger);
              gateType = (if dg then TrimSuffix (TrimSuffix gateType ''DG'') ''dg'' else gateType);
              baseGate = gateType;
              sq = (HasPrefix gateType ''SX'' \<or> HasPrefix gateType ''SY'' \<or> HasPrefix gateType ''SZ'');
              dg2 = (sq \<and> (HasSuffix gateType ''DG'' \<or> HasSuffix gateType ''dg''));
              isDagger = (if dg2 then True else isDagger);
              baseGate = (if dg2 then TrimSuffix (TrimSuffix gateType ''DG'') ''dg'' else baseGate)
          in (Some (zero_node\<lparr>nType := baseGate, nTarget := fst (Atoi (matches ! 2)),
                               nControl := - 1, nIsDagger := isDagger,
                               nClassicalControl := - 1, nMeasureSource := - 1,
                               nDependencies := []\<rparr>), False))
     | None \<Rightarrow> (None, False))))))))))"

text \<open>The variables of the loop of \<^verbatim>\<open>ParseQASM\<close>.\<close>

record parse_state =
  psDag :: CircuitDAG
  cregMap :: "(string \<times> int) list"
  cregOffset :: int
  lastGateOnQubit :: "(int \<times> string) list"
  currentStepQubits :: "int list"
  currentStep :: int

text \<open>
  The set \<^verbatim>\<open>depSet\<close> of the last nodes on the qubits used, then appended to the
  dependencies of the node (in the order in which the identifiers were first met).
\<close>

definition depsOf :: "(int \<times> string) list \<Rightarrow> int list \<Rightarrow> string list" where
  "depsOf lastGate qubitsUsed =
     remdups (concat (map (\<lambda>qubit. case map_of lastGate qubit of Some lastID \<Rightarrow> [lastID] | None \<Rightarrow> [])
                          qubitsUsed))"

definition parseNoiseLine :: "string list \<Rightarrow> int \<Rightarrow> parse_state \<Rightarrow> parse_state" where
  "parseNoiseLine matches step st =
    (let noiseType = matches ! 1;
         target = fst (Atoi (matches ! 2));
         params = (if matches ! 3 \<noteq> []
                   then (case parseParamExpr (matches ! 3) of Some param \<Rightarrow> [param] | None \<Rightarrow> [])
                   else []);
         node = zero_node\<lparr>nType := ''NOISE'', nTarget := target, nControl := - 1, nStep := step,
                           nParams := params, nIsNoise := True, nNoiseType := noiseType,
                           nMeasureSource := - 1, nDependencies := []\<rparr>;
         node = (case map_of (lastGateOnQubit st) target of
                   Some lastID \<Rightarrow> node\<lparr>nDependencies := nDependencies node @ [lastID]\<rparr>
                 | None \<Rightarrow> node);
         node = node\<lparr>nID := generateNodeID (nType node) target step\<rparr>
     in st\<lparr>psDag := AddNode (psDag st) node,
            lastGateOnQubit := AList.update target (nID node) (lastGateOnQubit st)\<rparr>)"

text \<open>What the loop does with a node that \<^verbatim>\<open>parseGateLine\<close> returned.\<close>

definition place_node :: "DAGNode \<Rightarrow> parse_state \<Rightarrow> parse_state" where
  "place_node node0 st0 =
    (let qubitsUsed = getQubitsUsed node0;
         (node, st) =
           (if nType node0 = ''BARRIER'' then
              (let st = (if length (currentStepQubits st0) > 0
                         then st0\<lparr>currentStep := add64 (currentStep st0) 1, currentStepQubits := []\<rparr>
                         else st0);
                   node = node0\<lparr>nStep := currentStep st\<rparr>
               in (node, st\<lparr>currentStep := add64 (currentStep st) 1, currentStepQubits := []\<rparr>))
            else
              (let conflict = list_ex (\<lambda>q. q \<in> set (currentStepQubits st0)) qubitsUsed;
                   st = (if nControl node0 \<ge> 0 \<or> length (nControls node0) > 0 \<or> nMeasureSource node0 \<ge> 0
                         then (if length (currentStepQubits st0) > 0
                               then st0\<lparr>currentStep := add64 (currentStep st0) 1, currentStepQubits := []\<rparr>
                               else st0)
                         else if conflict
                         then st0\<lparr>currentStep := add64 (currentStep st0) 1, currentStepQubits := []\<rparr>
                         else st0);
                   node = node0\<lparr>nStep := currentStep st\<rparr>
               in (node, st\<lparr>currentStepQubits := fold List.insert qubitsUsed (currentStepQubits st)\<rparr>)));
         node = node\<lparr>nDependencies := nDependencies node @ depsOf (lastGateOnQubit st) qubitsUsed\<rparr>;
         node = node\<lparr>nID := generateNodeID (nType node) (nTarget node) (nStep node)\<rparr>
     in st\<lparr>psDag := AddNode (psDag st) node,
            lastGateOnQubit := fold (\<lambda>qubit m. AList.update qubit (nID node) m) qubitsUsed
                                    (lastGateOnQubit st)\<rparr>)"

text \<open>What the loop does with a comment line.\<close>

definition comment_line :: "string \<Rightarrow> parse_state \<Rightarrow> parse_state" where
  "comment_line line st0 =
    (case match_full noiseRegex 3 line of
       None \<Rightarrow> st0
     | Some matches \<Rightarrow>
        (let target = fst (Atoi (matches ! 2));
             st = (if target \<in> set (currentStepQubits st0)
                   then st0\<lparr>currentStep := add64 (currentStep st0) 1, currentStepQubits := []\<rparr>
                   else st0);
             st = st\<lparr>currentStepQubits := List.insert target (currentStepQubits st)\<rparr>;
             st = parseNoiseLine matches (currentStep st) st
         in st\<lparr>currentStep := add64 (currentStep st) 1, currentStepQubits := []\<rparr>))"

text \<open>
  The loop \<^verbatim>\<open>for i := 0; i < len(lines); i++\<close>, on the lines from \<^verbatim>\<open>lines[i]\<close> on.
\<close>

fun parse_lines :: "string list \<Rightarrow> parse_state \<Rightarrow> parse_state" where
  "parse_lines [] st = st"
| "parse_lines (raw # rest) st =
    (let line = TrimSpace raw in
     if line = [] then parse_lines rest st
     else if HasPrefix line ''//'' then parse_lines rest (comment_line line st)
     else if HasPrefix line ''OPENQASM'' \<or> HasPrefix line ''include'' then parse_lines rest st
     else if HasPrefix line ''qreg'' then
       parse_lines rest
         (case match_find qregRegex 2 line of
            Some matches \<Rightarrow> st\<lparr>psDag := (psDag st)\<lparr>dagNumQubits := fst (Atoi (matches ! 2))\<rparr>\<rparr>
          | None \<Rightarrow> st)
     else if HasPrefix line ''creg'' then
       parse_lines rest
         (case match_find cregRegex 2 line of
            Some matches \<Rightarrow>
              st\<lparr>cregMap := AList.update (matches ! 1) (cregOffset st) (cregMap st),
                 cregOffset := add64 (cregOffset st) (fst (Atoi (matches ! 2)))\<rparr>
          | None \<Rightarrow> st)
     else
       (case parseGateLine (cregMap st) line rest of
          (None, skip) \<Rightarrow> parse_lines (if skip then tl rest else rest) st
        | (Some node, skip) \<Rightarrow> parse_lines (if skip then tl rest else rest) (place_node node st)))"

definition ParseQASM :: "CircuitDAG \<Rightarrow> string \<Rightarrow> CircuitDAG" where
  "ParseQASM dag qasm =
     psDag (parse_lines (Split qasm CHR ''\<newline>'')
              \<lparr>psDag = dag\<lparr>Nodes := [], rootNodes := []\<rparr>, cregMap = [], cregOffset = 0,
               lastGateOnQubit = [], currentStepQubits = [], currentStep = 0\<rparr>)"


section \<open>Definitions that follow the specification's words\<close>

text \<open>
  The specification's execution order: the gates are sorted by step with a stable sort
  (\<open>sort_key\<close> is insertion sort, which keeps equal keys in their original order) and
  then applied as \<^verbatim>\<open>SimulateCircuit\<close> applies them.
\<close>

definition SimulateCircuit_stable :: "Circuit \<Rightarrow> int \<Rightarrow> StateVector option" where
  "SimulateCircuit_stable circuit upToStep =
    (if circNumQubits circuit = 0 then NewStateVector 1
     else do {
       state \<leftarrow> NewStateVector (circNumQubits circuit);
       let gates = sort_key Step (Gates circuit);
       for_each gates (simulate_gate upToStep) state
     })"

section \<open>Auxiliary definitions\<close>

text \<open>
  A state vector as \<^verbatim>\<open>NewStateVector\<close> builds it and the gates keep it: \<open>2 ^ NumQubits\<close>
  amplitudes, with \<open>1 << NumQubits\<close> a positive \<^verbatim>\<open>int\<close>.
\<close>

definition valid_state :: "StateVector \<Rightarrow> bool" where
  "valid_state s \<longleftrightarrow> 0 \<le> NumQubits s \<and> NumQubits s \<le> 62
     \<and> length (Amplitudes s) = 2 ^ nat (NumQubits s)"

text \<open>The sum of the squared magnitudes of the amplitudes.\<close>

definition norm2 :: "complex list \<Rightarrow> real" where
  "norm2 amps = (\<Sum>a\<leftarrow>amps. (cmod a)\<^sup>2)"

text \<open>Example circuits, built with the circuit's own operations.\<close>

definition empty_circuit :: "int \<Rightarrow> Circuit" where
  "empty_circuit n = \<lparr>circNumQubits = n, Gates = [], MaxSteps = 0\<rparr>"

definition bell_circuit :: Circuit where
  "bell_circuit = Circuit_AddGate ''CX'' 1 1 [0] (Circuit_AddGate ''H'' 0 0 [] (empty_circuit 2))"

definition tie_circuit :: Circuit where
  "tie_circuit = Circuit_AddBarrier 0 (Circuit_AddGate ''Z'' 0 1 [] (Circuit_AddGate ''X'' 0 1 [] (empty_circuit 1)))"

definition drop_skipped :: "Circuit \<Rightarrow> Circuit" where
  "drop_skipped c = c\<lparr>Gates := filter (\<lambda>g. \<not> skipped g) (Gates c)\<rparr>"

abbreviation (input) gX :: Gate where "gX \<equiv> \<lparr>Type = ''X'', Target = 0, Control = - 1,
                 Controls = [], MeasureSource = - 1, Step = 1, Params = [], IsDagger = False,
                 IsReset = False, ClassicalControl = - 1, IsNoise = False, NoiseType = ''''\<rparr>"
abbreviation (input) gZ :: Gate where "gZ \<equiv> \<lparr>Type = ''Z'', Target = 0, Control = - 1,
                 Controls = [], MeasureSource = - 1, Step = 1, Params = [], IsDagger = False,
                 IsReset = False, ClassicalControl = - 1, IsNoise = False, NoiseType = ''''\<rparr>"
abbreviation (input) gB :: Gate where "gB \<equiv> \<lparr>Type = ''BARRIER'', Target = - 1, Control = - 1,
                 Controls = [], MeasureSource = - 1, Step = 0, Params = [], IsDagger = False,
                 IsReset = False, ClassicalControl = - 1, IsNoise = False, NoiseType = ''''\<rparr>"

abbreviation (input) gH0 :: Gate where "gH0 \<equiv> \<lparr>Type = ''H'', Target = 0, Control = - 1,
                 Controls = [], MeasureSource = - 1, Step = 0, Params = [], IsDagger = False,
                 IsReset = False, ClassicalControl = - 1, IsNoise = False, NoiseType = ''''\<rparr>"
abbreviation (input) gCX01 :: Gate where "gCX01 \<equiv> \<lparr>Type = ''CX'', Target = 1, Control = 0,
                 Controls = [], MeasureSource = - 1, Step = 1, Params = [], IsDagger = False,
                 IsReset = False, ClassicalControl = - 1, IsNoise = False, NoiseType = ''''\<rparr>"

text \<open>
  The body shared by the loops of \<open>applyH\<close>, \<open>applyRX\<close> and \<open>applyRY\<close>, which fill
  a fresh slice pair by pair, and the value the finished loop leaves at index \<open>m\<close>.
\<close>

definition pair_body :: "(complex \<Rightarrow> complex \<Rightarrow> complex) \<Rightarrow> (complex \<Rightarrow> complex \<Rightarrow> complex) \<Rightarrow> complex list \<Rightarrow> int \<Rightarrow> nat \<Rightarrow> complex list \<Rightarrow> complex list option" where
  "pair_body F G amps b = (\<lambda>i newAmps.
       if int i AND b = 0 then do {
         let j = int i OR b;
         x \<leftarrow> rd amps (int i);
         y \<leftarrow> rd amps j;
         newAmps \<leftarrow> wr newAmps (int i) (F x y);
         wr newAmps j (G x y)
       } else Some newAmps)"

definition pair_val :: "(complex \<Rightarrow> complex \<Rightarrow> complex) \<Rightarrow> (complex \<Rightarrow> complex \<Rightarrow> complex) \<Rightarrow> complex list \<Rightarrow> nat \<Rightarrow> nat \<Rightarrow> complex" where
  "pair_val F G amps q m = (if bit m q then G else F) (amps ! unset_bit q m) (amps ! set_bit q m)"

text \<open>Invariants of the inner and the outer loop of the ordering loop.\<close>

definition inner_inv :: "nat \<Rightarrow> nat \<Rightarrow> int \<Rightarrow> Gate list \<Rightarrow> Gate list \<Rightarrow> bool" where
  "inner_inv i k L gs r \<longleftrightarrow>
     length r = length gs \<and> mset r = mset gs \<and> (\<forall>p<i. r ! p = gs ! p)
     \<and> (\<forall>p. i < p \<and> p < k \<longrightarrow> Step (r ! i) \<le> Step (r ! p))
     \<and> ((\<forall>t. i \<le> t \<and> t < length gs \<longrightarrow> L \<le> Step (gs ! t))
          \<longrightarrow> (\<forall>t. i \<le> t \<and> t < length gs \<longrightarrow> L \<le> Step (r ! t)))"

definition outer_inv :: "nat \<Rightarrow> Gate list \<Rightarrow> Gate list \<Rightarrow> bool" where
  "outer_inv k gs r \<longleftrightarrow> length r = length gs \<and> mset r = mset gs
     \<and> (\<forall>p t. p < k \<and> p < t \<and> t < length gs \<longrightarrow> Step (r ! p) \<le> Step (r ! t))"

text \<open>
  The loop invariant of the gates that work in place (length and norm of the slice), and
  the result of a gate that keeps the state valid and its norm unchanged.
\<close>

definition keeps :: "nat \<Rightarrow> real \<Rightarrow> complex list \<Rightarrow> bool" where
  "keeps n c amps \<longleftrightarrow> length amps = n \<and> norm2 amps = c"

definition norm_kept :: "StateVector \<Rightarrow> StateVector option \<Rightarrow> bool" where
  "norm_kept s r \<longleftrightarrow> (\<exists>s'. r = Some s' \<and> valid_state s' \<and> NumQubits s' = NumQubits s
      \<and> norm2 (Amplitudes s') = norm2 (Amplitudes s))"

text \<open>The graphs that the decoder and \<^verbatim>\<open>AddBarrier\<close> build in the examples below.\<close>

definition parallel_dag :: CircuitDAG where
  "parallel_dag = \<lparr>Nodes =
       [(''H_q0_s0'',
         \<lparr>nID = ''H_q0_s0'', nType = ''H'', nTarget = 0, nControl = - 1,
            nControls = [], nMeasureSource = - 1, nStep = 0, nParams = [],
            nIsDagger = False, nIsReset = False, nClassicalControl = - 1,
            nIsNoise = False, nNoiseType = [], nDependencies = []\<rparr>),
        (''H_q1_s0'',
         \<lparr>nID = ''H_q1_s0'', nType = ''H'', nTarget = 1, nControl = - 1,
            nControls = [], nMeasureSource = - 1, nStep = 0, nParams = [],
            nIsDagger = False, nIsReset = False, nClassicalControl = - 1,
            nIsNoise = False, nNoiseType = [], nDependencies = []\<rparr>),
        (''CX_q1_s1'',
         \<lparr>nID = ''CX_q1_s1'', nType = ''CX'', nTarget = 1, nControl = 0,
            nControls = [], nMeasureSource = - 1, nStep = 1, nParams = [],
            nIsDagger = False, nIsReset = False, nClassicalControl = - 1,
            nIsNoise = False, nNoiseType = [], nDependencies = [''H_q1_s0'', ''H_q0_s0'']\<rparr>)],
       dagNumQubits = 2, NumCbits = 0, rootNodes = [''H_q0_s0'', ''H_q1_s0'']\<rparr>"

definition mcx_dag :: CircuitDAG where
  "mcx_dag = \<lparr>Nodes =
       [(''MCX_q1_s0'',
         \<lparr>nID = ''MCX_q1_s0'', nType = ''MCX'', nTarget = 1, nControl = - 1,
            nControls = [], nMeasureSource = 0, nStep = 0, nParams = [],
            nIsDagger = False, nIsReset = False, nClassicalControl = - 1,
            nIsNoise = False, nNoiseType = [], nDependencies = []\<rparr>)],
       dagNumQubits = 2, NumCbits = 1, rootNodes = [''MCX_q1_s0'']\<rparr>"

definition barrier_dag :: CircuitDAG where
  "barrier_dag = \<lparr>Nodes =
    [(''BARRIER_q-1_s0'',
      \<lparr>nID = ''BARRIER_q-1_s0'', nType = ''BARRIER'', nTarget = - 1,
         nControl = - 1, nControls = [], nMeasureSource = - 1, nStep = 0,
         nParams = [], nIsDagger = False, nIsReset = False,
         nClassicalControl = - 1, nIsNoise = False, nNoiseType = [],
         nDependencies = []\<rparr>)],
    dagNumQubits = 0, NumCbits = 0, rootNodes = [''BARRIER_q-1_s0'']\<rparr>"

section \<open>Lemmas on shifts, bits and loops\<close>

lemma add64_small: "- (2 ^ 63) \<le> a + b \<Longrightarrow> a + b < 2 ^ 63 \<Longrightarrow> add64 a b = a + b"
  unfolding add64_def by (rule signed_take_bit_int_eq_self) simp_all

lemma shl1_small: "0 \<le> q \<Longrightarrow> q < 63 \<Longrightarrow> shl1 q = Some (2 ^ nat q)"
proof -
  assume a: "0 \<le> q" "q < 63"
  have "(2::int) ^ nat q < 2 ^ 63" using a by (intro power_strict_increasing) auto
  moreover have "- (2 ^ 63) \<le> (2::int) ^ nat q"
    by (rule order_trans[of _ 0]) simp_all
  ultimately have "signed_take_bit 63 ((2::int) ^ nat q) = 2 ^ nat q"
    by (intro signed_take_bit_int_eq_self)
  with a show ?thesis by (simp add: shl1_def push_bit_of_1)
qed

lemma and_pow_zero_iff: "(int i AND 2 ^ q = 0) \<longleftrightarrow> \<not> bit i q"
  by (simp add: and_exp_eq_0_iff_not_bit bit_of_nat_iff_bit)

lemma or_pow_eq: "int i OR 2 ^ q = int (set_bit q i)"
  by (simp add: of_nat_set_bit_eq set_bit_int_def)

lemma set_bit_lt: 
  assumes "i < 2 ^ N" "q < N" shows "set_bit q (i::nat) < 2 ^ N"
proof -
  have i: "take_bit N i = i" using assms by (simp add: take_bit_nat_eq_self_iff)
  have "take_bit N (set_bit q i) = set_bit q i"
  proof (rule bit_eqI)
    fix k
    have "bit i k \<Longrightarrow> k < N" using i by (metis bit_take_bit_iff)
    then show "bit (take_bit N (set_bit q i)) k = bit (set_bit q i) k"
      using assms(2) by (auto simp: bit_simps)
  qed
  then show ?thesis by (metis take_bit_nat_less_exp)
qed

lemma unset_eq_iff: 
  assumes "\<not> bit k q" shows "unset_bit q (m::nat) = k \<longleftrightarrow> m = k \<or> m = set_bit q k"
proof
  assume h: "unset_bit q m = k"
  show "m = k \<or> m = set_bit q k"
  proof (cases "bit m q")
    case True
    have "m = set_bit q k" unfolding h[symmetric] using True
      by (intro bit_eqI) (auto simp: bit_simps)
    then show ?thesis ..
  next
    case False
    have "m = k" unfolding h[symmetric] using False
      by (intro bit_eqI) (auto simp: bit_simps)
    then show ?thesis ..
  qed
next
  assume "m = k \<or> m = set_bit q k"
  then show "unset_bit q m = k" using assms
    by (auto intro!: bit_eqI simp: bit_simps)
qed

lemma set_bit_neq: "\<not> bit k q \<Longrightarrow> set_bit q (k::nat) \<noteq> k"
  by (metis bit_set_bit_iff possible_bit)

lemma unset_ne: "bit k q \<Longrightarrow> unset_bit q (m::nat) \<noteq> k"
  by (metis bit_unset_bit_iff)

lemma for_each_append:
  "for_each (xs @ ys) body s = (case for_each xs body s of None \<Rightarrow> None | Some s' \<Rightarrow> for_each ys body s')"
  by (induction xs arbitrary: s) (auto split: option.splits)

lemma for_each_upt_Suc:
  "for_each [0..<Suc k] body s = (case for_each [0..<k] body s of None \<Rightarrow> None | Some s' \<Rightarrow> body k s')"
  by (simp add: for_each_append split: option.splits)

lemma pair_loop_prefix:
  assumes len: "length amps = 2 ^ N" and q: "q < N"
  shows "k \<le> 2 ^ N \<Longrightarrow> for_each [0..<k] (pair_body F G amps (2 ^ q)) (replicate (2 ^ N) 0)
           = Some (map (\<lambda>m. if unset_bit q m < k then pair_val F G amps q m else 0) [0..<2 ^ N])"
proof (induction k)
  case 0
  then show ?case by (simp add: map_replicate_const)
next
  case (Suc k)
  then have k: "k < 2 ^ N" by simp
  let ?L = "\<lambda>k. map (\<lambda>m. if unset_bit q m < k then pair_val F G amps q m else 0) [0..<2 ^ N]"
  have IH: "for_each [0..<k] (pair_body F G amps (2 ^ q)) (replicate (2 ^ N) 0) = Some (?L k)"
    using Suc by simp
  show ?case
  proof (cases "bit k q")
    case True
    have eq: "?L (Suc k) = ?L k"
      using unset_ne[OF True] by (auto simp: less_Suc_eq)
    have body: "pair_body F G amps (2 ^ q) k (?L k) = Some (?L k)"
      using True by (simp add: pair_body_def and_pow_zero_iff)
    show ?thesis by (simp only: for_each_upt_Suc IH option.case body eq)
  next
    case False
    let ?j = "set_bit q k"
    have j: "?j < 2 ^ N" using set_bit_lt[OF k q] .
    have body: "pair_body F G amps (2 ^ q) k (?L k)
          = Some ((?L k)[k := F (amps ! k) (amps ! ?j), ?j := G (amps ! k) (amps ! ?j)])"
      using False k j len
      by (simp add: pair_body_def and_pow_zero_iff or_pow_eq rd_def wr_def Let_def)
    have eq: "(?L k)[k := F (amps ! k) (amps ! ?j), ?j := G (amps ! k) (amps ! ?j)] = ?L (Suc k)"
    proof (rule nth_equalityI)
      show "length ((?L k)[k := F (amps ! k) (amps ! ?j), ?j := G (amps ! k) (amps ! ?j)]) = length (?L (Suc k))"
        by simp
    next
      fix m assume "m < length ((?L k)[k := F (amps ! k) (amps ! ?j), ?j := G (amps ! k) (amps ! ?j)])"
      then have m: "m < 2 ^ N" by simp
      have uk: "unset_bit q k = k" using False by (simp add: unset_eq_iff)
      have uj: "unset_bit q ?j = k" using False by (simp add: unset_eq_iff)
      have sk: "set_bit q ?j = ?j" by (intro bit_eqI) (auto simp: bit_simps)
      have bj: "bit ?j q" by (simp add: bit_simps)
      consider "m = k" | "m = ?j" | "m \<noteq> k" "m \<noteq> ?j" by blast
      then show "(?L k)[k := F (amps ! k) (amps ! ?j), ?j := G (amps ! k) (amps ! ?j)] ! m = ?L (Suc k) ! m"
      proof cases
        case 1
        then show ?thesis using m k j set_bit_neq[OF False] False
          by (simp add: pair_val_def uk)
      next
        case 2
        then show ?thesis using m k j
          by (simp add: pair_val_def uj sk bj)
      next
        case 3
        then have "unset_bit q m \<noteq> k" using unset_eq_iff[OF False] by simp
        then show ?thesis using 3 m k j by (simp add: less_Suc_eq)
      qed
    qed
    show ?thesis by (simp only: for_each_upt_Suc IH option.case body eq)
  qed
qed

lemma unset_bit_le: "unset_bit q (i::nat) \<le> i"
  by (metis of_nat_le_iff of_nat_unset_bit_eq unset_bit_less_eq)

lemma pair_loop_full:
  assumes len: "length amps = 2 ^ N" and q: "q < N"
  shows "for_each [0..<2 ^ N] (pair_body F G amps (2 ^ q)) (replicate (2 ^ N) 0)
           = Some (map (pair_val F G amps q) [0..<2 ^ N])"
proof -
  have "map (\<lambda>m. if unset_bit q m < 2 ^ N then pair_val F G amps q m else 0) [0..<2 ^ N]
        = map (pair_val F G amps q) [0..<2 ^ N]"
    by (auto intro: le_less_trans[OF unset_bit_le])
  then show ?thesis using pair_loop_prefix[OF len q, of "2 ^ N" F G] by simp
qed

section \<open>Lemmas on the gates\<close>

lemma applyH_pair: "applyH q s = do {
     b \<leftarrow> shl1 q;
     newAmps \<leftarrow> for_each [0..<length (Amplitudes s)]
        (pair_body (\<lambda>x y. complex_of_real (1 / sqrt 2) * (x + y)) (\<lambda>x y. complex_of_real (1 / sqrt 2) * (x - y)) (Amplitudes s) b) (replicate (length (Amplitudes s)) 0);
     Some (s\<lparr>Amplitudes := newAmps\<rparr>) }"
  by (simp only: applyH_def pair_body_def Let_def)

lemma applyRX_pair: "applyRX q theta s = do {
     b \<leftarrow> shl1 q;
     newAmps \<leftarrow> for_each [0..<length (Amplitudes s)]
        (pair_body (\<lambda>x y. Complex (cos (theta / 2)) 0 * x + Complex 0 (- sin (theta / 2)) * y)
                   (\<lambda>x y. Complex 0 (- sin (theta / 2)) * x + Complex (cos (theta / 2)) 0 * y) (Amplitudes s) b) (replicate (length (Amplitudes s)) 0);
     Some (s\<lparr>Amplitudes := newAmps\<rparr>) }"
  by (simp only: applyRX_def pair_body_def Let_def)

lemma applyRY_pair: "applyRY q theta s = do {
     b \<leftarrow> shl1 q;
     newAmps \<leftarrow> for_each [0..<length (Amplitudes s)]
        (pair_body (\<lambda>x y. Complex (cos (theta / 2)) 0 * x - Complex (sin (theta / 2)) 0 * y)
                   (\<lambda>x y. Complex (sin (theta / 2)) 0 * x + Complex (cos (theta / 2)) 0 * y) (Amplitudes s) b) (replicate (length (Amplitudes s)) 0);
     Some (s\<lparr>Amplitudes := newAmps\<rparr>) }"
  by (simp only: applyRY_def pair_body_def Let_def)

lemma pair_apply:
  assumes v: "valid_state s" and q: "0 \<le> q" "q < NumQubits s"
  shows "do {
     b \<leftarrow> shl1 q;
     newAmps \<leftarrow> for_each [0..<length (Amplitudes s)] (pair_body F G (Amplitudes s) b) (replicate (length (Amplitudes s)) 0);
     Some (s\<lparr>Amplitudes := newAmps\<rparr>) } 
   = Some (s\<lparr>Amplitudes := map (pair_val F G (Amplitudes s) (nat q)) [0..<length (Amplitudes s)]\<rparr>)"
proof -
  have len: "length (Amplitudes s) = 2 ^ nat (NumQubits s)" using v by (simp add: valid_state_def)
  have q63: "q < 63" using v q by (simp add: valid_state_def)
  have qN: "nat q < nat (NumQubits s)" using q by simp
  show ?thesis
    unfolding shl1_small[OF q(1) q63] len
    using pair_loop_full[OF len qN, of F G] by simp
qed

lemma set_unset_id: "bit m q \<Longrightarrow> set_bit q (m::nat) = m" "\<not> bit m q \<Longrightarrow> unset_bit q m = m"
  by (auto intro!: bit_eqI simp: bit_simps)

lemma Complex_1_0: "Complex 1 0 = 1" "Complex 0 0 = 0"
  by (simp_all add: complex_eq_iff)

lemma applyRX_zero:
  assumes v: "valid_state s" and q: "0 \<le> q" "q < NumQubits s"
  shows "applyRX q 0 s = Some s"
proof -
  have "map (pair_val (\<lambda>x y. Complex (cos (0 / 2)) 0 * x + Complex 0 (- sin (0 / 2)) * y)
                   (\<lambda>x y. Complex 0 (- sin (0 / 2)) * x + Complex (cos (0 / 2)) 0 * y) (Amplitudes s) (nat q)) [0..<length (Amplitudes s)]
        = Amplitudes s"
    by (rule nth_equalityI) (auto simp: pair_val_def set_unset_id Complex_1_0)
  then show ?thesis unfolding applyRX_pair pair_apply[OF v q] by simp
qed

lemma applyRY_zero:
  assumes v: "valid_state s" and q: "0 \<le> q" "q < NumQubits s"
  shows "applyRY q 0 s = Some s"
proof -
  have "map (pair_val (\<lambda>x y. Complex (cos (0 / 2)) 0 * x - Complex (sin (0 / 2)) 0 * y)
                   (\<lambda>x y. Complex (sin (0 / 2)) 0 * x + Complex (cos (0 / 2)) 0 * y) (Amplitudes s) (nat q)) [0..<length (Amplitudes s)]
        = Amplitudes s"
    by (rule nth_equalityI) (auto simp: pair_val_def set_unset_id Complex_1_0)
  then show ?thesis unfolding applyRY_pair pair_apply[OF v q] by simp
qed

lemma for_each_same:
  "(\<And>x. x \<in> set xs \<Longrightarrow> body x s = Some s) \<Longrightarrow> for_each xs body s = Some s"
  by (induction xs) auto

lemma applyRZ_zero:
  assumes q: "0 \<le> q"
  shows "applyRZ q 0 s = Some s"
proof -
  obtain b where b: "shl1 q = Some b" using q by (simp add: shl1_def)
  have h: "for_each [0..<length (Amplitudes s)] (\<lambda>i amps.
       if int i AND b \<noteq> 0 then do {
         a \<leftarrow> rd amps (int i);
         wr amps (int i) (a * exp (Complex 0 (0 / 2)))
       } else do {
         a \<leftarrow> rd amps (int i);
         wr amps (int i) (a * cnj (exp (Complex 0 (0 / 2))))
       }) (Amplitudes s) = Some (Amplitudes s)"
    by (rule for_each_same) (auto simp: rd_def wr_def Complex_1_0)
  show ?thesis unfolding applyRZ_def Let_def b bind.simps h by simp
qed

section \<open>Lemmas on the ordering loop\<close>

lemma sort_swap_length [simp]: "length (sort_swap i j gs) = length gs"
  by (simp add: sort_swap_def)

lemma sort_swap_mset: "i < length gs \<Longrightarrow> j < length gs \<Longrightarrow> mset (sort_swap i j gs) = mset gs"
  by (simp add: sort_swap_def mset_swap)

lemma inner_inv_step:
  assumes inv: "inner_inv i k L gs r" and ik: "i < k" and kn: "k < length gs"
  shows "inner_inv i (Suc k) L gs (sort_swap i k r)"
proof -
  from inv have len: "length r = length gs" by (simp add: inner_inv_def)
  have i: "i < length r" and k: "k < length r" using ik kn len by auto
  show ?thesis
  proof (cases "Step (r ! k) < Step (r ! i)")
    case False
    then have "sort_swap i k r = r" by (simp add: sort_swap_def)
    with inv False show ?thesis
      by (auto simp: inner_inv_def less_Suc_eq)
  next
    case True
    then have sw: "sort_swap i k r = r[i := r ! k, k := r ! i]" by (simp add: sort_swap_def)
    have m: "mset (r[i := r ! k, k := r ! i]) = mset r"
      using mset_swap[OF k i] by simp
    show ?thesis unfolding sw inner_inv_def
    proof (intro conjI allI impI)
      show "length (r[i := r ! k, k := r ! i]) = length gs" using len by simp
      show "mset (r[i := r ! k, k := r ! i]) = mset gs" using m inv by (simp add: inner_inv_def)
    next
      fix p assume "p < i"
      then show "r[i := r ! k, k := r ! i] ! p = gs ! p"
        using inv ik by (simp add: inner_inv_def)
    next
      fix p assume p: "i < p \<and> p < Suc k"
      have "Step (r ! k) \<le> Step (r ! p)"
      proof (cases "p = k")
        case True then show ?thesis by simp
      next
        case False
        with p have "p < k" by simp
        with inv p have "Step (r ! i) \<le> Step (r ! p)" by (simp add: inner_inv_def)
        with True show ?thesis by simp
      qed
      then show "Step (r[i := r ! k, k := r ! i] ! i) \<le> Step (r[i := r ! k, k := r ! i] ! p)"
        using p ik i k True by (cases "p = k") (auto simp: nth_list_update)
    next
      fix t assume lb: "\<forall>t. i \<le> t \<and> t < length gs \<longrightarrow> L \<le> Step (gs ! t)" and t: "i \<le> t \<and> t < length gs"
      from inv lb have r: "\<forall>t. i \<le> t \<and> t < length gs \<longrightarrow> L \<le> Step (r ! t)"
        by (simp add: inner_inv_def)
      show "L \<le> Step (r[i := r ! k, k := r ! i] ! t)"
        using r t ik kn i k len by (auto simp: nth_list_update)
    qed
  qed
qed

lemma inner_inv_fold:
  assumes "i < length gs"
  shows "d \<le> length gs - Suc i \<Longrightarrow> inner_inv i (Suc i + d) L gs (fold (sort_swap i) [Suc i..<Suc i + d] gs)"
proof (induction d)
  case 0
  then show ?case by (simp add: inner_inv_def)
next
  case (Suc d)
  then have IH: "inner_inv i (Suc i + d) L gs (fold (sort_swap i) [Suc i..<Suc i + d] gs)" by simp
  have "inner_inv i (Suc (Suc i + d)) L gs (sort_swap i (Suc i + d) (fold (sort_swap i) [Suc i..<Suc i + d] gs))"
    using Suc.prems by (intro inner_inv_step[OF IH]) auto
  then show ?case by simp
qed

lemma sort_inner_inv:
  assumes "i < length gs"
  shows "inner_inv i (length gs) L gs (sort_inner i gs)"
proof -
  have e: "Suc i + (length gs - Suc i) = length gs" using assms by simp
  have "inner_inv i (Suc i + (length gs - Suc i)) L gs
          (fold (sort_swap i) [Suc i..<Suc i + (length gs - Suc i)] gs)"
    by (rule inner_inv_fold[OF assms]) simp
  then show ?thesis unfolding e sort_inner_def by simp
qed

lemma outer_inv_step:
  assumes inv: "outer_inv k gs r" and k: "k < length gs"
  shows "outer_inv (Suc k) gs (sort_inner k r)"
proof -
  from inv have len: "length r = length gs" by (simp add: outer_inv_def)
  have kr: "k < length r" using k len by simp
  have I: "\<And>L. inner_inv k (length r) L r (sort_inner k r)" by (rule sort_inner_inv[OF kr])
  have len': "length (sort_inner k r) = length gs" using I len by (simp add: inner_inv_def)
  have ms: "mset (sort_inner k r) = mset gs" using I inv by (simp add: inner_inv_def outer_inv_def)
  have "Step (sort_inner k r ! p) \<le> Step (sort_inner k r ! t)" if pt: "p < Suc k" "p < t" "t < length gs" for p t
  proof (cases "p = k")
    case True
    then show ?thesis using I[of 0] pt len by (simp add: inner_inv_def)
  next
    case False
    then have pk: "p < k" using pt by simp
    have p_same: "sort_inner k r ! p = r ! p" using I[of 0] pk by (simp add: inner_inv_def)
    show ?thesis
    proof (cases "t < k")
      case True
      then have "sort_inner k r ! t = r ! t" using I[of 0] by (simp add: inner_inv_def)
      then show ?thesis using p_same inv pk pt by (simp add: outer_inv_def)
    next
      case False
      have "\<forall>t. k \<le> t \<and> t < length r \<longrightarrow> Step (r ! p) \<le> Step (r ! t)"
        using inv pk len by (auto simp: outer_inv_def)
      then have "\<forall>t. k \<le> t \<and> t < length r \<longrightarrow> Step (r ! p) \<le> Step (sort_inner k r ! t)"
        using I[of "Step (r ! p)"] by (simp add: inner_inv_def)
      then show ?thesis using False pt len p_same by simp
    qed
  qed
  then show ?thesis using len' ms by (simp add: outer_inv_def)
qed

lemma outer_inv_fold:
  "k \<le> length gs \<Longrightarrow> outer_inv k gs (fold sort_inner [0..<k] gs)"
proof (induction k)
  case 0
  then show ?case by (simp add: outer_inv_def)
next
  case (Suc k)
  then show ?case using outer_inv_step[of k gs "fold sort_inner [0..<k] gs"] by simp
qed

lemma sortGates_sorted: "sorted (map Step (sortGates gs))"
proof -
  have "outer_inv (length gs) gs (sortGates gs)"
    using outer_inv_fold[of "length gs" gs] by (simp add: sortGates_def)
  then show ?thesis
    by (auto simp: outer_inv_def sorted_iff_nth_mono_less)
qed

lemma sortGates_mset: "mset (sortGates gs) = mset gs"
  using outer_inv_fold[of "length gs" gs] by (simp add: sortGates_def outer_inv_def)

lemma fold_same: "(\<And>x. x \<in> set xs \<Longrightarrow> f x s = s) \<Longrightarrow> fold f xs s = s"
  by (induction xs) auto

lemma sortGates_sorted_id:
  assumes "sorted (map Step gs)" shows "sortGates gs = gs"
proof -
  have sw: "sort_swap i j gs = gs" if "i < j" "j < length gs" for i j
  proof -
    have "Step (gs ! i) \<le> Step (gs ! j)"
      using assms that sorted_iff_nth_mono_less[of "map Step gs"] by auto
    then show ?thesis by (simp add: sort_swap_def)
  qed
  have "sort_inner i gs = gs" for i
    unfolding sort_inner_def by (rule fold_same) (auto intro: sw)
  then show ?thesis unfolding sortGates_def by (intro fold_same) simp
qed

section \<open>Evaluating the example circuits\<close>

lemma upt_3: "[0..<3::nat] = [0,1,2]" "[1..<3::nat] = [1,2]" "[2..<3::nat] = [2]" "[3..<3::nat] = []"
  "[0..<2::nat] = [0,1]" "[1..<2::nat] = [1]" "[2..<2::nat] = []" "[0..<4::nat] = [0,1,2,3]"
  by (simp_all add: upt_rec)

lemma tie_gates: "Gates tie_circuit = [gX, gZ, gB]"
  by (simp add: tie_circuit_def Circuit_AddBarrier_def Circuit_AddGate_def add64_small empty_circuit_def Let_def)

lemma tie_sorted: "sortGates [gX, gZ, gB] = [gB, gZ, gX]"
  by (simp add: sortGates_def sort_inner_def sort_swap_def upt_3)

lemma tie_stable: "sort_key Step [gX, gZ, gB] = [gB, gX, gZ]"
  by simp

lemma new1: "NewStateVector 1 = Some \<lparr>Amplitudes = [1, 0], NumQubits = 1\<rparr>"
  by (simp add: NewStateVector_def shl1_def make_slice_def wr_def numeral_2_eq_2)

lemma shl1_0: "shl1 0 = Some 1" by (simp add: shl1_def)
lemma shl1_1: "shl1 1 = Some 2" by (simp add: shl1_def)

lemma X1: "applyX 0 \<lparr>Amplitudes = [a, b], NumQubits = 1\<rparr> = Some \<lparr>Amplitudes = [b, a], NumQubits = 1\<rparr>"
  by (simp add: applyX_def shl1_0 rd_def wr_def Let_def upt_3)

lemma Z1: "applyZ 0 \<lparr>Amplitudes = [a, b], NumQubits = 1\<rparr> = Some \<lparr>Amplitudes = [a, - b], NumQubits = 1\<rparr>"
  by (simp add: applyZ_def shl1_0 rd_def wr_def Let_def upt_3)

lemma tie_sim: "SimulateCircuit tie_circuit (- 1) = Some \<lparr>Amplitudes = [0, 1], NumQubits = 1\<rparr>"
  unfolding SimulateCircuit_def tie_gates tie_sorted
  by (simp add: tie_circuit_def Circuit_AddBarrier_def Circuit_AddGate_def add64_small empty_circuit_def Let_def
       new1 simulate_gate_def ApplyGate_def X1 Z1)

lemma tie_sim_stable: "SimulateCircuit_stable tie_circuit (- 1) = Some \<lparr>Amplitudes = [0, - 1], NumQubits = 1\<rparr>"
  unfolding SimulateCircuit_stable_def tie_gates tie_stable
  by (simp add: tie_circuit_def Circuit_AddBarrier_def Circuit_AddGate_def add64_small empty_circuit_def Let_def
       new1 simulate_gate_def ApplyGate_def X1 Z1)

lemma tie_dropped_gates: "Gates (drop_skipped tie_circuit) = [gX, gZ]"
  by (simp add: drop_skipped_def tie_gates skipped_def)

lemma tie_dropped_sorted: "sortGates [gX, gZ] = [gX, gZ]"
  by (simp add: sortGates_def sort_inner_def sort_swap_def upt_3)

lemma tie_sim_dropped: "SimulateCircuit (drop_skipped tie_circuit) (- 1) = Some \<lparr>Amplitudes = [0, - 1], NumQubits = 1\<rparr>"
  unfolding SimulateCircuit_def tie_dropped_gates tie_dropped_sorted
  by (simp add: drop_skipped_def tie_circuit_def Circuit_AddBarrier_def Circuit_AddGate_def add64_small empty_circuit_def Let_def
       new1 simulate_gate_def ApplyGate_def X1 Z1)

lemma simulate_skipped: "skipped g \<Longrightarrow> simulate_gate u g s = Some s"
  by (auto simp: simulate_gate_def skipped_def)

lemma for_each_filter_skipped:
  "for_each (filter (\<lambda>g. \<not> skipped g) gs) (simulate_gate u) s = for_each gs (simulate_gate u) s"
  by (induction gs arbitrary: s) (auto simp: simulate_skipped split: option.splits)

lemma SimulateCircuit_drop_sorted:
  assumes "sorted (map Step (Gates c))"
  shows "SimulateCircuit (drop_skipped c) u = SimulateCircuit c u"
proof -
  have "sorted (map Step (filter (\<lambda>g. \<not> skipped g) (Gates c)))"
    using assms by (simp add: sorted_filter)
  then show ?thesis
    by (simp add: SimulateCircuit_def drop_skipped_def sortGates_sorted_id assms for_each_filter_skipped)
qed

lemma SimulateCircuit_drop_after_sort:
  "SimulateCircuit (c\<lparr>Gates := filter (\<lambda>g. \<not> skipped g) (sortGates (Gates c))\<rparr>) u = SimulateCircuit c u"
proof -
  have "sorted (map Step (filter (\<lambda>g. \<not> skipped g) (sortGates (Gates c))))"
    by (simp add: sorted_filter sortGates_sorted)
  then show ?thesis
    by (simp add: SimulateCircuit_def sortGates_sorted_id for_each_filter_skipped)
qed

lemma new2: "NewStateVector 2 = Some \<lparr>Amplitudes = [1, 0, 0, 0], NumQubits = 2\<rparr>"
  by (simp add: NewStateVector_def shl1_def make_slice_def wr_def eval_nat_numeral)

lemma H_on_00:
  "applyH 0 \<lparr>Amplitudes = [1, 0, 0, 0], NumQubits = 2\<rparr>
     = Some \<lparr>Amplitudes = [1 / sqrt 2, 1 / sqrt 2, 0, 0], NumQubits = 2\<rparr>"
  by (simp add: applyH_def shl1_0 rd_def wr_def Let_def upt_3)

lemma CX_01:
  "applyCX 0 1 \<lparr>Amplitudes = [a, b, c, d], NumQubits = 2\<rparr>
     = Some \<lparr>Amplitudes = [a, d, c, b], NumQubits = 2\<rparr>"
  by (simp add: applyCX_def shl1_0 shl1_1 rd_def wr_def Let_def upt_3)

lemma bell_gates: "Gates bell_circuit = [gH0, gCX01]"
  by (simp add: bell_circuit_def Circuit_AddGate_def add64_small empty_circuit_def Let_def)

lemma bell_sorted: "sortGates [gH0, gCX01] = [gH0, gCX01]"
  by (simp add: sortGates_def sort_inner_def sort_swap_def upt_3)

lemma bell_sim:
  "SimulateCircuit bell_circuit (- 1)
     = Some \<lparr>Amplitudes = [1 / sqrt 2, 0, 0, 1 / sqrt 2], NumQubits = 2\<rparr>"
  unfolding SimulateCircuit_def bell_gates bell_sorted
  by (simp add: bell_circuit_def Circuit_AddGate_def add64_small empty_circuit_def Let_def
       new2 simulate_gate_def ApplyGate_def H_on_00 CX_01)

lemma replicate_2: "replicate 2 x = [x, x]"
  by (simp add: numeral_2_eq_2)

lemma bell_probs:
  "GetQubitProbabilities \<lparr>Amplitudes = [1 / sqrt 2, 0, 0, 1 / sqrt 2], NumQubits = 2\<rparr>
     = Some [\<lparr>Prob0 = 1 / 2, Prob1 = 1 / 2\<rparr>, \<lparr>Prob0 = 1 / 2, Prob1 = 1 / 2\<rparr>]"
  by (simp add: GetQubitProbabilities_def make_slice_def upt_3 rd_def wr_def shl1_0 shl1_1
        replicate_2 Let_def)

section \<open>Lemmas on the norm of the state\<close>

lemma for_each_inv:
  assumes "I s" and "\<And>x s. x \<in> set xs \<Longrightarrow> I s \<Longrightarrow> \<exists>s'. body x s = Some s' \<and> I s'"
  shows "\<exists>s'. for_each xs body s = Some s' \<and> I s'"
  using assms
proof (induction xs arbitrary: s)
  case Nil
  then show ?case by simp
next
  case (Cons x xs)
  from Cons.prems obtain s1 where s1: "body x s = Some s1" "I s1" by force
  from Cons.IH[OF s1(2)] Cons.prems(2) obtain s' where "for_each xs body s1 = Some s'" "I s'"
    by force
  with s1 show ?case by simp
qed

lemma sum_list_update_real:
  "k < length xs \<Longrightarrow> sum_list (xs[k := x]) = sum_list xs - xs ! k + (x::real)"
  by (induction xs arbitrary: k) (auto split: nat.splits)

lemma norm2_update:
  "k < length xs \<Longrightarrow> norm2 (xs[k := x]) = norm2 xs - (cmod (xs ! k))\<^sup>2 + (cmod x)\<^sup>2"
  by (simp add: norm2_def map_update sum_list_update_real)

lemma norm2_update2:
  assumes "i < length xs" "j < length xs" "i \<noteq> j"
    and "(cmod x)\<^sup>2 + (cmod y)\<^sup>2 = (cmod (xs ! i))\<^sup>2 + (cmod (xs ! j))\<^sup>2"
  shows "norm2 (xs[i := x, j := y]) = norm2 xs"
  using assms by (simp add: norm2_update)

lemma norm2_scale:
  assumes "k < length xs" "cmod f = 1"
  shows "norm2 (xs[k := xs ! k * f]) = norm2 xs"
  using assms by (simp add: norm2_update norm_mult)

lemma norm2_nth: "norm2 xs = (\<Sum>m<length xs. (cmod (xs ! m))\<^sup>2)"
proof -
  have "norm2 xs = (\<Sum>m = 0..<length xs. map (\<lambda>a. (cmod a)\<^sup>2) xs ! m)"
    unfolding norm2_def using sum_list_sum_nth[of "map (\<lambda>a. (cmod a)\<^sup>2) xs"] by simp
  also have "\<dots> = (\<Sum>m<length xs. (cmod (xs ! m))\<^sup>2)"
    by (intro sum.cong) auto
  finally show ?thesis .
qed

lemma sum_pairs:
  fixes h :: "nat \<Rightarrow> real"
  assumes q: "q < N"
  shows "(\<Sum>m<2 ^ N. h m) = (\<Sum>m\<in>{m::nat. m < 2 ^ N \<and> \<not> bit m q}. h m + h (set_bit q m))"
proof -
  let ?A = "{m::nat. m < 2 ^ N \<and> \<not> bit m q}" and ?B = "{m::nat. m < 2 ^ N \<and> bit m q}"
  have fin: "finite ?A" "finite ?B" by simp_all
  have un: "{..<2 ^ N} = ?A \<union> ?B" by auto
  have dis: "?A \<inter> ?B = {}" by auto
  have inj: "inj_on (set_bit q) ?A"
  proof (rule inj_onI)
    fix x y assume "x \<in> ?A" "y \<in> ?A" "set_bit q x = set_bit q y"
    then have "unset_bit q (set_bit q x) = unset_bit q (set_bit q y)" "\<not> bit x q" "\<not> bit y q" by auto
    moreover have "unset_bit q (set_bit q z) = z" if "\<not> bit z q" for z :: nat
      using that by (intro bit_eqI) (auto simp: bit_simps)
    ultimately show "x = y" by simp
  qed
  have img: "set_bit q ` ?A = ?B"
  proof (intro equalityI subsetI)
    fix y assume "y \<in> set_bit q ` ?A"
    then obtain x where x: "x < 2 ^ N" "\<not> bit x q" "y = set_bit q x" by auto
    then show "y \<in> ?B" using set_bit_lt[OF x(1) q] by (simp add: bit_simps)
  next
    fix y assume y: "y \<in> ?B"
    then have "unset_bit q y < 2 ^ N" using le_less_trans[OF unset_bit_le] by simp
    moreover have "\<not> bit (unset_bit q y) q" by (simp add: bit_simps)
    moreover have "set_bit q (unset_bit q y) = y" using y by (intro bit_eqI) (auto simp: bit_simps)
    ultimately show "y \<in> set_bit q ` ?A" by (metis (mono_tags, lifting) image_eqI mem_Collect_eq)
  qed
  have "(\<Sum>m<2 ^ N. h m) = sum h ?A + sum h ?B"
    unfolding un by (rule sum.union_disjoint[OF fin dis])
  also have "sum h ?B = (\<Sum>m\<in>?A. h (set_bit q m))"
    unfolding img[symmetric] by (simp add: sum.reindex[OF inj])
  finally show ?thesis by (simp add: sum.distrib)
qed

lemma norm2_pair_val:
  assumes len: "length amps = 2 ^ N" and q: "q < N"
    and U: "\<And>x y. (cmod (F x y))\<^sup>2 + (cmod (G x y))\<^sup>2 = (cmod x)\<^sup>2 + (cmod y)\<^sup>2"
  shows "norm2 (map (pair_val F G amps q) [0..<2 ^ N]) = norm2 amps"
proof -
  let ?A = "{m::nat. m < 2 ^ N \<and> \<not> bit m q}"
  have "norm2 (map (pair_val F G amps q) [0..<2 ^ N]) = (\<Sum>m<2 ^ N. (cmod (pair_val F G amps q m))\<^sup>2)"
    unfolding norm2_nth by (intro sum.cong) auto
  also have "\<dots> = (\<Sum>m\<in>?A. (cmod (pair_val F G amps q m))\<^sup>2 + (cmod (pair_val F G amps q (set_bit q m)))\<^sup>2)"
    by (rule sum_pairs[OF q])
  also have "\<dots> = (\<Sum>m\<in>?A. (cmod (amps ! m))\<^sup>2 + (cmod (amps ! set_bit q m))\<^sup>2)"
  proof (rule sum.cong[OF refl])
    fix m assume "m \<in> ?A"
    then have nb: "\<not> bit m q" by simp
    have b: "bit (set_bit q m) q" by (simp add: bit_simps)
    have u: "unset_bit q (set_bit q m) = m" using nb by (intro bit_eqI) (auto simp: bit_simps)
    have s: "set_bit q (set_bit q m) = set_bit q m" by (intro bit_eqI) (auto simp: bit_simps)
    show "(cmod (pair_val F G amps q m))\<^sup>2 + (cmod (pair_val F G amps q (set_bit q m)))\<^sup>2
          = (cmod (amps ! m))\<^sup>2 + (cmod (amps ! set_bit q m))\<^sup>2"
      using nb b by (simp add: pair_val_def u s set_unset_id U)
  qed
  also have "\<dots> = (\<Sum>m<2 ^ N. (cmod (amps ! m))\<^sup>2)"
    by (rule sum_pairs[OF q, symmetric])
  also have "\<dots> = norm2 amps" by (simp add: norm2_nth len)
  finally show ?thesis .
qed

lemma unitary_H:
  "(cmod (complex_of_real (1 / sqrt 2) * (x + y)))\<^sup>2 + (cmod (complex_of_real (1 / sqrt 2) * (x - y)))\<^sup>2
     = (cmod x)\<^sup>2 + (cmod y)\<^sup>2"
proof -
  have h: "(cmod (complex_of_real (1 / sqrt 2) * z))\<^sup>2 = (cmod z)\<^sup>2 / 2" for z
    by (simp add: norm_mult norm_divide power_mult_distrib power_divide)
  have "(cmod (x + y))\<^sup>2 + (cmod (x - y))\<^sup>2 = 2 * ((cmod x)\<^sup>2 + (cmod y)\<^sup>2)"
    unfolding cmod_power2 by (simp add: power2_eq_square algebra_simps)
  then show ?thesis unfolding h by simp
qed

lemma unitary_RX:
  "(cmod (Complex (cos t) 0 * x + Complex 0 (- sin t) * y))\<^sup>2
   + (cmod (Complex 0 (- sin t) * x + Complex (cos t) 0 * y))\<^sup>2
     = (cmod x)\<^sup>2 + (cmod y)\<^sup>2"
proof -
  have "(cmod (Complex c 0 * x + Complex 0 (- d) * y))\<^sup>2
   + (cmod (Complex 0 (- d) * x + Complex c 0 * y))\<^sup>2
    = (c\<^sup>2 + d\<^sup>2) * ((cmod x)\<^sup>2 + (cmod y)\<^sup>2)" for c d :: real
    unfolding cmod_power2 by (simp add: power2_eq_square algebra_simps)
  from this[of "cos t" "sin t"] show ?thesis
    unfolding sin_cos_squared_add2 by simp
qed

lemma unitary_RY:
  "(cmod (Complex (cos t) 0 * x - Complex (sin t) 0 * y))\<^sup>2
   + (cmod (Complex (sin t) 0 * x + Complex (cos t) 0 * y))\<^sup>2
     = (cmod x)\<^sup>2 + (cmod y)\<^sup>2"
proof -
  have "(cmod (Complex c 0 * x - Complex d 0 * y))\<^sup>2
   + (cmod (Complex d 0 * x + Complex c 0 * y))\<^sup>2
    = (c\<^sup>2 + d\<^sup>2) * ((cmod x)\<^sup>2 + (cmod y)\<^sup>2)" for c d :: real
    unfolding cmod_power2 by (simp add: power2_eq_square algebra_simps)
  from this[of "cos t" "sin t"] show ?thesis
    unfolding sin_cos_squared_add2 by simp
qed

lemma scale_step:
  assumes "keeps n c amps" "i < n" "cmod f = 1"
  shows "\<exists>amps'. do { a \<leftarrow> rd amps (int i); wr amps (int i) (a * f) } = Some amps' \<and> keeps n c amps'"
  using assms by (simp add: keeps_def rd_def wr_def norm2_scale)

lemma swap_step:
  assumes k: "keeps n c amps" and i: "i < n" and j: "0 \<le> j" "j < int n" "j \<noteq> int i"
    and U: "\<And>x y. (cmod (P x y))\<^sup>2 + (cmod (Q x y))\<^sup>2 = (cmod x)\<^sup>2 + (cmod y)\<^sup>2"
  shows "\<exists>amps'. do { a \<leftarrow> rd amps (int i); b \<leftarrow> rd amps j;
                      amps2 \<leftarrow> wr amps (int i) (P a b); wr amps2 j (Q a b) } = Some amps'
                 \<and> keeps n c amps'"
proof -
  have len: "length amps = n" and nrm: "norm2 amps = c" using k by (simp_all add: keeps_def)
  have jn: "nat j < n" "nat j \<noteq> i" using j by auto
  have "norm2 (amps[i := P (amps ! i) (amps ! nat j), nat j := Q (amps ! i) (amps ! nat j)]) = norm2 amps"
    using i jn len by (intro norm2_update2) (auto simp: U)
  then show ?thesis using i j jn len nrm
    by (simp add: keeps_def rd_def wr_def)
qed

lemma for_each_keeps:
  assumes "keeps n c amps"
    and "\<And>i amps. i < n \<Longrightarrow> keeps n c amps \<Longrightarrow> \<exists>amps'. body i amps = Some amps' \<and> keeps n c amps'"
  shows "\<exists>amps'. for_each [0..<n] body amps = Some amps' \<and> keeps n c amps'"
  using assms by (intro for_each_inv[where I = "keeps n c"]) auto

lemma valid_keeps: "valid_state s \<Longrightarrow> keeps (2 ^ nat (NumQubits s)) (norm2 (Amplitudes s)) (Amplitudes s)"
  by (simp add: valid_state_def keeps_def)

lemma norm_keptI:
  assumes "valid_state s" "keeps (2 ^ nat (NumQubits s)) (norm2 (Amplitudes s)) amps'"
  shows "norm_kept s (Some (s\<lparr>Amplitudes := amps'\<rparr>))"
  using assms by (simp add: norm_kept_def valid_state_def keeps_def)

lemma or_pow_facts:
  assumes "i < 2 ^ N" "q < N" "int i AND 2 ^ q = 0"
  shows "0 \<le> int i OR 2 ^ q" "int i OR 2 ^ q < int (2 ^ N)" "int i OR 2 ^ q \<noteq> int i"
proof -
  have nb: "\<not> bit i q" using assms(3) by (simp add: and_pow_zero_iff)
  show "0 \<le> int i OR 2 ^ q" by (simp add: or_pow_eq)
  show "int i OR 2 ^ q < int (2 ^ N)"
    unfolding or_pow_eq using set_bit_lt[OF assms(1,2)] by (simp only: of_nat_less_iff)
  show "int i OR 2 ^ q \<noteq> int i"
    unfolding or_pow_eq using set_bit_neq[OF nb] by simp
qed

lemma valid_len: "valid_state s \<Longrightarrow> length (Amplitudes s) = 2 ^ nat (NumQubits s)"
  by (simp add: valid_state_def)

lemma valid_shl1:
  assumes "valid_state s" "0 \<le> q" "q < NumQubits s"
  shows "shl1 q = Some (2 ^ nat q)" "nat q < nat (NumQubits s)"
  using assms by (auto simp: valid_state_def intro: shl1_small)

lemma norm_kept_loop:
  assumes v: "valid_state s"
    and step: "\<And>i amps. i < 2 ^ nat (NumQubits s) \<Longrightarrow> keeps (2 ^ nat (NumQubits s)) (norm2 (Amplitudes s)) amps
        \<Longrightarrow> \<exists>amps'. body i amps = Some amps' \<and> keeps (2 ^ nat (NumQubits s)) (norm2 (Amplitudes s)) amps'"
  shows "norm_kept s (do { amps \<leftarrow> for_each [0..<length (Amplitudes s)] body (Amplitudes s);
                            Some (s\<lparr>Amplitudes := amps\<rparr>) })"
proof -
  from for_each_keeps[OF valid_keeps[OF v], of body] step
  obtain amps' where "for_each [0..<2 ^ nat (NumQubits s)] body (Amplitudes s) = Some amps'"
     "keeps (2 ^ nat (NumQubits s)) (norm2 (Amplitudes s)) amps'" by blast
  then show ?thesis using norm_keptI[OF v, of amps'] by (simp add: valid_len[OF v])
qed

lemma shl1_nonneg: "0 \<le> q \<Longrightarrow> \<exists>b. shl1 q = Some b"
  by (simp add: shl1_def)

lemma cmod_units: "cmod \<i> = 1" "cmod (- \<i>) = 1" "cmod (- 1) = 1"
  "cmod (exp (Complex 0 t)) = 1" "cmod (cnj (exp (Complex 0 t))) = 1"
  by (simp_all add: norm_exp_eq_Re)

lemma applyX_norm:
  assumes v: "valid_state s" and q: "0 \<le> q" "q < NumQubits s"
  shows "norm_kept s (applyX q s)"
  unfolding applyX_def Let_def valid_shl1(1)[OF v q] bind.simps
proof (rule norm_kept_loop[OF v])
  fix i :: nat and amps
  assume i: "i < 2 ^ nat (NumQubits s)" and k: "keeps (2 ^ nat (NumQubits s)) (norm2 (Amplitudes s)) amps"
  show "\<exists>amps'. (if int i AND 2 ^ nat q = 0
          then rd amps (int i) \<bind> (\<lambda>a. rd amps (int i OR 2 ^ nat q) \<bind>
                 (\<lambda>b. wr amps (int i) b \<bind> (\<lambda>amps. wr amps (int i OR 2 ^ nat q) a)))
          else Some amps) = Some amps' \<and> keeps (2 ^ nat (NumQubits s)) (norm2 (Amplitudes s)) amps'"
  proof (cases "int i AND 2 ^ nat q = 0")
    case True
    from swap_step[OF k i or_pow_facts[OF i valid_shl1(2)[OF v q] True], of "\<lambda>x y. y" "\<lambda>x y. x"]
    show ?thesis using True by simp
  next
    case False
    then show ?thesis using k by simp
  qed
qed

lemma applyY_norm:
  assumes v: "valid_state s" and q: "0 \<le> q" "q < NumQubits s"
  shows "norm_kept s (applyY q s)"
  unfolding applyY_def Let_def valid_shl1(1)[OF v q] bind.simps
proof (rule norm_kept_loop[OF v])
  fix i :: nat and amps
  assume i: "i < 2 ^ nat (NumQubits s)" and k: "keeps (2 ^ nat (NumQubits s)) (norm2 (Amplitudes s)) amps"
  show "\<exists>amps'. (if int i AND 2 ^ nat q = 0
          then rd amps (int i) \<bind> (\<lambda>a. rd amps (int i OR 2 ^ nat q) \<bind>
                 (\<lambda>b. wr amps (int i) (\<i> * b) \<bind> (\<lambda>amps. wr amps (int i OR 2 ^ nat q) (- \<i> * a))))
          else Some amps) = Some amps' \<and> keeps (2 ^ nat (NumQubits s)) (norm2 (Amplitudes s)) amps'"
  proof (cases "int i AND 2 ^ nat q = 0")
    case True
    from swap_step[OF k i or_pow_facts[OF i valid_shl1(2)[OF v q] True], of "\<lambda>x y. \<i> * y" "\<lambda>x y. - \<i> * x"]
    show ?thesis using True by (simp add: norm_mult)
  next
    case False
    then show ?thesis using k by simp
  qed
qed

lemma applyCX_norm:
  assumes v: "valid_state s" and q: "0 \<le> target" "target < NumQubits s" and c: "0 \<le> control"
  shows "norm_kept s (applyCX control target s)"
proof -
  obtain cBit where cb: "shl1 control = Some cBit" using shl1_nonneg[OF c] by blast
  show ?thesis
    unfolding applyCX_def Let_def valid_shl1(1)[OF v q] cb bind.simps
  proof (rule norm_kept_loop[OF v])
    fix i :: nat and amps
    assume i: "i < 2 ^ nat (NumQubits s)" and k: "keeps (2 ^ nat (NumQubits s)) (norm2 (Amplitudes s)) amps"
    show "\<exists>amps'. (if int i AND cBit \<noteq> 0 \<and> int i AND 2 ^ nat target = 0
          then rd amps (int i) \<bind> (\<lambda>a. rd amps (int i OR 2 ^ nat target) \<bind>
                 (\<lambda>b. wr amps (int i) b \<bind> (\<lambda>amps. wr amps (int i OR 2 ^ nat target) a)))
          else Some amps) = Some amps' \<and> keeps (2 ^ nat (NumQubits s)) (norm2 (Amplitudes s)) amps'"
    proof (cases "int i AND cBit \<noteq> 0 \<and> int i AND 2 ^ nat target = 0")
      case True
      then have T: "int i AND 2 ^ nat target = 0" by simp
      from swap_step[OF k i or_pow_facts[OF i valid_shl1(2)[OF v q] T], of "\<lambda>x y. y" "\<lambda>x y. x"]
      show ?thesis using True by simp
    next
      case False
      then show ?thesis using k by auto
    qed
  qed
qed

lemma swap_index_facts:
  assumes i: "i < 2 ^ N" and q: "q < N" and z: "int i AND 2 ^ q = 0"
  shows "0 \<le> (int i AND NOT b) OR 2 ^ q" "(int i AND NOT b) OR 2 ^ q < int (2 ^ N)"
        "(int i AND NOT b) OR 2 ^ q \<noteq> int i"
proof -
  have x0: "0 \<le> int i AND NOT b" by simp
  have "int i AND NOT b \<le> int i" by (rule AND_upper1) simp
  also have "int i < 2 ^ N" using i by (metis of_nat_less_iff of_nat_numeral of_nat_power)
  finally have x1: "int i AND NOT b < 2 ^ N" .
  have p: "(2::int) ^ q < 2 ^ N" using q by (intro power_strict_increasing) auto
  show "0 \<le> (int i AND NOT b) OR 2 ^ q" using x0 by simp
  show "(int i AND NOT b) OR 2 ^ q < int (2 ^ N)" using OR_upper[OF x0 x1 p] by simp
  have "bit ((int i AND NOT b) OR 2 ^ q) q" by (simp add: bit_simps)
  moreover have "\<not> bit (int i) q" using z by (simp add: and_exp_eq_0_iff_not_bit)
  ultimately show "(int i AND NOT b) OR 2 ^ q \<noteq> int i" by metis
qed

lemma applySWAP_norm:
  assumes v: "valid_state s" and q: "0 \<le> q2" "q2 < NumQubits s" and c: "0 \<le> q1"
  shows "norm_kept s (applySWAP q1 q2 s)"
proof -
  obtain bit1 where cb: "shl1 q1 = Some bit1" using shl1_nonneg[OF c] by blast
  show ?thesis
    unfolding applySWAP_def Let_def valid_shl1(1)[OF v q] cb bind.simps
  proof (rule norm_kept_loop[OF v])
    fix i :: nat and amps
    assume i: "i < 2 ^ nat (NumQubits s)" and k: "keeps (2 ^ nat (NumQubits s)) (norm2 (Amplitudes s)) amps"
    show "\<exists>amps'. (if int i AND bit1 \<noteq> 0 \<and> int i AND 2 ^ nat q2 = 0
          then rd amps (int i) \<bind> (\<lambda>a. rd amps ((int i AND NOT bit1) OR 2 ^ nat q2) \<bind>
                 (\<lambda>b. wr amps (int i) b \<bind> (\<lambda>amps. wr amps ((int i AND NOT bit1) OR 2 ^ nat q2) a)))
          else Some amps) = Some amps' \<and> keeps (2 ^ nat (NumQubits s)) (norm2 (Amplitudes s)) amps'"
    proof (cases "int i AND bit1 \<noteq> 0 \<and> int i AND 2 ^ nat q2 = 0")
      case True
      then have T: "int i AND 2 ^ nat q2 = 0" by simp
      from swap_step[OF k i swap_index_facts[OF i valid_shl1(2)[OF v q] T, of bit1], of "\<lambda>x y. y" "\<lambda>x y. x"]
      show ?thesis using True by simp
    next
      case False
      then show ?thesis using k by auto
    qed
  qed
qed

lemma applyZ_norm:
  assumes v: "valid_state s" and q: "0 \<le> q"
  shows "norm_kept s (applyZ q s)"
proof -
  obtain b where cb: "shl1 q = Some b" using shl1_nonneg[OF q] by blast
  show ?thesis
    unfolding applyZ_def Let_def cb bind.simps
  proof (rule norm_kept_loop[OF v])
    fix i :: nat and amps
    assume i: "i < 2 ^ nat (NumQubits s)" and k: "keeps (2 ^ nat (NumQubits s)) (norm2 (Amplitudes s)) amps"
    show "\<exists>amps'. (if int i AND b \<noteq> 0 then rd amps (int i) \<bind> (\<lambda>a. wr amps (int i) (a * (- 1)))
          else Some amps) = Some amps' \<and> keeps (2 ^ nat (NumQubits s)) (norm2 (Amplitudes s)) amps'"
      using scale_step[OF k i cmod_units(3)] k by (cases "int i AND b \<noteq> 0") auto
  qed
qed

lemma applyS_norm:
  assumes v: "valid_state s" and q: "0 \<le> q"
  shows "norm_kept s (applyS q dagger s)"
proof -
  obtain b where cb: "shl1 q = Some b" using shl1_nonneg[OF q] by blast
  have f: "cmod (if dagger then - \<i> else \<i>) = 1" by simp
  show ?thesis
    unfolding applyS_def Let_def cb bind.simps
  proof (rule norm_kept_loop[OF v])
    fix i :: nat and amps
    assume i: "i < 2 ^ nat (NumQubits s)" and k: "keeps (2 ^ nat (NumQubits s)) (norm2 (Amplitudes s)) amps"
    show "\<exists>amps'. (if int i AND b \<noteq> 0 then rd amps (int i) \<bind> (\<lambda>a. wr amps (int i) (a * (if dagger then - \<i> else \<i>)))
          else Some amps) = Some amps' \<and> keeps (2 ^ nat (NumQubits s)) (norm2 (Amplitudes s)) amps'"
      using scale_step[OF k i f] k by (cases "int i AND b \<noteq> 0") auto
  qed
qed

lemma applyT_norm:
  assumes v: "valid_state s" and q: "0 \<le> q"
  shows "norm_kept s (applyT q dagger s)"
proof -
  obtain b where cb: "shl1 q = Some b" using shl1_nonneg[OF q] by blast
  have f: "cmod (if dagger then exp (Complex 0 (- pi / 4)) else exp (Complex 0 (pi / 4))) = 1"
    by (simp add: norm_exp_eq_Re)
  show ?thesis
    unfolding applyT_def Let_def cb bind.simps
  proof (rule norm_kept_loop[OF v])
    fix i :: nat and amps
    assume i: "i < 2 ^ nat (NumQubits s)" and k: "keeps (2 ^ nat (NumQubits s)) (norm2 (Amplitudes s)) amps"
    show "\<exists>amps'. (if int i AND b \<noteq> 0 then rd amps (int i) \<bind>
             (\<lambda>a. wr amps (int i) (a * (if dagger then exp (Complex 0 (- pi / 4)) else exp (Complex 0 (pi / 4)))))
          else Some amps) = Some amps' \<and> keeps (2 ^ nat (NumQubits s)) (norm2 (Amplitudes s)) amps'"
      using scale_step[OF k i f] k by (cases "int i AND b \<noteq> 0") auto
  qed
qed

lemma applyRZ_norm:
  assumes v: "valid_state s" and q: "0 \<le> q"
  shows "norm_kept s (applyRZ q theta s)"
proof -
  obtain b where cb: "shl1 q = Some b" using shl1_nonneg[OF q] by blast
  show ?thesis
    unfolding applyRZ_def Let_def cb bind.simps
  proof (rule norm_kept_loop[OF v])
    fix i :: nat and amps
    assume i: "i < 2 ^ nat (NumQubits s)" and k: "keeps (2 ^ nat (NumQubits s)) (norm2 (Amplitudes s)) amps"
    show "\<exists>amps'. (if int i AND b \<noteq> 0 then rd amps (int i) \<bind> (\<lambda>a. wr amps (int i) (a * exp (Complex 0 (theta / 2))))
          else rd amps (int i) \<bind> (\<lambda>a. wr amps (int i) (a * cnj (exp (Complex 0 (theta / 2))))))
            = Some amps' \<and> keeps (2 ^ nat (NumQubits s)) (norm2 (Amplitudes s)) amps'"
      using scale_step[OF k i cmod_units(4)[of "theta / 2"]] scale_step[OF k i cmod_units(5)[of "theta / 2"]]
      by (cases "int i AND b \<noteq> 0") auto
  qed
qed

lemma applyCZ_norm:
  assumes v: "valid_state s" and q: "0 \<le> target" and c: "0 \<le> control"
  shows "norm_kept s (applyCZ control target s)"
proof -
  obtain cBit where cb: "shl1 control = Some cBit" using shl1_nonneg[OF c] by blast
  obtain tBit where tb: "shl1 target = Some tBit" using shl1_nonneg[OF q] by blast
  show ?thesis
    unfolding applyCZ_def Let_def cb tb bind.simps
  proof (rule norm_kept_loop[OF v])
    fix i :: nat and amps
    assume i: "i < 2 ^ nat (NumQubits s)" and k: "keeps (2 ^ nat (NumQubits s)) (norm2 (Amplitudes s)) amps"
    show "\<exists>amps'. (if int i AND cBit \<noteq> 0 \<and> int i AND tBit \<noteq> 0
          then rd amps (int i) \<bind> (\<lambda>a. wr amps (int i) (a * (- 1)))
          else Some amps) = Some amps' \<and> keeps (2 ^ nat (NumQubits s)) (norm2 (Amplitudes s)) amps'"
      using scale_step[OF k i cmod_units(3)] k by (cases "int i AND cBit \<noteq> 0 \<and> int i AND tBit \<noteq> 0") auto
  qed
qed

lemma pair_norm:
  assumes v: "valid_state s" and q: "0 \<le> q" "q < NumQubits s"
    and U: "\<And>x y. (cmod (F x y))\<^sup>2 + (cmod (G x y))\<^sup>2 = (cmod x)\<^sup>2 + (cmod y)\<^sup>2"
  shows "norm_kept s (do {
     b \<leftarrow> shl1 q;
     newAmps \<leftarrow> for_each [0..<length (Amplitudes s)] (pair_body F G (Amplitudes s) b) (replicate (length (Amplitudes s)) 0);
     Some (s\<lparr>Amplitudes := newAmps\<rparr>) })"
proof -
  have "norm2 (map (pair_val F G (Amplitudes s) (nat q)) [0..<2 ^ nat (NumQubits s)]) = norm2 (Amplitudes s)"
    by (rule norm2_pair_val[OF valid_len[OF v] valid_shl1(2)[OF v q] U])
  then show ?thesis
    unfolding pair_apply[OF v q] using v
    by (simp add: norm_kept_def valid_state_def)
qed

lemma applyH_norm:
  assumes v: "valid_state s" and q: "0 \<le> q" "q < NumQubits s"
  shows "norm_kept s (applyH q s)"
  unfolding applyH_pair by (rule pair_norm[OF v q unitary_H])

lemma applyRX_norm:
  assumes v: "valid_state s" and q: "0 \<le> q" "q < NumQubits s"
  shows "norm_kept s (applyRX q theta s)"
  unfolding applyRX_pair by (rule pair_norm[OF v q unitary_RX])

lemma applyRY_norm:
  assumes v: "valid_state s" and q: "0 \<le> q" "q < NumQubits s"
  shows "norm_kept s (applyRY q theta s)"
  unfolding applyRY_pair by (rule pair_norm[OF v q unitary_RY])

lemma norm_kept_same: "valid_state s \<Longrightarrow> norm_kept s (Some s)"
  by (simp add: norm_kept_def)


section \<open>Evaluating strings and patterns\<close>

text \<open>
  The rewrite rules that evaluate a pattern on a given string, and the string functions
  on given strings. (\<open>show_nat\<close> and \<open>match_find\<close> are recursive without a guard the
  simplifier can decide on a variable: their equations are used on literals only.)
\<close>

lemmas regex_eval = match_full_def match_prefix_def RSeqs_def ROpt_def RPlus_def RLit_def
  cls_d_def cls_w_def cls_s_def qidx_def semi_opt_def star_iter.simps eval_nat_numeral

lemmas trim_eval = TrimSpace_def isSpace_def spaceRunes2_def spaceRunes3_def

lemmas string_eval = trim_eval HasPrefix_def HasSuffix_def TrimSuffix_def ToUpper_def
  upper_char_def lower_char_def Atoi_def isDigit_def dec_def digit_val_def Let_def

lemmas float_eval = special_def readFloat_def lower_char_def isDigit_def isHexLetter_def Let_def

lemma show_int_small: "show_int 0 = ''0''" "show_int 1 = ''1''" "show_int (- 1) = ''-1''"
  by (simp_all add: show_int_def show_nat.simps)

lemma atoi_small: "Atoi ''0'' = (0, True)" "Atoi ''1'' = (1, True)" "Atoi ''2'' = (2, True)"
  by (simp_all add: Atoi_def isDigit_def dec_def digit_val_def Let_def)

lemmas dag_eval = place_node_def getQubitsUsed_def depsOf_def AddNode_def updateRootNodes_def
  generateNodeID_def show_int_small zero_node_def NewCircuitDAG_def add64_small Let_def

section \<open>Lemmas on floating-point numbers\<close>

lemma overflow64_large: "1000 < overflow64"
proof -
  have "(2::real) ^ 1024 = 2 ^ 970 * 2 ^ 54"
    by (simp only: power_add [symmetric]) simp
  then have e: "overflow64 = 2 ^ 970 * (2 ^ 54 - 1)"
    unfolding overflow64_def by (simp only: right_diff_distrib mult_1_right)
  have a: "(1000::real) < 1 * (2 ^ 54 - 1)" by simp
  have "(1::real) \<le> 2 ^ 970" by (rule one_le_power) simp
  then have "(1::real) * (2 ^ 54 - 1) \<le> 2 ^ 970 * (2 ^ 54 - 1)"
    by (rule mult_right_mono) simp
  with a show ?thesis unfolding e by (rule less_le_trans)
qed

lemma underflow64_small: "underflow64 < 1 / 1000"
proof -
  have "(1000::real) < 2 ^ 10" by simp
  also have "\<dots> \<le> 2 ^ 1075" by (rule power_increasing) simp_all
  finally have "(1000::real) < 2 ^ 1075" .
  then have "1 / (2::real) ^ 1075 < 1 / 1000"
    by (rule divide_strict_left_mono) simp_all
  then show ?thesis unfolding underflow64_def .
qed

lemma round64_mid: "1 / 1000 \<le> x \<Longrightarrow> x \<le> 1000 \<Longrightarrow> round64 x = Fin x"
  using overflow64_large underflow64_small unfolding round64_def by auto

lemma ParseFloat_mid:
  "special s = None \<Longrightarrow> readFloat s = Some v \<Longrightarrow> 1 / 1000 \<le> v \<Longrightarrow> v \<le> 1000
     \<Longrightarrow> ParseFloat s = Some (Fin v)"
  using overflow64_large unfolding ParseFloat_def by (simp add: round64_mid)

lemma ParseFloat_none: "special s = None \<Longrightarrow> readFloat s = None \<Longrightarrow> ParseFloat s = None"
  by (simp add: ParseFloat_def)

lemma fmul_mid: "1 / 1000 \<le> x * y \<Longrightarrow> x * y \<le> 1000 \<Longrightarrow> fmul (Fin x) (Fin y) = Fin (x * y)"
  by (simp add: round64_mid)

lemma fdiv_mid:
  "y \<noteq> 0 \<Longrightarrow> 1 / 1000 \<le> x / y \<Longrightarrow> x / y \<le> 1000 \<Longrightarrow> fdiv (Fin x) (Fin y) = Fin (x / y)"
  by (simp add: round64_mid)

section \<open>Lemmas on parameter expressions\<close>

lemma scan_pos:
  "formatParam_scan piForms (Fin (2 * pi)) = Some ''2*pi''"
  "formatParam_scan piForms (Fin (pi)) = Some ''pi''"
  "formatParam_scan piForms (Fin (pi / 2)) = Some ''pi/2''"
  "formatParam_scan piForms (Fin (pi / 3)) = Some ''pi/3''"
  "formatParam_scan piForms (Fin (pi / 4)) = Some ''pi/4''"
  "formatParam_scan piForms (Fin (pi / 6)) = Some ''pi/6''"
  "formatParam_scan piForms (Fin (pi / 8)) = Some ''pi/8''"
  "formatParam_scan piForms (Fin (3 * pi / 4)) = Some ''3*pi/4''"
  "formatParam_scan piForms (Fin (3 * pi / 2)) = Some ''3*pi/2''"
  "formatParam_scan piForms (Fin (2 * pi / 3)) = Some ''2*pi/3''"
  using pi_ge_two by (simp_all add: piForms_def near_def abs_if)

lemma scan_neg:
  "formatParam_scan piForms (Fin (- (2 * pi))) = Some ''-2*pi''"
  "formatParam_scan piForms (Fin (- pi)) = Some ''-pi''"
  "formatParam_scan piForms (Fin (- (pi / 2))) = Some ''-pi/2''"
  "formatParam_scan piForms (Fin (- (pi / 3))) = Some ''-pi/3''"
  "formatParam_scan piForms (Fin (- (pi / 4))) = Some ''-pi/4''"
  "formatParam_scan piForms (Fin (- (pi / 6))) = Some ''-pi/6''"
  "formatParam_scan piForms (Fin (- (pi / 8))) = Some ''-pi/8''"
  "formatParam_scan piForms (Fin (- (3 * pi / 4))) = Some ''-3*pi/4''"
  "formatParam_scan piForms (Fin (- (3 * pi / 2))) = Some ''-3*pi/2''"
  "formatParam_scan piForms (Fin (- (2 * pi / 3))) = Some ''-2*pi/3''"
  using pi_ge_two by (simp_all add: piForms_def near_def abs_if)

lemma pi_trim:
  "TrimSpace ''2*pi'' = ''2*pi''"
  "TrimSpace ''-2*pi'' = ''-2*pi''"
  "TrimSpace ''pi'' = ''pi''"
  "TrimSpace ''-pi'' = ''-pi''"
  "TrimSpace ''pi/2'' = ''pi/2''"
  "TrimSpace ''-pi/2'' = ''-pi/2''"
  "TrimSpace ''pi/3'' = ''pi/3''"
  "TrimSpace ''-pi/3'' = ''-pi/3''"
  "TrimSpace ''pi/4'' = ''pi/4''"
  "TrimSpace ''-pi/4'' = ''-pi/4''"
  "TrimSpace ''pi/6'' = ''pi/6''"
  "TrimSpace ''-pi/6'' = ''-pi/6''"
  "TrimSpace ''pi/8'' = ''pi/8''"
  "TrimSpace ''-pi/8'' = ''-pi/8''"
  "TrimSpace ''3*pi/4'' = ''3*pi/4''"
  "TrimSpace ''-3*pi/4'' = ''-3*pi/4''"
  "TrimSpace ''3*pi/2'' = ''3*pi/2''"
  "TrimSpace ''-3*pi/2'' = ''-3*pi/2''"
  "TrimSpace ''2*pi/3'' = ''2*pi/3''"
  "TrimSpace ''-2*pi/3'' = ''-2*pi/3''"
  by (simp_all add: trim_eval)

lemma pi_lower:
  "ToLower ''2*pi'' = ''2*pi''"
  "ToLower ''-2*pi'' = ''-2*pi''"
  "ToLower ''pi'' = ''pi''"
  "ToLower ''-pi'' = ''-pi''"
  "ToLower ''pi/2'' = ''pi/2''"
  "ToLower ''-pi/2'' = ''-pi/2''"
  "ToLower ''pi/3'' = ''pi/3''"
  "ToLower ''-pi/3'' = ''-pi/3''"
  "ToLower ''pi/4'' = ''pi/4''"
  "ToLower ''-pi/4'' = ''-pi/4''"
  "ToLower ''pi/6'' = ''pi/6''"
  "ToLower ''-pi/6'' = ''-pi/6''"
  "ToLower ''pi/8'' = ''pi/8''"
  "ToLower ''-pi/8'' = ''-pi/8''"
  "ToLower ''3*pi/4'' = ''3*pi/4''"
  "ToLower ''-3*pi/4'' = ''-3*pi/4''"
  "ToLower ''3*pi/2'' = ''3*pi/2''"
  "ToLower ''-3*pi/2'' = ''-3*pi/2''"
  "ToLower ''2*pi/3'' = ''2*pi/3''"
  "ToLower ''-2*pi/3'' = ''-2*pi/3''"
  by (simp_all add: ToLower.simps lower_char_def)

lemma pi_not_float:
  "ParseFloat ''2*pi'' = None"
  "ParseFloat ''-2*pi'' = None"
  "ParseFloat ''pi'' = None"
  "ParseFloat ''-pi'' = None"
  "ParseFloat ''pi/2'' = None"
  "ParseFloat ''-pi/2'' = None"
  "ParseFloat ''pi/3'' = None"
  "ParseFloat ''-pi/3'' = None"
  "ParseFloat ''pi/4'' = None"
  "ParseFloat ''-pi/4'' = None"
  "ParseFloat ''pi/6'' = None"
  "ParseFloat ''-pi/6'' = None"
  "ParseFloat ''pi/8'' = None"
  "ParseFloat ''-pi/8'' = None"
  "ParseFloat ''3*pi/4'' = None"
  "ParseFloat ''-3*pi/4'' = None"
  "ParseFloat ''3*pi/2'' = None"
  "ParseFloat ''-3*pi/2'' = None"
  "ParseFloat ''2*pi/3'' = None"
  "ParseFloat ''-2*pi/3'' = None"
  by (simp_all add: ParseFloat_none float_eval)

lemma pi_match:
  "match_full piExprRegex 3 ''2*pi'' = Some [''2*pi'', [], ''2'', []]"
  "match_full piExprRegex 3 ''-2*pi'' = Some [''-2*pi'', ''-'', ''2'', []]"
  "match_full piExprRegex 3 ''pi'' = Some [''pi'', [], [], []]"
  "match_full piExprRegex 3 ''-pi'' = Some [''-pi'', ''-'', [], []]"
  "match_full piExprRegex 3 ''pi/2'' = Some [''pi/2'', [], [], ''2'']"
  "match_full piExprRegex 3 ''-pi/2'' = Some [''-pi/2'', ''-'', [], ''2'']"
  "match_full piExprRegex 3 ''pi/3'' = Some [''pi/3'', [], [], ''3'']"
  "match_full piExprRegex 3 ''-pi/3'' = Some [''-pi/3'', ''-'', [], ''3'']"
  "match_full piExprRegex 3 ''pi/4'' = Some [''pi/4'', [], [], ''4'']"
  "match_full piExprRegex 3 ''-pi/4'' = Some [''-pi/4'', ''-'', [], ''4'']"
  "match_full piExprRegex 3 ''pi/6'' = Some [''pi/6'', [], [], ''6'']"
  "match_full piExprRegex 3 ''-pi/6'' = Some [''-pi/6'', ''-'', [], ''6'']"
  "match_full piExprRegex 3 ''pi/8'' = Some [''pi/8'', [], [], ''8'']"
  "match_full piExprRegex 3 ''-pi/8'' = Some [''-pi/8'', ''-'', [], ''8'']"
  "match_full piExprRegex 3 ''3*pi/4'' = Some [''3*pi/4'', [], ''3'', ''4'']"
  "match_full piExprRegex 3 ''-3*pi/4'' = Some [''-3*pi/4'', ''-'', ''3'', ''4'']"
  "match_full piExprRegex 3 ''3*pi/2'' = Some [''3*pi/2'', [], ''3'', ''2'']"
  "match_full piExprRegex 3 ''-3*pi/2'' = Some [''-3*pi/2'', ''-'', ''3'', ''2'']"
  "match_full piExprRegex 3 ''2*pi/3'' = Some [''2*pi/3'', [], ''2'', ''3'']"
  "match_full piExprRegex 3 ''-2*pi/3'' = Some [''-2*pi/3'', ''-'', ''2'', ''3'']"
  by (simp_all add: piExprRegex_def regex_eval)

lemma digit_read:
  "special ''1'' = None" "readFloat ''1'' = Some 1"
  "special ''2'' = None" "readFloat ''2'' = Some 2"
  "special ''3'' = None" "readFloat ''3'' = Some 3"
  "special ''4'' = None" "readFloat ''4'' = Some 4"
  "special ''6'' = None" "readFloat ''6'' = Some 6"
  "special ''8'' = None" "readFloat ''8'' = Some 8"
  by (simp_all add: float_eval pow_int_def dec_def digit_val_def)

lemma digit_float:
  "ParseFloat ''1'' = Some (Fin 1)"
  "ParseFloat ''2'' = Some (Fin 2)"
  "ParseFloat ''3'' = Some (Fin 3)"
  "ParseFloat ''4'' = Some (Fin 4)"
  "ParseFloat ''6'' = Some (Fin 6)"
  "ParseFloat ''8'' = Some (Fin 8)"
  by (rule ParseFloat_mid, simp_all add: digit_read)+

lemma pi_arith:
  "fmul (Fin 1) (Fin pi) = Fin pi"
  "fmul (Fin 2) (Fin pi) = Fin (2 * pi)"
  "fmul (Fin 3) (Fin pi) = Fin (3 * pi)"
  "fdiv (Fin pi) (Fin 2) = Fin (pi / 2)"
  "fdiv (Fin pi) (Fin 3) = Fin (pi / 3)"
  "fdiv (Fin pi) (Fin 4) = Fin (pi / 4)"
  "fdiv (Fin pi) (Fin 6) = Fin (pi / 6)"
  "fdiv (Fin pi) (Fin 8) = Fin (pi / 8)"
  "fdiv (Fin (3 * pi)) (Fin 4) = Fin (3 * pi / 4)"
  "fdiv (Fin (3 * pi)) (Fin 2) = Fin (3 * pi / 2)"
  "fdiv (Fin (2 * pi)) (Fin 3) = Fin (2 * pi / 3)"
  using pi_ge_two pi_less_4 by (simp_all only: fmul_mid fdiv_mid) simp_all

lemma pi_parse:
  "parseParamExpr ''2*pi'' = Some (Fin (2 * pi))"
  "parseParamExpr ''-2*pi'' = Some (Fin (- (2 * pi)))"
  "parseParamExpr ''pi'' = Some (Fin (pi))"
  "parseParamExpr ''-pi'' = Some (Fin (- pi))"
  "parseParamExpr ''pi/2'' = Some (Fin (pi / 2))"
  "parseParamExpr ''-pi/2'' = Some (Fin (- (pi / 2)))"
  "parseParamExpr ''pi/3'' = Some (Fin (pi / 3))"
  "parseParamExpr ''-pi/3'' = Some (Fin (- (pi / 3)))"
  "parseParamExpr ''pi/4'' = Some (Fin (pi / 4))"
  "parseParamExpr ''-pi/4'' = Some (Fin (- (pi / 4)))"
  "parseParamExpr ''pi/6'' = Some (Fin (pi / 6))"
  "parseParamExpr ''-pi/6'' = Some (Fin (- (pi / 6)))"
  "parseParamExpr ''pi/8'' = Some (Fin (pi / 8))"
  "parseParamExpr ''-pi/8'' = Some (Fin (- (pi / 8)))"
  "parseParamExpr ''3*pi/4'' = Some (Fin (3 * pi / 4))"
  "parseParamExpr ''-3*pi/4'' = Some (Fin (- (3 * pi / 4)))"
  "parseParamExpr ''3*pi/2'' = Some (Fin (3 * pi / 2))"
  "parseParamExpr ''-3*pi/2'' = Some (Fin (- (3 * pi / 2)))"
  "parseParamExpr ''2*pi/3'' = Some (Fin (2 * pi / 3))"
  "parseParamExpr ''-2*pi/3'' = Some (Fin (- (2 * pi / 3)))"
  by (simp_all add: parseParamExpr_def pi_trim pi_not_float pi_lower pi_match digit_float pi_arith
        Let_def del: fmul.simps fdiv.simps cong: let_weak_cong)

lemma table_facts:
  "\<forall>(v, d) \<in> set [(2 * pi, ''2*pi''), (pi, ''pi''), (pi / 2, ''pi/2''), (pi / 3, ''pi/3''),
                     (pi / 4, ''pi/4''), (pi / 6, ''pi/6''), (pi / 8, ''pi/8''),
                     (3 * pi / 4, ''3*pi/4''), (3 * pi / 2, ''3*pi/2''), (2 * pi / 3, ''2*pi/3'')].
      formatParam_scan piForms (Fin v) = Some d
    \<and> formatParam_scan piForms (Fin (- v)) = Some (''-'' @ d)
    \<and> parseParamExpr d = Some (Fin v) \<and> parseParamExpr (''-'' @ d) = Some (Fin (- v))"
  by (simp add: scan_pos scan_neg pi_parse)

lemma parseParams_loop_fail:
  "\<exists>part\<in>set parts. trim part \<noteq> [] \<and> parse (trim part) = None
     \<Longrightarrow> parseParams_loop trim parse parts params = None"
  by (induction parts arbitrary: params) (auto simp: Let_def split: option.splits)

lemma parseParams_example:
  "Split ''1,,2'' CHR '','' = [''1'', [], ''2'']"
  "TrimSpace ''1'' = ''1''" "TrimSpace ''2'' = ''2''" "TrimSpace [] = []"
  by (simp_all add: trim_eval)

lemma parseParamExpr_digits:
  "parseParamExpr ''1'' = Some (Fin 1)" "parseParamExpr ''2'' = Some (Fin 2)"
  by (simp_all add: parseParamExpr_def parseParams_example digit_float cong: let_weak_cong)

lemma parseParamExpr_empty: "parseParamExpr [] = None"
  by (simp add: parseParamExpr_def TrimSpace_def)

lemma parseParams_skips_blank: "parseParams ''1,,2'' = Some [Fin 1, Fin 2]"
  by (simp add: parseParams_def parseParams_example parseParamExpr_digits cong: let_weak_cong)

lemma garbage_facts:
  "Split ''pi/2,garbage'' CHR '','' = [''pi/2'', ''garbage'']"
  "TrimSpace ''garbage'' = ''garbage''"
  "ToLower ''garbage'' = ''garbage''"
  "ParseFloat ''garbage'' = None"
  by (simp_all add: trim_eval ToLower.simps ParseFloat_none float_eval)

lemma garbage_no_match: "match_full piExprRegex 3 ''garbage'' = None"
  by (simp add: piExprRegex_def regex_eval)

lemma parseParamExpr_garbage: "parseParamExpr ''garbage'' = None"
  by (simp add: parseParamExpr_def garbage_facts garbage_no_match Let_def cong: let_weak_cong)

section \<open>Evaluating the decoder\<close>

subsection \<open>The program \<^verbatim>\<open>h q[0]; h q[1]; cx q[0],q[1];\<close>\<close>

lemma h0_reset: "match_full resetRegex 1 ''h q[0];'' = None"
  by (simp add: resetRegex_def  regex_eval)

lemma h0_barrier: "match_prefix barrierRegex ''h q[0];'' = False"
  by (simp add: barrierRegex_def  regex_eval)

lemma h0_measure: "match_full measureRegex 3 ''h q[0];'' = None"
  by (simp add: measureRegex_def  regex_eval)

lemma h0_ifParam: "match_full ifParamRegex 6 ''h q[0];'' = None"
  by (simp add: ifParamRegex_def if_head_def paramPattern_def regex_eval)

lemma h0_if: "match_full ifRegex 5 ''h q[0];'' = None"
  by (simp add: ifRegex_def if_head_def regex_eval)

lemma h0_threeQubit: "match_full threeQubitRegex 4 ''h q[0];'' = None"
  by (simp add: threeQubitRegex_def  regex_eval)

lemma h0_twoQubitParam: "match_full twoQubitParamRegex 4 ''h q[0];'' = None"
  by (simp add: twoQubitParamRegex_def paramPattern_def regex_eval)

lemma h0_twoQubit: "match_full twoQubitRegex 3 ''h q[0];'' = None"
  by (simp add: twoQubitRegex_def  regex_eval)

lemma h0_singleGateParam: "match_full singleGateParamRegex 3 ''h q[0];'' = None"
  by (simp add: singleGateParamRegex_def paramPattern_def regex_eval)

lemma h0_singleGate: "match_full singleGateRegex 2 ''h q[0];'' = Some [''h q[0];'', ''h'', ''0'']"
  by (simp add: singleGateRegex_def  regex_eval)

lemma h1_reset: "match_full resetRegex 1 ''h q[1];'' = None"
  by (simp add: resetRegex_def  regex_eval)

lemma h1_barrier: "match_prefix barrierRegex ''h q[1];'' = False"
  by (simp add: barrierRegex_def  regex_eval)

lemma h1_measure: "match_full measureRegex 3 ''h q[1];'' = None"
  by (simp add: measureRegex_def  regex_eval)

lemma h1_ifParam: "match_full ifParamRegex 6 ''h q[1];'' = None"
  by (simp add: ifParamRegex_def if_head_def paramPattern_def regex_eval)

lemma h1_if: "match_full ifRegex 5 ''h q[1];'' = None"
  by (simp add: ifRegex_def if_head_def regex_eval)

lemma h1_threeQubit: "match_full threeQubitRegex 4 ''h q[1];'' = None"
  by (simp add: threeQubitRegex_def  regex_eval)

lemma h1_twoQubitParam: "match_full twoQubitParamRegex 4 ''h q[1];'' = None"
  by (simp add: twoQubitParamRegex_def paramPattern_def regex_eval)

lemma h1_twoQubit: "match_full twoQubitRegex 3 ''h q[1];'' = None"
  by (simp add: twoQubitRegex_def  regex_eval)

lemma h1_singleGateParam: "match_full singleGateParamRegex 3 ''h q[1];'' = None"
  by (simp add: singleGateParamRegex_def paramPattern_def regex_eval)

lemma h1_singleGate: "match_full singleGateRegex 2 ''h q[1];'' = Some [''h q[1];'', ''h'', ''1'']"
  by (simp add: singleGateRegex_def  regex_eval)

lemma cx_reset: "match_full resetRegex 1 ''cx q[0],q[1];'' = None"
  by (simp add: resetRegex_def  regex_eval)

lemma cx_barrier: "match_prefix barrierRegex ''cx q[0],q[1];'' = False"
  by (simp add: barrierRegex_def  regex_eval)

lemma cx_measure: "match_full measureRegex 3 ''cx q[0],q[1];'' = None"
  by (simp add: measureRegex_def  regex_eval)

lemma cx_ifParam: "match_full ifParamRegex 6 ''cx q[0],q[1];'' = None"
  by (simp add: ifParamRegex_def if_head_def paramPattern_def regex_eval)

lemma cx_if: "match_full ifRegex 5 ''cx q[0],q[1];'' = None"
  by (simp add: ifRegex_def if_head_def regex_eval)

lemma cx_threeQubit: "match_full threeQubitRegex 4 ''cx q[0],q[1];'' = None"
  by (simp add: threeQubitRegex_def  regex_eval)

lemma cx_twoQubitParam: "match_full twoQubitParamRegex 4 ''cx q[0],q[1];'' = None"
  by (simp add: twoQubitParamRegex_def paramPattern_def regex_eval)

lemma cx_twoQubit: "match_full twoQubitRegex 3 ''cx q[0],q[1];'' = Some [''cx q[0],q[1];'', ''cx'', ''0'', ''1'']"
  by (simp add: twoQubitRegex_def  regex_eval)


lemma split_c4: "Split ''h q[0];\<newline>h q[1];\<newline>cx q[0],q[1];'' CHR ''\<newline>'' = [''h q[0];'', ''h q[1];'', ''cx q[0],q[1];'']"
  by simp

lemma pgl_h0: "parseGateLine cm ''h q[0];'' rest = (Some (zero_node\<lparr>nType := ''H'', nTarget := 0,
                               nControl := - 1, nIsDagger := False,
                               nClassicalControl := - 1, nMeasureSource := - 1,
                               nDependencies := []\<rparr>), False)"
  unfolding parseGateLine_def h0_reset h0_barrier h0_measure h0_ifParam h0_if h0_threeQubit h0_twoQubitParam h0_twoQubit h0_singleGateParam h0_singleGate
  by (simp add: string_eval cong: let_weak_cong)

lemma pgl_h1: "parseGateLine cm ''h q[1];'' rest = (Some (zero_node\<lparr>nType := ''H'', nTarget := 1,
                               nControl := - 1, nIsDagger := False,
                               nClassicalControl := - 1, nMeasureSource := - 1,
                               nDependencies := []\<rparr>), False)"
  unfolding parseGateLine_def h1_reset h1_barrier h1_measure h1_ifParam h1_if h1_threeQubit h1_twoQubitParam h1_twoQubit h1_singleGateParam h1_singleGate
  by (simp add: string_eval cong: let_weak_cong)

lemma pgl_cx: "parseGateLine cm ''cx q[0],q[1];'' rest = (Some (zero_node\<lparr>nType := ''CX'', nTarget := 1,
                               nControl := 0,
                               nClassicalControl := - 1, nMeasureSource := - 1,
                               nDependencies := []\<rparr>), False)"
  unfolding parseGateLine_def cx_reset cx_barrier cx_measure cx_ifParam cx_if cx_threeQubit cx_twoQubitParam cx_twoQubit
  by (simp add: string_eval cong: let_weak_cong)

lemma trim_c4: "TrimSpace ''h q[0];'' = ''h q[0];''" "TrimSpace ''h q[1];'' = ''h q[1];''"
  "TrimSpace ''cx q[0],q[1];'' = ''cx q[0],q[1];''"
  by (simp_all add: string_eval)

lemma prefix_c4:
  "HasPrefix ''h q[0];'' ''//'' = False" "HasPrefix ''h q[0];'' ''OPENQASM'' = False"
  "HasPrefix ''h q[0];'' ''include'' = False" "HasPrefix ''h q[0];'' ''qreg'' = False"
  "HasPrefix ''h q[0];'' ''creg'' = False"
  "HasPrefix ''h q[1];'' ''//'' = False" "HasPrefix ''h q[1];'' ''OPENQASM'' = False"
  "HasPrefix ''h q[1];'' ''include'' = False" "HasPrefix ''h q[1];'' ''qreg'' = False"
  "HasPrefix ''h q[1];'' ''creg'' = False"
  "HasPrefix ''cx q[0],q[1];'' ''//'' = False" "HasPrefix ''cx q[0],q[1];'' ''OPENQASM'' = False"
  "HasPrefix ''cx q[0],q[1];'' ''include'' = False" "HasPrefix ''cx q[0],q[1];'' ''qreg'' = False"
  "HasPrefix ''cx q[0],q[1];'' ''creg'' = False"
  by (simp_all add: HasPrefix_def)

lemma parse_parallel:
  "ParseQASM NewCircuitDAG ''h q[0];\<newline>h q[1];\<newline>cx q[0],q[1];'' = parallel_dag"
  unfolding ParseQASM_def split_c4
  by (simp add: trim_c4 prefix_c4 pgl_h0 pgl_h1 pgl_cx dag_eval parallel_dag_def cong: let_weak_cong)

subsection \<open>A measurement followed by a conditional gate\<close>

lemma ms_reset: "match_full resetRegex 1 ''measure q[0] -> c[0];'' = None"
  by (simp add: resetRegex_def  regex_eval)

lemma ms_barrier: "match_prefix barrierRegex ''measure q[0] -> c[0];'' = False"
  by (simp add: barrierRegex_def  regex_eval)

lemma ms_measure: "match_full measureRegex 3 ''measure q[0] -> c[0];'' = Some [''measure q[0] -> c[0];'', ''0'', ''c'', ''0'']"
  by (simp add: measureRegex_def  regex_eval)

lemma ifz_if: "match_full ifRegex 5 ''if (c[0]==1) z q[1];'' = Some [''if (c[0]==1) z q[1];'', ''c'', ''0'', ''1'', ''z'', ''1'']"
  by (simp add: ifRegex_def if_head_def regex_eval)

lemma ifx_if: "match_full ifRegex 5 ''if (c[0]==1) x q[1];'' = Some [''if (c[0]==1) x q[1];'', ''c'', ''0'', ''1'', ''x'', ''1'']"
  by (simp add: ifRegex_def if_head_def regex_eval)

lemma qreg_find: "match_find qregRegex 2 ''qreg q[2];'' = Some [''qreg q[2]'', ''q'', ''2'']"
  by (simp add: qregRegex_def match_find.simps regex_eval)

lemma creg_find: "match_find cregRegex 2 ''creg c[2];'' = Some [''creg c[2]'', ''c'', ''2'']"
  by (simp add: cregRegex_def match_find.simps regex_eval)

lemma split_c5:
  "Split ''qreg q[2];\<newline>creg c[2];\<newline>measure q[0] -> c[0];\<newline>if (c[0]==1) z q[1];'' CHR ''\<newline>''
     = [''qreg q[2];'', ''creg c[2];'', ''measure q[0] -> c[0];'', ''if (c[0]==1) z q[1];'']"
  "Split ''qreg q[2];\<newline>creg c[2];\<newline>measure q[0] -> c[0];\<newline>if (c[0]==1) x q[1];'' CHR ''\<newline>''
     = [''qreg q[2];'', ''creg c[2];'', ''measure q[0] -> c[0];'', ''if (c[0]==1) x q[1];'']"
  by simp_all

lemma trim_c5:
  "TrimSpace ''qreg q[2];'' = ''qreg q[2];''" "TrimSpace ''creg c[2];'' = ''creg c[2];''"
  "TrimSpace ''measure q[0] -> c[0];'' = ''measure q[0] -> c[0];''"
  "TrimSpace ''if (c[0]==1) z q[1];'' = ''if (c[0]==1) z q[1];''"
  "TrimSpace ''if (c[0]==1) x q[1];'' = ''if (c[0]==1) x q[1];''"
  by (simp_all add: trim_eval)

lemma prefix_c5:
  "HasPrefix ''qreg q[2];'' ''//'' = False" "HasPrefix ''qreg q[2];'' ''OPENQASM'' = False"
  "HasPrefix ''qreg q[2];'' ''include'' = False" "HasPrefix ''qreg q[2];'' ''qreg'' = True"
  "HasPrefix ''creg c[2];'' ''//'' = False" "HasPrefix ''creg c[2];'' ''OPENQASM'' = False"
  "HasPrefix ''creg c[2];'' ''include'' = False" "HasPrefix ''creg c[2];'' ''qreg'' = False"
  "HasPrefix ''creg c[2];'' ''creg'' = True"
  "HasPrefix ''measure q[0] -> c[0];'' ''//'' = False"
  "HasPrefix ''measure q[0] -> c[0];'' ''OPENQASM'' = False"
  "HasPrefix ''measure q[0] -> c[0];'' ''include'' = False"
  "HasPrefix ''measure q[0] -> c[0];'' ''qreg'' = False"
  "HasPrefix ''measure q[0] -> c[0];'' ''creg'' = False"
  by (simp_all add: HasPrefix_def)

lemma resolve_c0: "resolveCBit [(''c'', 0)] ''c'' ''0'' = 0"
  by (simp add: resolveCBit_def atoi_small add64_small)

lemma pgl_measure_z:
  "parseGateLine [(''c'', 0)] ''measure q[0] -> c[0];'' [''if (c[0]==1) z q[1];'']
     = (Some (zero_node\<lparr>nType := ''MCX'', nTarget := 1, nControl := - 1, nMeasureSource := 0,
                          nClassicalControl := - 1, nDependencies := []\<rparr>), True)"
  unfolding parseGateLine_def ms_reset ms_barrier ms_measure
  by (simp add: trim_c5 ifz_if resolve_c0 atoi_small cong: let_weak_cong)

lemma pgl_measure_x:
  "parseGateLine [(''c'', 0)] ''measure q[0] -> c[0];'' [''if (c[0]==1) x q[1];'']
     = (Some (zero_node\<lparr>nType := ''MCX'', nTarget := 1, nControl := - 1, nMeasureSource := 0,
                          nClassicalControl := - 1, nDependencies := []\<rparr>), True)"
  unfolding parseGateLine_def ms_reset ms_barrier ms_measure
  by (simp add: trim_c5 ifx_if resolve_c0 atoi_small cong: let_weak_cong)

lemma parse_measure_z:
  "ParseQASM NewCircuitDAG
     ''qreg q[2];\<newline>creg c[2];\<newline>measure q[0] -> c[0];\<newline>if (c[0]==1) z q[1];'' = mcx_dag"
  unfolding ParseQASM_def split_c5
  by (simp add: trim_c5 prefix_c5 qreg_find creg_find atoi_small pgl_measure_z dag_eval mcx_dag_def
        cong: let_weak_cong)

lemma parse_measure_x:
  "ParseQASM NewCircuitDAG
     ''qreg q[2];\<newline>creg c[2];\<newline>measure q[0] -> c[0];\<newline>if (c[0]==1) x q[1];'' = mcx_dag"
  unfolding ParseQASM_def split_c5
  by (simp add: trim_c5 prefix_c5 qreg_find creg_find atoi_small pgl_measure_x dag_eval mcx_dag_def
        cong: let_weak_cong)

subsection \<open>A barrier\<close>

lemma AddBarrier_empty:
  "AddBarrier NewCircuitDAG 0 = barrier_dag"
  by (simp add: AddBarrier_def dag_eval barrier_dag_def cong: let_weak_cong)

lemma barrier_not_found: "GetNodeAt barrier_dag 0 0 = None"
  by (simp add: GetNodeAt_def barrier_dag_def)

section \<open>The claims\<close>

text \<open>
  Claim C1 (as amended). \<^verbatim>\<open>SimulateCircuit\<close> applies the gates in the order
  \<open>sortGates (Gates circuit)\<close>: its result is the fold of \<open>simulate_gate\<close> over that
  list, from the all-zero state. That order is nondecreasing in the step and it is a
  permutation of the gate list. A gate list that is already in nondecreasing step order
  is left as it is, and then the result is that of the stable order: gates of equal step
  are applied in insertion order. (On other lists the exchange sort is not stable: see
  \<open>SimulateCircuit_not_stable\<close>.)
\<close>

theorem SimulateCircuit_step_order:
  "SimulateCircuit c upToStep
     = (if circNumQubits c = 0 then NewStateVector 1
        else NewStateVector (circNumQubits c)
               \<bind> for_each (sortGates (Gates c)) (simulate_gate upToStep))
   \<and> sorted (map Step (sortGates (Gates c)))
   \<and> mset (sortGates (Gates c)) = mset (Gates c)
   \<and> (sorted (map Step (Gates c))
        \<longrightarrow> sortGates (Gates c) = Gates c
          \<and> SimulateCircuit c upToStep = SimulateCircuit_stable c upToStep)"
  by (simp add: SimulateCircuit_def SimulateCircuit_stable_def sortGates_sorted sortGates_mset
        sortGates_sorted_id sort_key_id_if_sorted)

theorem SimulateCircuit_step_order_witness:
  "sorted (map Step (Gates bell_circuit))
   \<and> map Type (Gates bell_circuit) = [''H'', ''CX'']
   \<and> sortGates (Gates bell_circuit) = Gates bell_circuit
   \<and> SimulateCircuit bell_circuit (- 1) = SimulateCircuit_stable bell_circuit (- 1)"
proof -
  have s: "sorted (map Step (Gates bell_circuit))"
    and t: "map Type (Gates bell_circuit) = [''H'', ''CX'']"
    by (simp_all add: bell_gates)
  from SimulateCircuit_step_order [of bell_circuit "- 1"] s t show ?thesis
    by blast
qed

text \<open>
  Claim C1 as stated fails. For the one-qubit circuit built by \<^verbatim>\<open>AddGate("X", 0, 1)\<close>,
  \<^verbatim>\<open>AddGate("Z", 0, 1)\<close>, \<^verbatim>\<open>AddBarrier(0)\<close>, the ordering loop moves the barrier to
  the front by exchanging it with \<open>X\<close>, which puts \<open>Z\<close> before \<open>X\<close> although both have
  step 1 and \<open>X\<close> was inserted first. A stable sort keeps \<open>X\<close> before \<open>Z\<close>, and the two
  orders give different amplitudes.
\<close>

theorem SimulateCircuit_not_stable:
  "map Type (sortGates (Gates tie_circuit)) = [''BARRIER'', ''Z'', ''X'']
   \<and> map Type (sort_key Step (Gates tie_circuit)) = [''BARRIER'', ''X'', ''Z'']
   \<and> SimulateCircuit tie_circuit (- 1) = Some \<lparr>Amplitudes = [0, 1], NumQubits = 1\<rparr>
   \<and> SimulateCircuit_stable tie_circuit (- 1) = Some \<lparr>Amplitudes = [0, - 1], NumQubits = 1\<rparr>
   \<and> SimulateCircuit tie_circuit (- 1) \<noteq> SimulateCircuit_stable tie_circuit (- 1)"
  by (simp add: tie_gates tie_sorted tie_stable tie_sim tie_sim_stable)

text \<open>
  Claim C2. From the all-zero two-qubit state, \<open>H\<close> on qubit 0 followed by \<open>CX\<close> with
  control 0 and target 1 gives the amplitudes \<open>[1/\<surd>2, 0, 0, 1/\<surd>2]\<close>, through
  \<^verbatim>\<open>ApplyGate\<close> and through \<^verbatim>\<open>SimulateCircuit\<close> alike, and
  \<^verbatim>\<open>GetQubitProbabilities\<close> reports \<open>P(0) = P(1) = 1/2\<close> for both qubits.
\<close>

theorem bell_state:
  "do { s \<leftarrow> NewStateVector 2;
        s \<leftarrow> ApplyGate ''H'' 0 (- 1) [] s;
        ApplyGate ''CX'' 1 0 [] s }
     = Some \<lparr>Amplitudes = [1 / sqrt 2, 0, 0, 1 / sqrt 2], NumQubits = 2\<rparr>
   \<and> SimulateCircuit bell_circuit (- 1)
     = Some \<lparr>Amplitudes = [1 / sqrt 2, 0, 0, 1 / sqrt 2], NumQubits = 2\<rparr>
   \<and> GetQubitProbabilities \<lparr>Amplitudes = [1 / sqrt 2, 0, 0, 1 / sqrt 2], NumQubits = 2\<rparr>
     = Some [\<lparr>Prob0 = 1 / 2, Prob1 = 1 / 2\<rparr>, \<lparr>Prob0 = 1 / 2, Prob1 = 1 / 2\<rparr>]"
proof (intro conjI)
  show "do { s \<leftarrow> NewStateVector 2;
        s \<leftarrow> ApplyGate ''H'' 0 (- 1) [] s;
        ApplyGate ''CX'' 1 0 [] s }
     = Some \<lparr>Amplitudes = [1 / sqrt 2, 0, 0, 1 / sqrt 2], NumQubits = 2\<rparr>"
    by (simp add: new2 ApplyGate_def H_on_00 CX_01)
qed (rule bell_sim bell_probs)+

text \<open>
  Claim C7 (as amended). The gates that \<^verbatim>\<open>SimulateCircuit\<close> skips (barrier,
  measurement, measurement-controlled, classically controlled and noise gates) add nothing
  to the state: for every circuit and every \<open>upToStep\<close> the result is that of the
  circuit whose gate list is the simulator's own step order with those gates removed; and
  when the gate list is already in nondecreasing step order, the result is that of the
  same circuit with those gates removed.
\<close>

theorem skipped_gates_no_effect:
  "SimulateCircuit (c\<lparr>Gates := filter (\<lambda>g. \<not> skipped g) (sortGates (Gates c))\<rparr>) upToStep
     = SimulateCircuit c upToStep
   \<and> (sorted (map Step (Gates c))
        \<longrightarrow> SimulateCircuit (drop_skipped c) upToStep = SimulateCircuit c upToStep)"
  by (simp add: SimulateCircuit_drop_after_sort SimulateCircuit_drop_sorted)

theorem skipped_gates_no_effect_witness:
  "sorted (map Step (Gates (Circuit_AddBarrier 1 bell_circuit)))
   \<and> SimulateCircuit (drop_skipped (Circuit_AddBarrier 1 bell_circuit)) (- 1)
       = SimulateCircuit (Circuit_AddBarrier 1 bell_circuit) (- 1)
   \<and> Gates (drop_skipped (Circuit_AddBarrier 1 bell_circuit)) = Gates bell_circuit"
  using skipped_gates_no_effect [of "Circuit_AddBarrier 1 bell_circuit" "- 1"]
  by (simp add: Circuit_AddBarrier_def add64_small bell_gates Let_def drop_skipped_def skipped_def)

text \<open>
  Claim C7 as stated fails. In the circuit of \<open>SimulateCircuit_not_stable\<close> the barrier
  is skipped, but its presence changes the order in which the ordering loop leaves the
  two step-1 gates: with the barrier the state ends as \<open>[0, 1]\<close>, with the barrier
  removed as \<open>[0, - 1]\<close>.
\<close>

theorem skipped_gate_changes_result:
  "Gates (drop_skipped tie_circuit) = filter (\<lambda>g. \<not> skipped g) (Gates tie_circuit)
   \<and> map Type (Gates tie_circuit) = [''X'', ''Z'', ''BARRIER'']
   \<and> map Type (Gates (drop_skipped tie_circuit)) = [''X'', ''Z'']
   \<and> SimulateCircuit tie_circuit (- 1) = Some \<lparr>Amplitudes = [0, 1], NumQubits = 1\<rparr>
   \<and> SimulateCircuit (drop_skipped tie_circuit) (- 1) = Some \<lparr>Amplitudes = [0, - 1], NumQubits = 1\<rparr>"
proof (intro conjI)
  show "Gates (drop_skipped tie_circuit) = filter (\<lambda>g. \<not> skipped g) (Gates tie_circuit)"
    by (simp add: drop_skipped_def)
qed (simp_all add: tie_gates tie_dropped_gates tie_sim tie_sim_dropped)

text \<open>
  Claim C8. For \<open>RX\<close>, \<open>RY\<close>, \<open>RZ\<close>, \<open>P\<close> and \<open>U1\<close>, \<^verbatim>\<open>ApplyGate\<close> with an empty
  parameter list does what it does for the parameter list \<open>[0]\<close>, on every state and
  for every target; and on a valid state and a target qubit of the state it does not
  panic and leaves the state as it is.
\<close>

theorem ApplyGate_empty_params:
  assumes "gateType \<in> {''RX'', ''RY'', ''RZ'', ''P'', ''U1''}"
  shows "ApplyGate gateType target control [] s = ApplyGate gateType target control [0] s
         \<and> (valid_state s \<and> 0 \<le> target \<and> target < NumQubits s
              \<longrightarrow> ApplyGate gateType target control [] s = Some s)"
  using assms by (auto simp: ApplyGate_def applyRX_zero applyRY_zero applyRZ_zero)

theorem ApplyGate_empty_params_witness:
  "''RX'' \<in> {''RX'', ''RY'', ''RZ'', ''P'', ''U1''}
   \<and> valid_state \<lparr>Amplitudes = [1 / sqrt 2, 0, 0, 1 / sqrt 2], NumQubits = 2\<rparr>
   \<and> (0::int) \<le> 1 \<and> 1 < NumQubits \<lparr>Amplitudes = [1 / sqrt 2, 0, 0, 1 / sqrt 2], NumQubits = 2\<rparr>
   \<and> ApplyGate ''RX'' 1 (- 1) [] \<lparr>Amplitudes = [1 / sqrt 2, 0, 0, 1 / sqrt 2], NumQubits = 2\<rparr>
       = Some \<lparr>Amplitudes = [1 / sqrt 2, 0, 0, 1 / sqrt 2], NumQubits = 2\<rparr>"
  using ApplyGate_empty_params [of "''RX''" 1 "- 1" "\<lparr>Amplitudes = [1 / sqrt 2, 0, 0, 1 / sqrt 2], NumQubits = 2\<rparr>"]
  by (auto simp: valid_state_def)

text \<open>
  Claim C10. On a valid state, each of the gates \<open>H\<close>, \<open>X\<close>, \<open>Y\<close>, \<open>Z\<close>, \<open>S\<close>, \<open>Sdg\<close>,
  \<open>T\<close>, \<open>Tdg\<close>, \<open>RX\<close>, \<open>RY\<close>, \<open>RZ\<close>, \<open>P\<close>/\<open>U1\<close>, \<open>CX\<close>, \<open>CZ\<close> and \<open>SWAP\<close>, applied
  through \<^verbatim>\<open>ApplyGate\<close> to a target qubit of the state, returns (it does not panic) and
  the sum of the squared magnitudes of the amplitudes is unchanged. This holds whatever
  the control argument is, so in particular for a control qubit of the state different
  from the target.
\<close>

theorem ApplyGate_preserves_norm:
  assumes v: "valid_state s" and q: "0 \<le> target" "target < NumQubits s"
    and g: "gateType \<in> {''H'', ''X'', ''Y'', ''Z'', ''S'', ''SDG'', ''Sdg'', ''T'', ''TDG'', ''Tdg'',
                         ''RX'', ''RY'', ''RZ'', ''P'', ''U1'', ''CX'', ''CZ'', ''SWAP''}"
  shows "\<exists>s'. ApplyGate gateType target control params s = Some s'
            \<and> norm2 (Amplitudes s') = norm2 (Amplitudes s) \<and> valid_state s'"
proof -
  have "norm_kept s (ApplyGate gateType target control params s)"
    using g unfolding ApplyGate_def Let_def
    by (auto simp: applyH_norm[OF v q] applyX_norm[OF v q] applyY_norm[OF v q] applyZ_norm[OF v q(1)]
        applyS_norm[OF v q(1)] applyT_norm[OF v q(1)] applyRX_norm[OF v q] applyRY_norm[OF v q]
        applyRZ_norm[OF v q(1)] applyCX_norm[OF v q] applyCZ_norm[OF v q(1)] applySWAP_norm[OF v q]
        norm_kept_same[OF v])
  then show ?thesis by (auto simp: norm_kept_def)
qed

theorem ApplyGate_preserves_norm_witness:
  "valid_state \<lparr>Amplitudes = [1, 0, 0, 0], NumQubits = 2\<rparr>
   \<and> (0::int) \<le> 0 \<and> 0 < NumQubits \<lparr>Amplitudes = [1, 0, 0, 0], NumQubits = 2\<rparr>
   \<and> ''H'' \<in> {''H'', ''X'', ''Y'', ''Z'', ''S'', ''SDG'', ''Sdg'', ''T'', ''TDG'', ''Tdg'',
               ''RX'', ''RY'', ''RZ'', ''P'', ''U1'', ''CX'', ''CZ'', ''SWAP''}
   \<and> (\<exists>s'. ApplyGate ''H'' 0 (- 1) [] \<lparr>Amplitudes = [1, 0, 0, 0], NumQubits = 2\<rparr> = Some s'
            \<and> norm2 (Amplitudes s') = norm2 [1, 0, 0, 0] \<and> valid_state s')"
  using ApplyGate_preserves_norm [of "\<lparr>Amplitudes = [1, 0, 0, 0], NumQubits = 2\<rparr>" 0 "''H''" "- 1" "[]"]
  by (simp add: valid_state_def)

text \<open>
  Claim C3, at the input where the code leaves it. \<^verbatim>\<open>AddBarrier(0)\<close> on the empty graph
  stores a barrier with target \<open>- 1\<close>; \<^verbatim>\<open>GetNodeAt(0, 0)\<close> compares the qubit with the
  target, the control and the measurement source of the node and so does not find the
  barrier, and \<^verbatim>\<open>CanPlaceGateAt(0, [0])\<close> answers true at the barrier's step.
\<close>

theorem CanPlaceGateAt_misses_barrier:
  "AddBarrier NewCircuitDAG 0 = barrier_dag
   \<and> map (\<lambda>e. (nType (snd e), nStep (snd e), nTarget (snd e))) (Nodes barrier_dag)
       = [(''BARRIER'', 0, - 1)]
   \<and> GetNodeAt (AddBarrier NewCircuitDAG 0) 0 0 = None
   \<and> CanPlaceGateAt (AddBarrier NewCircuitDAG 0) 0 [0] = True"
  by (simp add: AddBarrier_empty barrier_not_found) (simp add: barrier_dag_def)

text \<open>
  Claim C4. Decoding \<^verbatim>\<open>h q[0];\<close>, \<^verbatim>\<open>h q[1];\<close>, \<^verbatim>\<open>cx q[0],q[1];\<close> (one statement per
  line) gives three nodes: the two \<open>H\<close> nodes at step 0 and the \<open>CX\<close> node at step 1.
\<close>

theorem decode_parallel_steps:
  "map (\<lambda>e. (nType (snd e), nTarget (snd e), nControl (snd e), nStep (snd e)))
       (Nodes (ParseQASM NewCircuitDAG ''h q[0];\<newline>h q[1];\<newline>cx q[0],q[1];''))
     = [(''H'', 0, - 1, 0), (''H'', 1, - 1, 0), (''CX'', 1, 0, 1)]"
  by (simp add: parse_parallel parallel_dag_def)

text \<open>
  Claim C5, at the input where the code leaves it. A \<^verbatim>\<open>measure\<close> line followed by
  \<^verbatim>\<open>if (c[0]==1) z q[1];\<close> is fused into one \<open>MCX\<close> node, exactly as it is when the
  conditional gate is \<^verbatim>\<open>x\<close>: \<^verbatim>\<open>parseGateLine\<close> compares the classical bits and never
  looks at the name of the conditional gate.
\<close>

theorem fusion_ignores_gate_name:
  "ParseQASM NewCircuitDAG
     ''qreg q[2];\<newline>creg c[2];\<newline>measure q[0] -> c[0];\<newline>if (c[0]==1) z q[1];''
   = ParseQASM NewCircuitDAG
     ''qreg q[2];\<newline>creg c[2];\<newline>measure q[0] -> c[0];\<newline>if (c[0]==1) x q[1];''
   \<and> map (\<lambda>e. (nType (snd e), nTarget (snd e), nMeasureSource (snd e), nClassicalControl (snd e)))
        (Nodes (ParseQASM NewCircuitDAG
          ''qreg q[2];\<newline>creg c[2];\<newline>measure q[0] -> c[0];\<newline>if (c[0]==1) z q[1];''))
     = [(''MCX'', 1, 0, - 1)]"
  by (simp add: parse_measure_z parse_measure_x) (simp add: mcx_dag_def)

text \<open>
  Claim C6. For each of the ten values \<open>v\<close> of the table of \<^verbatim>\<open>formatParam\<close>
  (\<open>2\<pi>\<close>, \<open>\<pi>\<close>, \<open>\<pi>/2\<close>, \<open>\<pi>/3\<close>, \<open>\<pi>/4\<close>, \<open>\<pi>/6\<close>, \<open>\<pi>/8\<close>, \<open>3\<pi>/4\<close>, \<open>3\<pi>/2\<close>, \<open>2\<pi>/3\<close>) with
  its display string \<open>d\<close>: \<^verbatim>\<open>formatParam\<close> returns \<open>d\<close> for \<open>v\<close> and \<open>d\<close> prefixed with
  \<^verbatim>\<open>-\<close> for \<open>- v\<close>, and \<^verbatim>\<open>parseParamExpr\<close> succeeds on both strings with a number
  within \<open>10\<^sup>-\<^sup>1\<^sup>0\<close> of \<open>v\<close> and of \<open>- v\<close>. (Whatever \<^verbatim>\<open>%g\<close> prints: the fall-back is not
  reached.)
\<close>

theorem formatParam_roundtrip:
  "\<forall>(v, d) \<in> set [(2 * pi, ''2*pi''), (pi, ''pi''), (pi / 2, ''pi/2''), (pi / 3, ''pi/3''),
                     (pi / 4, ''pi/4''), (pi / 6, ''pi/6''), (pi / 8, ''pi/8''),
                     (3 * pi / 4, ''3*pi/4''), (3 * pi / 2, ''3*pi/2''), (2 * pi / 3, ''2*pi/3'')].
      formatParam sprintf_g (Fin v) = d \<and> formatParam sprintf_g (Fin (- v)) = ''-'' @ d
    \<and> (\<exists>r. parseParamExpr (formatParam sprintf_g (Fin v)) = Some (Fin r)
            \<and> \<bar>r - v\<bar> < 1 / 10 ^ 10)
    \<and> (\<exists>r. parseParamExpr (formatParam sprintf_g (Fin (- v))) = Some (Fin r)
            \<and> \<bar>r - (- v)\<bar> < 1 / 10 ^ 10)"
proof -
  have "formatParam sprintf_g (Fin v) = d \<and> formatParam sprintf_g (Fin (- v)) = ''-'' @ d
    \<and> (\<exists>r. parseParamExpr (formatParam sprintf_g (Fin v)) = Some (Fin r)
            \<and> \<bar>r - v\<bar> < 1 / 10 ^ 10)
    \<and> (\<exists>r. parseParamExpr (formatParam sprintf_g (Fin (- v))) = Some (Fin r)
            \<and> \<bar>r - (- v)\<bar> < 1 / 10 ^ 10)"
    if "formatParam_scan piForms (Fin v) = Some d"
       "formatParam_scan piForms (Fin (- v)) = Some (''-'' @ d)"
       "parseParamExpr d = Some (Fin v)" "parseParamExpr (''-'' @ d) = Some (Fin (- v))" for v d
    using that by (simp add: formatParam_def)
  then show ?thesis using table_facts by fast
qed

theorem formatParam_roundtrip_witness:
  "formatParam (\<lambda>x. []) (Fin (3 * pi / 4)) = ''3*pi/4''
   \<and> formatParam (\<lambda>x. []) (Fin (- (3 * pi / 4))) = ''-3*pi/4''
   \<and> (\<exists>r. parseParamExpr (formatParam (\<lambda>x. []) (Fin (3 * pi / 4))) = Some (Fin r)
            \<and> \<bar>r - 3 * pi / 4\<bar> < 1 / 10 ^ 10)
   \<and> (\<exists>r. parseParamExpr (formatParam (\<lambda>x. []) (Fin (- (3 * pi / 4)))) = Some (Fin r)
            \<and> \<bar>r - (- (3 * pi / 4))\<bar> < 1 / 10 ^ 10)"
proof -
  have m: "(3 * pi / 4, ''3*pi/4'')
             \<in> set [(2 * pi, ''2*pi''), (pi, ''pi''), (pi / 2, ''pi/2''), (pi / 3, ''pi/3''),
                     (pi / 4, ''pi/4''), (pi / 6, ''pi/6''), (pi / 8, ''pi/8''),
                     (3 * pi / 4, ''3*pi/4''), (3 * pi / 2, ''3*pi/2''), (2 * pi / 3, ''2*pi/3'')]"
    by simp
  from formatParam_roundtrip [of "\<lambda>x. []"] m show ?thesis
    by fastforce
qed

text \<open>
  Claim C9 (as amended). If a part of the input between commas is not blank (it has
  text left after \<^verbatim>\<open>strings.TrimSpace\<close>) and \<^verbatim>\<open>parseParamExpr\<close> fails on it,
  \<^verbatim>\<open>parseParams\<close> returns \<^verbatim>\<open>nil\<close>. This is a property of the loop, whatever the two
  functions answer on the part: it holds for every \<open>trim\<close> and \<open>parse\<close> in their place,
  and so for the model's \<open>TrimSpace\<close> and \<open>parseParamExpr\<close>.
\<close>

theorem parseParams_all_or_nothing:
  assumes "part \<in> set (Split input CHR '','')" and "trim part \<noteq> []"
    and "parse (trim part) = None"
  shows "parseParams_loop trim parse (Split input CHR '','') None = None
         \<and> (trim = TrimSpace \<and> parse = parseParamExpr \<longrightarrow> parseParams input = None)"
  unfolding parseParams_def using assms parseParams_loop_fail [of "Split input CHR '',''" trim parse None]
  by blast

theorem parseParams_all_or_nothing_witness:
  "''garbage'' \<in> set (Split ''pi/2,garbage'' CHR '','') \<and> TrimSpace ''garbage'' \<noteq> []
   \<and> parseParamExpr (TrimSpace ''garbage'') = None \<and> parseParams ''pi/2,garbage'' = None"
  using parseParams_all_or_nothing [of "''garbage''" "''pi/2,garbage''" TrimSpace parseParamExpr]
  by (simp add: garbage_facts parseParamExpr_garbage)

text \<open>
  Claim C9 as stated fails on an empty part. The parts of \<^verbatim>\<open>1,,2\<close> are \<^verbatim>\<open>1\<close>, the empty
  string and \<^verbatim>\<open>2\<close>; \<^verbatim>\<open>parseParamExpr\<close> fails on the empty string, and \<^verbatim>\<open>parseParams\<close>
  skips it and returns the two values that did parse.
\<close>

theorem parseParams_skips_empty_part:
  "Split ''1,,2'' CHR '','' = [''1'', [], ''2'']
   \<and> parseParamExpr [] = None
   \<and> parseParams ''1,,2'' = Some [Fin 1, Fin 2]"
  by (simp add: parseParams_example parseParamExpr_empty parseParams_skips_blank)

end
